theory Spec2Isabelle
  imports Complex_Main
begin

section \<open>Errors raised by the interpreter\<close>

datatype py_error = IndexError | UnboundLocalError | ValueError | TypeError

section \<open>Face completion: the column split of the images\<close>

text \<open>
  \<^verbatim>\<open>plot_multioutput_face_completion\<close>: a two-dimensional array is a list of rows.
  \<^verbatim>\<open>a[:, :k]\<close> keeps the first \<open>k\<close> columns of every row and \<^verbatim>\<open>a[:, k:]\<close> drops
  them; both clip at the row length, as \<open>take\<close> and \<open>drop\<close> do.
  \<^verbatim>\<open>
  n_pixels = data.shape[1]
  X_train = train[:, : (n_pixels + 1) // 2]
  y_train = train[:, n_pixels // 2 :]
  X_test = test[:, : (n_pixels + 1) // 2]
  y_test = test[:, n_pixels // 2 :]
  \<close>
\<close>

definition X_train :: "nat \<Rightarrow> 'a list list \<Rightarrow> 'a list list" where
  "X_train n_pixels train = map (take ((n_pixels + 1) div 2)) train"

definition y_train :: "nat \<Rightarrow> 'a list list \<Rightarrow> 'a list list" where
  "y_train n_pixels train = map (drop (n_pixels div 2)) train"

definition X_test :: "nat \<Rightarrow> 'a list list \<Rightarrow> 'a list list" where
  "X_test n_pixels test = map (take ((n_pixels + 1) div 2)) test"

definition y_test :: "nat \<Rightarrow> 'a list list \<Rightarrow> 'a list list" where
  "y_test n_pixels test = map (drop (n_pixels div 2)) test"

text \<open>The column ranges the two slices select.\<close>

definition upper_columns :: "nat \<Rightarrow> nat list" where
  "upper_columns n_pixels = [0 ..< (n_pixels + 1) div 2]"

definition lower_columns :: "nat \<Rightarrow> nat list" where
  "lower_columns n_pixels = [n_pixels div 2 ..< n_pixels]"

text \<open>\<^verbatim>\<open>np.hstack\<close> of two one-dimensional arrays is their concatenation.\<close>

definition hstack :: "'a list \<Rightarrow> 'a list \<Rightarrow> 'a list" where
  "hstack a b = a @ b"

text \<open>
  \<^verbatim>\<open>true_face = np.hstack((X_test[i], y_test[i]))\<close>; indexing a row that is not
  there raises \<^verbatim>\<open>IndexError\<close>.
\<close>

definition row_at :: "'a list list \<Rightarrow> nat \<Rightarrow> py_error + 'a list" where
  "row_at a i = (if i < length a then Inr (a ! i) else Inl IndexError)"

definition true_face :: "nat \<Rightarrow> 'a list list \<Rightarrow> nat \<Rightarrow> py_error + 'a list" where
  "true_face n_pixels test i =
     (case row_at (X_test n_pixels test) i of
        Inl e \<Rightarrow> Inl e
      | Inr upper \<Rightarrow>
          (case row_at (y_test n_pixels test) i of
             Inl e \<Rightarrow> Inl e
           | Inr lower \<Rightarrow> Inr (hstack upper lower)))"

section \<open>Face completion: the halves partition every row\<close>

lemma X_test_columns:
  assumes "i < length test" and "length (test ! i) = n_pixels"
  shows "X_test n_pixels test ! i = map (\<lambda>j. test ! i ! j) (upper_columns n_pixels)"
proof -
  have "(n_pixels + 1) div 2 \<le> length (test ! i)"
    using assms(2) by simp
  then have "take ((n_pixels + 1) div 2) (test ! i)
      = map (\<lambda>j. test ! i ! j) [0 ..< (n_pixels + 1) div 2]"
    by (intro nth_equalityI) simp_all
  then show ?thesis
    using assms(1) by (simp add: X_test_def upper_columns_def)
qed

lemma y_test_columns:
  assumes "i < length test" and "length (test ! i) = n_pixels"
  shows "y_test n_pixels test ! i = map (\<lambda>j. test ! i ! j) (lower_columns n_pixels)"
proof -
  have "drop (n_pixels div 2) (test ! i)
      = map (\<lambda>j. test ! i ! j) [n_pixels div 2 ..< length (test ! i)]"
    by (rule nth_equalityI) simp_all
  then show ?thesis
    using assms by (simp add: y_test_def lower_columns_def)
qed

text \<open>
  C8. For an even number of pixels the upper-half columns \<open>[0, (n_pixels+1) div 2)\<close>
  and the lower-half columns \<open>[n_pixels div 2, n_pixels)\<close> are exactly the columns of
  a row, in order and without overlap; the two slices of test row \<open>i\<close> hold the entries of
  these columns, and stacking them gives back the test row.
\<close>

theorem face_halves_partition:
  assumes "even n_pixels"
    and "i < length test"
    and "length (test ! i) = n_pixels"
  shows "upper_columns n_pixels @ lower_columns n_pixels = [0 ..< n_pixels]
    \<and> set (upper_columns n_pixels) \<inter> set (lower_columns n_pixels) = {}
    \<and> X_test n_pixels test ! i = map (\<lambda>j. test ! i ! j) (upper_columns n_pixels)
    \<and> y_test n_pixels test ! i = map (\<lambda>j. test ! i ! j) (lower_columns n_pixels)
    \<and> true_face n_pixels test i = Inr (test ! i)"
proof -
  from assms(1) have half: "(n_pixels + 1) div 2 = n_pixels div 2"
    by (elim evenE) simp
  then have half': "Suc n_pixels div 2 = n_pixels div 2"
    by simp
  have "[0 ..< n_pixels div 2] @ [n_pixels div 2 ..< n_pixels] = [0 ..< n_pixels]"
    by (metis div_le_dividend le0 upt_add_eq_append le_add_diff_inverse)
  then have cover: "upper_columns n_pixels @ lower_columns n_pixels = [0 ..< n_pixels]"
    by (simp add: upper_columns_def lower_columns_def half')
  have disj: "set (upper_columns n_pixels) \<inter> set (lower_columns n_pixels) = {}"
    by (auto simp: upper_columns_def lower_columns_def half')
  have face: "true_face n_pixels test i = Inr (test ! i)"
    using assms(2)
    by (simp add: true_face_def row_at_def X_test_def y_test_def hstack_def half')
  show ?thesis
    using cover disj face X_test_columns [OF assms(2,3)] y_test_columns [OF assms(2,3)]
    by simp
qed

theorem face_halves_partition_witness:
  "even (4::nat) \<and> (1::nat) < length [[1, 2, 3, 4], [5, 6, 7, 8::int]]
    \<and> upper_columns 4 = [0, 1] \<and> lower_columns 4 = [2, 3]
    \<and> X_test 4 [[1, 2, 3, 4], [5, 6, 7, 8::int]] ! 1 = [5, 6]
    \<and> y_test 4 [[1, 2, 3, 4], [5, 6, 7, 8::int]] ! 1 = [7, 8]
    \<and> true_face 4 [[1, 2, 3, 4], [5, 6, 7, 8::int]] 1 = Inr [5, 6, 7, 8]"
proof -
  have e: "even (4::nat)" by simp
  have l: "(1::nat) < length [[1, 2, 3, 4], [5, 6, 7, 8::int]]" by simp
  have n: "length ([[1, 2, 3, 4], [5, 6, 7, 8::int]] ! 1) = 4" by simp
  have u: "upper_columns 4 = [0, 1]"
    by (simp add: upper_columns_def upt_rec)
  have lo: "lower_columns 4 = [2, 3]"
    by (simp add: lower_columns_def upt_rec)
  show ?thesis
    using face_halves_partition [OF e l n] e l u lo
    by (simp add: X_test_def y_test_def)
qed

section \<open>ROC with cross-validation: the mean curve and its band\<close>

text \<open>
  \<^verbatim>\<open>plot_roc_crossval\<close>. Arrays of floats are lists of reals. What the library
  returns for a fold (\<^verbatim>\<open>viz.fpr\<close>, \<^verbatim>\<open>viz.tpr\<close>, \<^verbatim>\<open>viz.roc_auc\<close>) is the
  input; \<^verbatim>\<open>np.interp\<close> is a parameter, of which only the shape of its result is
  used.
  \<^verbatim>\<open>
  mean_fpr = np.linspace(0, 1, 100)
  for fold, (train, test) in enumerate(cv.split(X, y)):
      ...
      interp_tpr = np.interp(mean_fpr, viz.fpr, viz.tpr)
      interp_tpr[0] = 0.0
      tprs.append(interp_tpr)
      aucs.append(viz.roc_auc)
  mean_tpr = np.mean(tprs, axis=0)
  mean_tpr[-1] = 1.0
  std_tpr = np.std(tprs, axis=0)
  tprs_upper = np.minimum(mean_tpr + std_tpr, 1)
  tprs_lower = np.maximum(mean_tpr - std_tpr, 0)
  \<close>
\<close>

record roc_display =
  fpr :: "real list"
  tpr :: "real list"
  roc_auc :: real

text \<open>\<^verbatim>\<open>np.linspace(start, stop, num)\<close>, end point included.\<close>

definition linspace :: "real \<Rightarrow> real \<Rightarrow> nat \<Rightarrow> real list" where
  "linspace start stop num =
     map (\<lambda>i. start + real i * ((stop - start) / real (num - 1))) [0 ..< num]"

text \<open>\<^verbatim>\<open>a[0] = v\<close> and \<^verbatim>\<open>a[-1] = v\<close>; an empty array has no such item.\<close>

definition setitem_first :: "real list \<Rightarrow> real \<Rightarrow> py_error + real list" where
  "setitem_first a v = (if a = [] then Inl IndexError else Inr (a[0 := v]))"

definition setitem_last :: "real list \<Rightarrow> real \<Rightarrow> py_error + real list" where
  "setitem_last a v = (if a = [] then Inl IndexError else Inr (a[length a - 1 := v]))"

text \<open>
  \<^verbatim>\<open>np.mean(rows, axis=0)\<close> and \<^verbatim>\<open>np.std(rows, axis=0)\<close> (population standard
  deviation) of a list of equally long arrays. Of an empty list \<^verbatim>\<open>np.mean\<close> is the scalar
  \<^verbatim>\<open>nan\<close>, whose item assignment raises \<^verbatim>\<open>TypeError\<close>; rows of different lengths raise
  \<^verbatim>\<open>ValueError\<close>.
\<close>

definition column :: "real list list \<Rightarrow> nat \<Rightarrow> real list" where
  "column rows j = map (\<lambda>row. row ! j) rows"

definition mean :: "real list \<Rightarrow> real" where
  "mean xs = sum_list xs / real (length xs)"

definition std :: "real list \<Rightarrow> real" where
  "std xs = sqrt (mean (map (\<lambda>x. (x - mean xs)\<^sup>2) xs))"

definition rectangular :: "real list list \<Rightarrow> bool" where
  "rectangular rows = list_all (\<lambda>row. length row = length (hd rows)) rows"

definition np_mean_axis0 :: "real list list \<Rightarrow> py_error + real list" where
  "np_mean_axis0 rows =
     (if rows = [] then Inl TypeError
      else if \<not> rectangular rows then Inl ValueError
      else Inr (map (\<lambda>j. mean (column rows j)) [0 ..< length (hd rows)]))"

definition np_std_axis0 :: "real list list \<Rightarrow> py_error + real list" where
  "np_std_axis0 rows =
     (if rows = [] then Inl TypeError
      else if \<not> rectangular rows then Inl ValueError
      else Inr (map (\<lambda>j. std (column rows j)) [0 ..< length (hd rows)]))"

definition np_minimum :: "real list \<Rightarrow> real \<Rightarrow> real list" where
  "np_minimum a c = map (\<lambda>x. min x c) a"

definition np_maximum :: "real list \<Rightarrow> real \<Rightarrow> real list" where
  "np_maximum a c = map (\<lambda>x. max x c) a"

definition np_add :: "real list \<Rightarrow> real list \<Rightarrow> real list" where
  "np_add a b = map2 (+) a b"

definition np_sub :: "real list \<Rightarrow> real list \<Rightarrow> real list" where
  "np_sub a b = map2 (-) a b"

type_synonym interp_fn = "real list \<Rightarrow> real list \<Rightarrow> real list \<Rightarrow> real list"

text \<open>The loop over the folds, with the lists \<^verbatim>\<open>tprs\<close> and \<^verbatim>\<open>aucs\<close> it appends to.\<close>

fun fold_loop :: "interp_fn \<Rightarrow> real list \<Rightarrow> roc_display list \<Rightarrow> real list list \<Rightarrow> real list
    \<Rightarrow> py_error + (real list list \<times> real list)" where
  "fold_loop interp mean_fpr [] tprs aucs = Inr (tprs, aucs)"
| "fold_loop interp mean_fpr (viz # rest) tprs aucs =
     (case setitem_first (interp mean_fpr (fpr viz) (tpr viz)) 0 of
        Inl e \<Rightarrow> Inl e
      | Inr interp_tpr \<Rightarrow>
          fold_loop interp mean_fpr rest (tprs @ [interp_tpr]) (aucs @ [roc_auc viz]))"

record roc_plot =
  mean_fpr :: "real list"
  tprs :: "real list list"
  mean_tpr :: "real list"
  tprs_upper :: "real list"
  tprs_lower :: "real list"

definition roc_crossval :: "interp_fn \<Rightarrow> roc_display list \<Rightarrow> py_error + roc_plot" where
  "roc_crossval interp vizs =
     (let grid = linspace 0 1 100 in
      case fold_loop interp grid vizs [] [] of
        Inl e \<Rightarrow> Inl e
      | Inr (ts, aucs) \<Rightarrow>
          (case np_mean_axis0 ts of
             Inl e \<Rightarrow> Inl e
           | Inr m0 \<Rightarrow>
               (case setitem_last m0 1 of
                  Inl e \<Rightarrow> Inl e
                | Inr m \<Rightarrow>
                    (case np_std_axis0 ts of
                       Inl e \<Rightarrow> Inl e
                     | Inr std_tpr \<Rightarrow>
                         Inr \<lparr>mean_fpr = grid, tprs = ts, mean_tpr = m,
                              tprs_upper = np_minimum (np_add m std_tpr) 1,
                              tprs_lower = np_maximum (np_sub m std_tpr) 0\<rparr>))))"

text \<open>
  \<^verbatim>\<open>np.interp(x, xp, fp)\<close> for sample points \<^verbatim>\<open>xp\<close> in increasing order: the value at
  \<^verbatim>\<open>x\<close> lies on the segment that starts at the last sample point not above \<^verbatim>\<open>x\<close>, and is
  \<^verbatim>\<open>fp[0]\<close> to the left and \<^verbatim>\<open>fp[-1]\<close> to the right of all of them. (With no sample point
  \<^verbatim>\<open>np.interp\<close> raises; the value 0 stands for that here.)
\<close>

fun interp_at :: "(real \<times> real) list \<Rightarrow> real \<Rightarrow> real" where
  "interp_at [] x = 0"
| "interp_at [(x0, y0)] x = y0"
| "interp_at ((x0, y0) # (x1, y1) # ps) x =
     (if x < x0 then y0
      else if x1 \<le> x then interp_at ((x1, y1) # ps) x
      else y0 + (x - x0) * ((y1 - y0) / (x1 - x0)))"

definition np_interp :: interp_fn where
  "np_interp x xp fp = map (interp_at (zip xp fp)) x"

text \<open>
  Five folds: a perfect classifier, whose curve jumps to 1 at \<^verbatim>\<open>fpr = 0\<close>; three whose curve
  jumps from 0 to 1 at \<^verbatim>\<open>fpr = 1/2\<close>; and a curve that stays at 0, so that the mean over the
  folds does not end at 1 by itself.
\<close>

definition perfect_fold :: roc_display where
  "perfect_fold = \<lparr>fpr = [0, 0, 1], tpr = [0, 1, 1], roc_auc = 1\<rparr>"

definition step_fold :: roc_display where
  "step_fold = \<lparr>fpr = [0, 1 / 2, 1 / 2, 1], tpr = [0, 0, 1, 1], roc_auc = 1 / 2\<rparr>"

definition flat_fold :: roc_display where
  "flat_fold = \<lparr>fpr = [0, 1], tpr = [0, 0], roc_auc = 0\<rparr>"

definition five_folds :: "roc_display list" where
  "five_folds = [perfect_fold, step_fold, step_fold, step_fold, flat_fold]"

section \<open>ROC with cross-validation: pinned end points and clipped band\<close>

lemma length_linspace: "length (linspace a b n) = n"
  by (simp add: linspace_def)

lemma fold_loop_ok:
  assumes shape: "\<And>x xp fp. length (interp x xp fp) = length x"
    and grid: "grid \<noteq> []"
    and inv: "\<forall>t \<in> set acc. length t = length grid \<and> t ! 0 = 0"
  shows "\<exists>ts aucs. fold_loop interp grid vizs acc as = Inr (ts, aucs)
      \<and> length ts = length acc + length vizs
      \<and> (\<forall>t \<in> set ts. length t = length grid \<and> t ! 0 = 0)"
  using inv
proof (induction vizs arbitrary: acc as)
  case Nil
  then show ?case by simp
next
  case (Cons viz rest)
  let ?a = "interp grid (fpr viz) (tpr viz)"
  have ne: "?a \<noteq> []"
    using shape [of grid "fpr viz" "tpr viz"] grid by auto
  then have step: "setitem_first ?a 0 = Inr (?a[0 := 0])"
    by (simp add: setitem_first_def)
  have pos: "0 < length ?a"
    using ne by simp
  have "\<forall>t \<in> set (acc @ [?a[0 := 0]]). length t = length grid \<and> t ! 0 = 0"
    using Cons.prems pos shape [of grid "fpr viz" "tpr viz"] by auto
  from Cons.IH [OF this, of "as @ [roc_auc viz]"] step
  show ?case by auto
qed

lemma np_minimum_le: "i < length a \<Longrightarrow> np_minimum a c ! i \<le> c"
  by (simp add: np_minimum_def)

lemma np_maximum_ge: "i < length a \<Longrightarrow> c \<le> np_maximum a c ! i"
  by (simp add: np_maximum_def)

text \<open>
  C9. With at least one fold, the script runs through; every per-fold interpolated TPR
  array has 100 entries and first entry 0, the mean TPR array has last entry 1, and at
  each of the 100 grid points the upper band is at most 1 and the lower band at least 0.
\<close>

theorem roc_band_invariants:
  assumes shape: "\<And>x xp fp. length (interp x xp fp) = length x"
    and folds: "vizs \<noteq> []"
  shows "\<exists>r. roc_crossval interp vizs = Inr r
    \<and> length (tprs r) = length vizs
    \<and> (\<forall>t \<in> set (tprs r). length t = 100 \<and> t ! 0 = 0)
    \<and> length (mean_tpr r) = 100 \<and> last (mean_tpr r) = 1
    \<and> length (tprs_upper r) = 100 \<and> length (tprs_lower r) = 100
    \<and> (\<forall>i < 100. tprs_upper r ! i \<le> 1 \<and> 0 \<le> tprs_lower r ! i)"
proof -
  let ?grid = "linspace 0 1 100"
  have g: "?grid \<noteq> []" "length ?grid = 100"
    using length_linspace [of 0 1 100] by auto
  obtain ts aucs where loop: "fold_loop interp ?grid vizs [] [] = Inr (ts, aucs)"
    and len: "length ts = length vizs"
    and rows: "\<forall>t \<in> set ts. length t = 100 \<and> t ! 0 = 0"
    using fold_loop_ok [where interp = interp and grid = ?grid and acc = "[]" and vizs = vizs and as = "[]"]
      shape g by auto
  from len folds have ne: "ts \<noteq> []" by auto
  then have "hd ts \<in> set ts" by simp
  with rows have hd: "length (hd ts) = 100" by blast
  with rows have rect: "rectangular ts"
    by (simp add: rectangular_def list_all_iff)
  define m0 where "m0 = map (\<lambda>j. mean (column ts j)) [0 ..< 100]"
  define s where "s = map (\<lambda>j. std (column ts j)) [0 ..< 100]"
  define m where "m = m0[length m0 - 1 := 1]"
  have mean: "np_mean_axis0 ts = Inr m0"
    using ne rect hd by (simp add: np_mean_axis0_def m0_def)
  have sd: "np_std_axis0 ts = Inr s"
    using ne rect hd by (simp add: np_std_axis0_def s_def)
  have lm0: "length m0 = 100" by (simp add: m0_def)
  then have set_last: "setitem_last m0 1 = Inr m"
    by (auto simp: setitem_last_def m_def)
  have lm: "length m = 100" by (simp add: m_def lm0)
  have ls: "length s = 100" by (simp add: s_def)
  have "m \<noteq> []" using lm by auto
  then have "last m = m ! (length m0 - 1)"
    by (simp add: last_conv_nth lm lm0)
  also have "\<dots> = 1"
    unfolding m_def using lm0 by (intro nth_list_update_eq) simp
  finally have last: "last m = 1" .
  define r where "r = \<lparr>mean_fpr = ?grid, tprs = ts, mean_tpr = m,
      tprs_upper = np_minimum (np_add m s) 1, tprs_lower = np_maximum (np_sub m s) 0\<rparr>"
  have run: "roc_crossval interp vizs = Inr r"
    by (simp add: roc_crossval_def loop mean set_last sd r_def)
  have ladd: "length (np_add m s) = 100" "length (np_sub m s) = 100"
    by (simp_all add: np_add_def np_sub_def lm ls)
  have band: "\<forall>i < 100. tprs_upper r ! i \<le> 1 \<and> 0 \<le> tprs_lower r ! i"
    using np_minimum_le [of _ "np_add m s" 1] np_maximum_ge [of _ "np_sub m s" 0] ladd
    by (simp add: r_def)
  have "length (tprs_upper r) = 100" "length (tprs_lower r) = 100"
    by (simp_all add: r_def np_minimum_def np_maximum_def ladd)
  with run len rows lm last band show ?thesis
    by (intro exI [of _ r]) (simp add: r_def)
qed

text \<open>What the script computes, as a value.\<close>

lemma fold_loop_rows:
  assumes shape: "\<And>x xp fp. length (interp x xp fp) = length x"
    and grid: "grid \<noteq> []"
  shows "fold_loop interp grid vizs acc as =
    Inr (acc @ map (\<lambda>viz. (interp grid (fpr viz) (tpr viz))[0 := 0]) vizs, as @ map roc_auc vizs)"
proof (induction vizs arbitrary: acc as)
  case Nil
  then show ?case by simp
next
  case (Cons viz rest)
  have "interp grid (fpr viz) (tpr viz) \<noteq> []"
    using shape [of grid "fpr viz" "tpr viz"] grid by auto
  then show ?case
    by (simp add: setitem_first_def Cons.IH)
qed

lemma roc_crossval_run:
  assumes shape: "\<And>x xp fp. length (interp x xp fp) = length x"
    and folds: "vizs \<noteq> []"
    and ts: "ts = map (\<lambda>viz. (interp (linspace 0 1 100) (fpr viz) (tpr viz))[0 := 0]) vizs"
    and m: "m = (map (\<lambda>j. mean (column ts j)) [0 ..< 100])[99 := 1]"
    and s: "s = map (\<lambda>j. std (column ts j)) [0 ..< 100]"
  shows "roc_crossval interp vizs = Inr \<lparr>mean_fpr = linspace 0 1 100, tprs = ts, mean_tpr = m,
     tprs_upper = np_minimum (np_add m s) 1, tprs_lower = np_maximum (np_sub m s) 0\<rparr>"
proof -
  let ?grid = "linspace 0 1 100"
  have g: "?grid \<noteq> []" "length ?grid = 100"
    using length_linspace [of 0 1 100] by auto
  have loop: "fold_loop interp ?grid vizs [] [] = Inr (ts, map roc_auc vizs)"
    using fold_loop_rows [of interp ?grid vizs "[]" "[]"] shape g(1) by (simp add: ts)
  have ne: "ts \<noteq> []" using folds by (simp add: ts)
  have rows: "\<forall>t \<in> set ts. length t = 100"
    using shape g(2) by (auto simp: ts)
  then have hd: "length (hd ts) = 100" using ne by simp
  with rows have rect: "rectangular ts"
    by (simp add: rectangular_def list_all_iff)
  have mean: "np_mean_axis0 ts = Inr (map (\<lambda>j. mean (column ts j)) [0 ..< 100])"
    using ne rect hd by (simp add: np_mean_axis0_def)
  have sd: "np_std_axis0 ts = Inr s"
    using ne rect hd by (simp add: np_std_axis0_def s)
  have set_last: "setitem_last (map (\<lambda>j. mean (column ts j)) [0 ..< 100]) 1 = Inr m"
    by (simp add: setitem_last_def m del: upt_rec_numeral) 
  show ?thesis
    by (simp add: roc_crossval_def loop mean set_last sd del: upt_rec_numeral)
qed


lemma linspace_nth: "i < 100 \<Longrightarrow> linspace 0 1 100 ! i = real i / 99"
  by (simp add: linspace_def del: upt_rec_numeral)

lemma np_interp_nth:
  "i < length x \<Longrightarrow> np_interp x xp fp ! i = interp_at (zip xp fp) (x ! i)"
  by (simp add: np_interp_def)

lemma row_nth:
  "0 < i \<Longrightarrow> i < 100 \<Longrightarrow>
    (np_interp (linspace 0 1 100) xp fp)[0 := 0] ! i = interp_at (zip xp fp) (real i / 99)"
  by (simp add: np_interp_nth length_linspace linspace_nth)

lemma sqrt_4_25: "sqrt (4 / 25) = 2 / 5"
  using real_sqrt_abs [of "2 / 5"] by (simp add: power2_eq_square)

lemma std_one_of_five: "std [1, 0, 0, 0, 0] = 2 / 5"
  by (simp add: std_def mean_def power2_eq_square sqrt_4_25)

lemma std_four_of_five: "std [1, 1, 1, 1, 0] = 2 / 5"
  by (simp add: std_def mean_def power2_eq_square sqrt_4_25)

text \<open>
  The run on the five folds. At grid point 0 the interpolated curve of the perfect fold is 1
  and the assignment makes it 0; at the last grid point the mean over the folds is 4/5 and
  the assignment makes it 1; at grid point 25 the mean less the deviation is -1/5 and the lower
  band is 0; at grid point 75 the mean plus the deviation is 6/5 and the upper band is 1.
\<close>

theorem roc_band_invariants_witness:
  "\<exists>r. roc_crossval np_interp five_folds = Inr r \<and> length (tprs r) = 5
     \<and> np_interp (mean_fpr r) (fpr perfect_fold) (tpr perfect_fold) ! 0 = 1
     \<and> tprs r ! 0 ! 0 = 0
     \<and> mean (column (tprs r) 99) = 4 / 5 \<and> last (mean_tpr r) = 1
     \<and> mean_tpr r ! 25 - std (column (tprs r) 25) = - (1 / 5) \<and> tprs_lower r ! 25 = 0
     \<and> tprs_upper r ! 25 = 3 / 5
     \<and> mean_tpr r ! 75 + std (column (tprs r) 75) = 6 / 5 \<and> tprs_upper r ! 75 = 1
     \<and> tprs_lower r ! 75 = 2 / 5
     \<and> tprs_upper r ! 99 = 1 \<and> tprs_lower r ! 99 = 3 / 5"
proof -
  let ?grid = "linspace 0 1 100"
  have shape: "\<And>x xp fp. length (np_interp x xp fp) = length x"
    by (simp add: np_interp_def)
  have ne: "five_folds \<noteq> []"
    by (simp add: five_folds_def)
  from roc_band_invariants [of np_interp five_folds, OF shape ne]
  obtain r where run: "roc_crossval np_interp five_folds = Inr r"
    and len: "length (tprs r) = length five_folds"
    and last: "last (mean_tpr r) = 1"
    by blast
  define ts where "ts = map (\<lambda>viz. (np_interp ?grid (fpr viz) (tpr viz))[0 := 0]) five_folds"
  define m where "m = (map (\<lambda>j. mean (column ts j)) [0 ..< 100])[99 := 1]"
  define s where "s = map (\<lambda>j. std (column ts j)) [0 ..< 100]"
  from roc_crossval_run [of np_interp five_folds ts m s, OF shape ne ts_def m_def s_def] run
  have r: "r = \<lparr>mean_fpr = ?grid, tprs = ts, mean_tpr = m,
      tprs_upper = np_minimum (np_add m s) 1, tprs_lower = np_maximum (np_sub m s) 0\<rparr>"
    by simp
  have raw: "np_interp ?grid (fpr perfect_fold) (tpr perfect_fold) ! 0 = 1"
    by (simp add: np_interp_nth length_linspace linspace_nth perfect_fold_def)
  have first: "ts ! 0 ! 0 = 0"
    by (simp add: ts_def five_folds_def np_interp_def length_linspace)
  have c25: "column ts 25 = [1, 0, 0, 0, 0]"
    by (simp add: column_def ts_def five_folds_def np_interp_nth length_linspace linspace_nth
        perfect_fold_def step_fold_def flat_fold_def)
  have c75: "column ts 75 = [1, 1, 1, 1, 0]"
    by (simp add: column_def ts_def five_folds_def np_interp_nth length_linspace linspace_nth
        perfect_fold_def step_fold_def flat_fold_def)
  have c99: "column ts 99 = [1, 1, 1, 1, 0]"
    by (simp add: column_def ts_def five_folds_def np_interp_nth length_linspace linspace_nth
        perfect_fold_def step_fold_def flat_fold_def)
  have m25: "m ! 25 = 1 / 5"
    by (simp add: m_def c25 mean_def del: upt_rec_numeral)
  have m75: "m ! 75 = 4 / 5"
    by (simp add: m_def c75 mean_def del: upt_rec_numeral)
  have m99: "m ! 99 = 1"
    by (simp add: m_def del: upt_rec_numeral)
  have s25: "s ! 25 = 2 / 5"
    by (simp add: s_def c25 std_one_of_five del: upt_rec_numeral)
  have s75: "s ! 75 = 2 / 5"
    by (simp add: s_def c75 std_four_of_five del: upt_rec_numeral)
  have s99: "s ! 99 = 2 / 5"
    by (simp add: s_def c99 std_four_of_five del: upt_rec_numeral)
  have lm: "length m = 100" and ls: "length s = 100"
    by (simp_all add: m_def s_def)
  have upper: "np_minimum (np_add m s) 1 ! i = min (m ! i + s ! i) 1" if "i < 100" for i
    using that by (simp add: np_minimum_def np_add_def lm ls)
  have lower: "np_maximum (np_sub m s) 0 ! i = max (m ! i - s ! i) 0" if "i < 100" for i
    using that by (simp add: np_maximum_def np_sub_def lm ls)
  have "length (tprs r) = 5"
    by (simp add: r ts_def five_folds_def)
  moreover have "np_interp (mean_fpr r) (fpr perfect_fold) (tpr perfect_fold) ! 0 = 1"
    using raw by (simp add: r)
  moreover have "tprs r ! 0 ! 0 = 0"
    using first by (simp add: r)
  moreover have "mean (column (tprs r) 99) = 4 / 5"
    by (simp add: r c99 mean_def)
  moreover have "mean_tpr r ! 25 - std (column (tprs r) 25) = - (1 / 5)"
    by (simp add: r c25 m25 std_one_of_five)
  moreover have "tprs_lower r ! 25 = 0" "tprs_upper r ! 25 = 3 / 5"
    by (simp_all add: r upper lower m25 s25)
  moreover have "mean_tpr r ! 75 + std (column (tprs r) 75) = 6 / 5"
    by (simp add: r c75 m75 std_four_of_five)
  moreover have "tprs_upper r ! 75 = 1" "tprs_lower r ! 75 = 2 / 5"
    by (simp_all add: r upper lower m75 s75)
  moreover have "tprs_upper r ! 99 = 1" "tprs_lower r ! 99 = 3 / 5"
    by (simp_all add: r upper lower m99 s99)
  ultimately show ?thesis
    using run last by blast
qed

section \<open>GMM covariances: the ellipse of every component\<close>

text \<open>
  \<^verbatim>\<open>plot_gmm_covariances\<close>. An array is a scalar, a list, a list of rows or a list of
  matrices; the attribute \<^verbatim>\<open>covariances_\<close> of a mixture has one of these shapes
  depending on \<^verbatim>\<open>covariance_type\<close>.
\<close>

datatype ndarray = A0 real | A1 "real list" | A2 "real list list" | A3 "real list list list"

record gmm =
  covariance_type :: string
  covariances' :: ndarray
  means' :: ndarray

definition colors :: "string list" where
  "colors = [''navy'', ''turquoise'', ''darkorange'']"

fun getitem :: "ndarray \<Rightarrow> nat \<Rightarrow> py_error + ndarray" where
  "getitem (A0 x) n = Inl IndexError"
| "getitem (A1 xs) n = (if n < length xs then Inr (A0 (xs ! n)) else Inl IndexError)"
| "getitem (A2 xs) n = (if n < length xs then Inr (A1 (xs ! n)) else Inl IndexError)"
| "getitem (A3 xs) n = (if n < length xs then Inr (A2 (xs ! n)) else Inl IndexError)"

fun slice_2 :: "ndarray \<Rightarrow> py_error + ndarray" where
  "slice_2 (A0 x) = Inl IndexError"
| "slice_2 (A1 xs) = Inr (A1 (take 2 xs))"
| "slice_2 (A2 xs) = Inr (A2 (take 2 xs))"
| "slice_2 (A3 xs) = Inr (A3 (take 2 xs))"

fun slice_2_2 :: "ndarray \<Rightarrow> py_error + ndarray" where
  "slice_2_2 (A0 x) = Inl IndexError"
| "slice_2_2 (A1 xs) = Inl IndexError"
| "slice_2_2 (A2 xs) = Inr (A2 (map (take 2) (take 2 xs)))"
| "slice_2_2 (A3 xs) = Inr (A3 (map (take 2) (take 2 xs)))"

fun getitem_slice_2 :: "ndarray \<Rightarrow> nat \<Rightarrow> py_error + ndarray" where
  "getitem_slice_2 (A0 x) n = Inl IndexError"
| "getitem_slice_2 (A1 xs) n = Inl IndexError"
| "getitem_slice_2 (A2 xs) n = (if n < length xs then Inr (A1 (take 2 (xs ! n))) else Inl IndexError)"
| "getitem_slice_2 (A3 xs) n = (if n < length xs then Inr (A2 (take 2 (xs ! n))) else Inl IndexError)"

definition eye :: "nat \<Rightarrow> real list list" where
  "eye k = map (\<lambda>i. map (\<lambda>j. if i = j then 1 else 0) [0 ..< k]) [0 ..< k]"

fun np_diag :: "ndarray \<Rightarrow> py_error + ndarray" where
  "np_diag (A0 x) = Inl ValueError"
| "np_diag (A1 xs) =
     Inr (A2 (map (\<lambda>i. map (\<lambda>j. if i = j then xs ! i else 0) [0 ..< length xs]) [0 ..< length xs]))"
| "np_diag (A2 xs) =
     Inr (A1 (map (\<lambda>i. xs ! i ! i) [0 ..< min (length xs) (case xs of [] \<Rightarrow> 0 | r # _ \<Rightarrow> length r)]))"
| "np_diag (A3 xs) = Inl ValueError"

fun shape_1 :: "ndarray \<Rightarrow> py_error + nat" where
  "shape_1 (A0 x) = Inl IndexError"
| "shape_1 (A1 xs) = Inl IndexError"
| "shape_1 (A2 xs) = Inr (case xs of [] \<Rightarrow> 0 | r # _ \<Rightarrow> length r)"
| "shape_1 (A3 xs) = Inr (case xs of [] \<Rightarrow> 0 | m # _ \<Rightarrow> length m)"

definition bcast :: "nat \<Rightarrow> nat \<Rightarrow> bool" where
  "bcast a b = (a = b \<or> a = 1 \<or> b = 1)"

definition pick :: "nat \<Rightarrow> nat \<Rightarrow> nat" where
  "pick len i = (if len = 1 then 0 else i)"

definition mult_rows :: "real list list \<Rightarrow> real list list \<Rightarrow> py_error + real list list" where
  "mult_rows a b =
     (let ra = length a; ca = (case a of [] \<Rightarrow> 0 | r # _ \<Rightarrow> length r);
          rb = length b; cb = (case b of [] \<Rightarrow> 0 | r # _ \<Rightarrow> length r)
      in if bcast ra rb \<and> bcast ca cb
         then Inr (map (\<lambda>i. map (\<lambda>j. a ! pick ra i ! pick ca j * b ! pick rb i ! pick cb j)
                              [0 ..< (if ca = 1 then cb else ca)])
                       [0 ..< (if ra = 1 then rb else ra)])
         else Inl ValueError)"

fun eye_times :: "nat \<Rightarrow> ndarray \<Rightarrow> py_error + ndarray" where
  "eye_times k (A0 c) = Inr (A2 (map (map (\<lambda>e. e * c)) (eye k)))"
| "eye_times k (A1 xs) = (case mult_rows (eye k) [xs] of Inl e \<Rightarrow> Inl e | Inr m \<Rightarrow> Inr (A2 m))"
| "eye_times k (A2 ys) = (case mult_rows (eye k) ys of Inl e \<Rightarrow> Inl e | Inr m \<Rightarrow> Inr (A2 m))"
| "eye_times k (A3 zs) = Inl ValueError"


record ellipse =
  e_xy :: ndarray
  e_width :: real
  e_height :: real
  e_angle :: real
  e_color :: string

type_synonym axes_fn = "ndarray \<Rightarrow> py_error + real \<times> real \<times> real"

definition assign_covariances :: "gmm \<Rightarrow> nat \<Rightarrow> ndarray option \<Rightarrow> py_error + ndarray option" where
  "assign_covariances g n covariances =
     (if covariance_type g = ''full'' then
        (case getitem (covariances' g) n of
           Inl e \<Rightarrow> Inl e
         | Inr c \<Rightarrow> (case slice_2_2 c of Inl e \<Rightarrow> Inl e | Inr m \<Rightarrow> Inr (Some m)))
      else if covariance_type g = ''tied'' then
        (case slice_2_2 (covariances' g) of Inl e \<Rightarrow> Inl e | Inr m \<Rightarrow> Inr (Some m))
      else if covariance_type g = ''diag'' then
        (case getitem (covariances' g) n of
           Inl e \<Rightarrow> Inl e
         | Inr c \<Rightarrow>
             (case slice_2 c of
                Inl e \<Rightarrow> Inl e
              | Inr d \<Rightarrow> (case np_diag d of Inl e \<Rightarrow> Inl e | Inr m \<Rightarrow> Inr (Some m))))
      else if covariance_type g = ''spherical'' then
        (case shape_1 (means' g) of
           Inl e \<Rightarrow> Inl e
         | Inr k \<Rightarrow>
             (case getitem (covariances' g) n of
                Inl e \<Rightarrow> Inl e
              | Inr c \<Rightarrow> (case eye_times k c of Inl e \<Rightarrow> Inl e | Inr m \<Rightarrow> Inr (Some m))))
      else Inr covariances)"

fun ellipse_loop :: "axes_fn \<Rightarrow> gmm \<Rightarrow> (nat \<times> string) list \<Rightarrow> ndarray option \<Rightarrow> ellipse list
    \<Rightarrow> py_error + ellipse list" where
  "ellipse_loop principal_axes g [] covariances artists = Inr artists"
| "ellipse_loop principal_axes g ((n, color) # rest) covariances artists =
     (case assign_covariances g n covariances of
        Inl e \<Rightarrow> Inl e
      | Inr None \<Rightarrow> Inl UnboundLocalError
      | Inr (Some c) \<Rightarrow>
          (case principal_axes c of
             Inl e \<Rightarrow> Inl e
           | Inr (v0, v1, angle) \<Rightarrow>
               (case getitem_slice_2 (means' g) n of
                  Inl e \<Rightarrow> Inl e
                | Inr centre \<Rightarrow>
                    ellipse_loop principal_axes g rest (Some c)
                      (artists @ [\<lparr>e_xy = centre, e_width = v0, e_height = v1,
                                   e_angle = 180 + angle, e_color = color\<rparr>]))))"

definition make_ellipses :: "axes_fn \<Rightarrow> gmm \<Rightarrow> py_error + ellipse list" where
  "make_ellipses principal_axes g =
     ellipse_loop principal_axes g (enumerate 0 colors) None []"

definition square :: "nat \<Rightarrow> real list list \<Rightarrow> bool" where
  "square d m = (length m = d \<and> list_all (\<lambda>row. length row = d) m)"

definition symmetric :: "real list list \<Rightarrow> bool" where
  "symmetric m = list_all (\<lambda>i. list_all (\<lambda>j. m ! i ! j = m ! j ! i) [0 ..< length m]) [0 ..< length m]"

definition fitted :: "gmm \<Rightarrow> nat \<Rightarrow> nat \<Rightarrow> bool" where
  "fitted g k d =
     ((case means' g of A2 ms \<Rightarrow> length ms = k \<and> list_all (\<lambda>row. length row = d) ms | _ \<Rightarrow> False)
      \<and> (if covariance_type g = ''full'' then
            (case covariances' g of
               A3 cs \<Rightarrow> length cs = k \<and> list_all (\<lambda>c. square d c \<and> symmetric c) cs
             | _ \<Rightarrow> False)
          else if covariance_type g = ''tied'' then
            (case covariances' g of A2 c \<Rightarrow> square d c \<and> symmetric c | _ \<Rightarrow> False)
          else if covariance_type g = ''diag'' then
            (case covariances' g of
               A2 vs \<Rightarrow> length vs = k \<and> list_all (\<lambda>row. length row = d) vs
             | _ \<Rightarrow> False)
          else if covariance_type g = ''spherical'' then
            (case covariances' g of A1 vs \<Rightarrow> length vs = k | _ \<Rightarrow> False)
          else True))"

text \<open>
  Mixtures shaped as the library fits them (the spherical one as on iris: three components,
  four features), and one with a type the function does not know.
\<close>

definition tied_example :: gmm where
  "tied_example = \<lparr>covariance_type = ''tied'',
     covariances' = A2 [[4, 1, 0], [1, 3, 2], [0, 2, 5]],
     means' = A2 [[0, 0, 0], [1, 1, 1]]\<rparr>"

definition spherical_example :: gmm where
  "spherical_example = \<lparr>covariance_type = ''spherical'',
     covariances' = A1 [1 / 4, 1 / 2, 1],
     means' = A2 [[5, 3, 1, 0], [6, 3, 4, 1], [7, 3, 6, 2]]\<rparr>"

definition other_example :: gmm where
  "other_example = \<lparr>covariance_type = ''bogus'',
     covariances' = A1 [1 / 4, 1 / 2, 1],
     means' = A2 [[5, 3, 1, 0], [6, 3, 4, 1], [7, 3, 6, 2]]\<rparr>"

section \<open>GMM covariances: what each branch binds\<close>

lemma unbound:
  assumes "covariance_type g \<notin> {''full'', ''tied'', ''diag'', ''spherical''}"
  shows "make_ellipses f g = Inl UnboundLocalError"
  using assms by (simp add: make_ellipses_def colors_def enumerate_eq_zip upt_rec assign_covariances_def)

lemma symmetricI:
  assumes "\<And>i j. i < length m \<Longrightarrow> j < length m \<Longrightarrow> m ! i ! j = m ! j ! i"
  shows "symmetric m"
  using assms by (simp add: symmetric_def list_all_iff)

lemma symmetricD:
  assumes "symmetric m" "i < length m" "j < length m"
  shows "m ! i ! j = m ! j ! i"
  using assms by (simp add: symmetric_def list_all_iff)

lemma block_square:
  assumes "square d c" "2 \<le> d"
  shows "square 2 (map (take 2) (take 2 c))"
  using assms by (auto simp: square_def list_all_iff dest: in_set_takeD)

lemma block_symmetric:
  assumes "square d c" "symmetric c" "2 \<le> d"
  shows "symmetric (map (take 2) (take 2 c))"
proof (rule symmetricI)
  fix i j
  assume "i < length (map (take 2) (take 2 c))" "j < length (map (take 2) (take 2 c))"
  with assms(1,3) have ij: "i < 2" "j < 2" "i < length c" "j < length c"
    by (auto simp: square_def)
  then show "map (take 2) (take 2 c) ! i ! j = map (take 2) (take 2 c) ! j ! i"
    using symmetricD [OF assms(2) ij(3,4)] by simp
qed

lemma diag_square_symmetric:
  fixes xs :: "real list"
  defines "m \<equiv> map (\<lambda>i. map (\<lambda>j. if i = j then xs ! i else 0) [0 ..< length xs]) [0 ..< length xs]"
  shows "square (length xs) m" "symmetric m"
  unfolding m_def by (auto simp: square_def list_all_iff intro!: symmetricI)

lemma scalar_square_symmetric:
  "square k (map (map (\<lambda>e. e * c)) (eye k))" "symmetric (map (map (\<lambda>e. e * c)) (eye k))"
  by (auto simp: square_def list_all_iff eye_def intro!: symmetricI)

text \<open>
  C10, as the code has it. On a fitted mixture with \<open>k\<close> components and \<open>d \<ge> 2\<close>
  features, for component \<open>n < k\<close>: the branches \<^verbatim>\<open>"full"\<close>, \<^verbatim>\<open>"tied"\<close> and
  \<^verbatim>\<open>"diag"\<close> bind a symmetric 2x2 matrix; the branch \<^verbatim>\<open>"spherical"\<close> binds the
  symmetric \<open>d\<close> x \<open>d\<close> matrix \<open>c * I\<close>, where \<open>c\<close> is the variance of the component;
  for any other type no branch binds the variable and the function fails with
  \<^verbatim>\<open>UnboundLocalError\<close> before it draws anything.
\<close>

theorem covariances_of_branch:
  assumes fit: "fitted g k d" and n: "n < k" and d: "2 \<le> d"
  shows "(covariance_type g \<in> {''full'', ''tied'', ''diag''} \<longrightarrow>
            (\<exists>m. assign_covariances g n cov = Inr (Some (A2 m)) \<and> square 2 m \<and> symmetric m))
       \<and> (covariance_type g = ''spherical'' \<longrightarrow>
            (\<exists>c. getitem (covariances' g) n = Inr (A0 c)
               \<and> assign_covariances g n cov = Inr (Some (A2 (map (map (\<lambda>e. e * c)) (eye d))))
               \<and> square d (map (map (\<lambda>e. e * c)) (eye d))
               \<and> symmetric (map (map (\<lambda>e. e * c)) (eye d))))
       \<and> (covariance_type g \<notin> {''full'', ''tied'', ''diag'', ''spherical''} \<longrightarrow>
            assign_covariances g n None = Inr None
          \<and> make_ellipses principal_axes g = Inl UnboundLocalError)"
proof (intro conjI impI)
  assume t: "covariance_type g \<in> {''full'', ''tied'', ''diag''}"
  then consider (full) "covariance_type g = ''full''" | (tied) "covariance_type g = ''tied''"
    | (diag) "covariance_type g = ''diag''" by auto
  then show "\<exists>m. assign_covariances g n cov = Inr (Some (A2 m)) \<and> square 2 m \<and> symmetric m"
  proof cases
    case full
    with fit obtain cs where cs: "covariances' g = A3 cs" "length cs = k"
      "list_all (\<lambda>c. square d c \<and> symmetric c) cs"
      by (auto simp: fitted_def split: ndarray.splits)
    with n have c: "square d (cs ! n)" "symmetric (cs ! n)"
      by (auto simp: list_all_length)
    have "assign_covariances g n cov = Inr (Some (A2 (map (take 2) (take 2 (cs ! n)))))"
      using full cs n by (simp add: assign_covariances_def)
    with block_square [OF c(1) d] block_symmetric [OF c d] show ?thesis by blast
  next
    case tied
    with fit obtain c where c: "covariances' g = A2 c" "square d c" "symmetric c"
      by (auto simp: fitted_def split: ndarray.splits)
    have "assign_covariances g n cov = Inr (Some (A2 (map (take 2) (take 2 c))))"
      using tied c by (simp add: assign_covariances_def)
    with block_square [OF c(2) d] block_symmetric [OF c(2,3) d] show ?thesis by blast
  next
    case diag
    with fit obtain vs where vs: "covariances' g = A2 vs" "length vs = k"
      "list_all (\<lambda>row. length row = d) vs"
      by (auto simp: fitted_def split: ndarray.splits)
    with n d have len: "length (take 2 (vs ! n)) = 2"
      by (auto simp: list_all_length)
    define xs where "xs = take 2 (vs ! n)"
    have "assign_covariances g n cov = Inr (Some (A2
        (map (\<lambda>i. map (\<lambda>j. if i = j then xs ! i else 0) [0 ..< length xs]) [0 ..< length xs])))"
      using diag vs n by (simp add: assign_covariances_def xs_def)
    with diag_square_symmetric [of xs] len show ?thesis
      unfolding xs_def by auto
  qed
next
  assume t: "covariance_type g = ''spherical''"
  with fit obtain vs where vs: "covariances' g = A1 vs" "length vs = k"
    by (auto simp: fitted_def split: ndarray.splits)
  from fit obtain ms where ms: "means' g = A2 ms" "length ms = k"
    "list_all (\<lambda>row. length row = d) ms"
    by (auto simp: fitted_def split: ndarray.splits)
  with n have sh: "shape_1 (means' g) = Inr d"
    by (cases ms) simp_all
  have "getitem (covariances' g) n = Inr (A0 (vs ! n))"
    using vs n by simp
  moreover from this have "assign_covariances g n cov
      = Inr (Some (A2 (map (map (\<lambda>e. e * (vs ! n))) (eye d))))"
    using t sh by (simp add: assign_covariances_def)
  ultimately show "\<exists>c. getitem (covariances' g) n = Inr (A0 c)
      \<and> assign_covariances g n cov = Inr (Some (A2 (map (map (\<lambda>e. e * c)) (eye d))))
      \<and> square d (map (map (\<lambda>e. e * c)) (eye d))
      \<and> symmetric (map (map (\<lambda>e. e * c)) (eye d))"
    using scalar_square_symmetric [where k = d and c = "vs ! n"] by blast
next
  assume "covariance_type g \<notin> {''full'', ''tied'', ''diag'', ''spherical''}"
  then show "assign_covariances g n None = Inr None"
    by (simp add: assign_covariances_def)
next
  assume "covariance_type g \<notin> {''full'', ''tied'', ''diag'', ''spherical''}"
  then show "make_ellipses principal_axes g = Inl UnboundLocalError"
    by (rule unbound)
qed

text \<open>
  The spherical branch on a mixture fitted on four features (iris) binds a 4x4 matrix,
  not a 2x2 one.
\<close>

theorem spherical_covariances_not_2x2:
  "fitted spherical_example 3 4
   \<and> assign_covariances spherical_example 0 None
       = Inr (Some (A2 [[1 / 4, 0, 0, 0], [0, 1 / 4, 0, 0], [0, 0, 1 / 4, 0], [0, 0, 0, 1 / 4]]))
   \<and> \<not> square 2 [[1 / 4, 0, 0, 0], [0, 1 / 4, 0, 0], [0, 0, 1 / 4, 0], [0, 0, 0, 1 / 4]]"
  by (simp add: fitted_def spherical_example_def assign_covariances_def eye_def square_def upt_rec)

theorem covariances_of_branch_witness:
  "(\<exists>m. assign_covariances tied_example 1 None = Inr (Some (A2 m)) \<and> square 2 m \<and> symmetric m)
   \<and> assign_covariances spherical_example 2 None
       = Inr (Some (A2 (map (map (\<lambda>e. e * 1)) (eye 4))))
   \<and> make_ellipses (\<lambda>c. Inr (1, 1, 0)) other_example = Inl UnboundLocalError"
proof -
  have tied: "fitted tied_example 2 3"
    by (simp add: fitted_def tied_example_def square_def symmetric_def upt_rec)
  have sph: "fitted spherical_example 3 4"
    by (simp add: fitted_def spherical_example_def)
  have oth: "fitted other_example 3 4"
    by (simp add: fitted_def other_example_def)
  have t1: "covariance_type tied_example \<in> {''full'', ''tied'', ''diag''}"
    by (simp add: tied_example_def)
  have t2: "covariance_type spherical_example = ''spherical''"
    by (simp add: spherical_example_def)
  have t3: "covariance_type other_example \<notin> {''full'', ''tied'', ''diag'', ''spherical''}"
    by (simp add: other_example_def)
  have g: "getitem (covariances' spherical_example) 2 = Inr (A0 1)"
    by (simp add: spherical_example_def)
  have n: "(1::nat) < 2" "(2::nat) < 3" "(0::nat) < 3" and d: "(2::nat) \<le> 3" "(2::nat) \<le> 4"
    by simp_all
  from covariances_of_branch [OF tied n(1) d(1), of None] t1
  have a: "\<exists>m. assign_covariances tied_example 1 None = Inr (Some (A2 m)) \<and> square 2 m \<and> symmetric m"
    by blast
  from covariances_of_branch [OF sph n(2) d(2), of None] t2 g
  have b: "assign_covariances spherical_example 2 None
       = Inr (Some (A2 (map (map (\<lambda>e. e * 1)) (eye 4))))"
    by auto
  from covariances_of_branch [OF oth n(3) d(2), of None "\<lambda>c. Inr (1, 1, 0)"] t3
  have c: "make_ellipses (\<lambda>c. Inr (1, 1, 0)) other_example = Inl UnboundLocalError"
    by blast
  from a b c show ?thesis by blast
qed

section \<open>The gallery: the scripts as syntax trees\<close>

text \<open>
  The repository holds fifteen scripts, each the single code cell of a notebook; five files
  hold one notebook, \<^verbatim>\<open>plot_multioutput_face_completion.ipynb\<close> and
  \<^verbatim>\<open>plot_mahalanobis_distances.ipynb\<close> hold two, \<^verbatim>\<open>part_005\<close> holds three. A script is
  embedded as its syntax tree, in the constructors of Python's own grammar. Every statement
  carries the line of the source file it starts on. Numbers, strings and the constants
  \<^verbatim>\<open>None\<close>, \<^verbatim>\<open>True\<close>, \<^verbatim>\<open>False\<close> are kept as \<open>NumLit\<close>, \<open>StrLit\<close> and \<open>ConstLit\<close> without their
  value, an f-string as the expressions it formats, comments are dropped; \<open>Absent\<close> stands
  for an omitted bound of a slice, and a keyword argument \<^verbatim>\<open>**d\<close> has the empty name.
\<close>

type_synonym ident = string
type_synonym qname = "ident list"

datatype expr =
    Name ident
  | NumLit
  | StrLit
  | ConstLit
  | Absent
  | Attribute expr ident
  | Call expr "expr list"
  | keyword ident expr
  | Starred expr
  | Subscript expr expr
  | Slice expr expr expr
  | BinOp expr ident expr
  | UnaryOp ident expr
  | Compare expr "ident list" "expr list"
  | Tuple "expr list"
  | ListE "expr list"
  | Dict "expr list" "expr list"
  | ListComp expr "expr list"
  | GeneratorExp expr "expr list"
  | DictComp expr expr "expr list"
  | comprehension expr expr "expr list"
  | JoinedStr "expr list"

text \<open>
  \<open>FunctionDef line name decorators parameters defaults body\<close>; \<open>IfStmt line test body
  orelse\<close>, where an \<^verbatim>\<open>elif\<close> is an \<open>IfStmt\<close> that is the whole \<open>orelse\<close>; \<open>Try line body
  handlers\<close> with handlers \<open>ExceptHandler line type body\<close>; an \<^verbatim>\<open>import a.b as c\<close> is
  \<open>Import line [([a, b], c)]\<close>, with \<open>[]\<close> for no \<^verbatim>\<open>as\<close>.
\<close>

datatype stmt =
    Import nat "(qname \<times> ident) list"
  | ImportFrom nat qname "(ident \<times> ident) list"
  | FunctionDef nat ident "expr list" "ident list" "expr list" "stmt list"
  | ClassDef nat ident "stmt list"
  | Return nat expr
  | Assign nat "expr list" expr
  | AugAssign nat expr ident expr
  | For nat expr expr "stmt list"
  | While nat expr "stmt list"
  | IfStmt nat expr "stmt list" "stmt list"
  | With nat "expr list" "stmt list"
  | Raise nat expr
  | Try nat "stmt list" "stmt list"
  | ExceptHandler nat expr "stmt list"
  | Expr nat expr

record script =
  source_path :: string
  first_line :: nat
  body :: "stmt list"

text \<open>
  Face completion with a multi-output estimators
  (\<^verbatim>\<open>miscellaneous/plot_multioutput_face_completion.ipynb\<close>, lines 10 to 108).
\<close>

definition plot_face_completion :: script where
  "plot_face_completion =
   \<lparr>source_path = ''miscellaneous/plot_multioutput_face_completion.ipynb'', first_line = 10,
   body =
     [Expr 10 StrLit,
      Import 27 [([''matplotlib'', ''pyplot''], ''plt'')],
      Import 28 [([''numpy''], ''np'')],
      ImportFrom 30 [''sklearn'', ''datasets''] [(''fetch_olivetti_faces'', [])],
      ImportFrom 31 [''sklearn'', ''ensemble''] [(''ExtraTreesRegressor'', [])],
      ImportFrom 32 [''sklearn'', ''linear_model'']
        [(''LinearRegression'', []), (''RidgeCV'', [])],
      ImportFrom 33 [''sklearn'', ''neighbors''] [(''KNeighborsRegressor'', [])],
      ImportFrom 34 [''sklearn'', ''utils'', ''validation''] [(''check_random_state'', [])],
      Assign 37 [Tuple [Name ''data'', Name ''targets'']]
        (Call (Name ''fetch_olivetti_faces'') [keyword ''return_X_y'' ConstLit]),
      Assign 39 [Name ''train'']
        (Subscript (Name ''data'') (Compare (Name ''targets'') [''<''] [NumLit])),
      Assign 40 [Name ''test'']
        (Subscript (Name ''data'') (Compare (Name ''targets'') [''>=''] [NumLit])),
      Assign 43 [Name ''n_faces''] NumLit,
      Assign 44 [Name ''rng''] (Call (Name ''check_random_state'') [NumLit]),
      Assign 45 [Name ''face_ids'']
        (Call (Attribute (Name ''rng'') ''randint'')
           [Subscript (Attribute (Name ''test'') ''shape'') NumLit,
            keyword ''size'' (Tuple [Name ''n_faces''])]),
      Assign 46 [Name ''test'']
        (Subscript (Name ''test'') (Tuple [Name ''face_ids'', Slice Absent Absent Absent])),
      Assign 48 [Name ''n_pixels''] (Subscript (Attribute (Name ''data'') ''shape'') NumLit),
      Assign 50 [Name ''X_train'']
        (Subscript (Name ''train'')
           (Tuple
              [Slice Absent Absent Absent,
               Slice Absent (BinOp (BinOp (Name ''n_pixels'') ''+'' NumLit) ''//'' NumLit)
                 Absent])),
      Assign 52 [Name ''y_train'']
        (Subscript (Name ''train'')
           (Tuple
              [Slice Absent Absent Absent,
               Slice (BinOp (Name ''n_pixels'') ''//'' NumLit) Absent Absent])),
      Assign 53 [Name ''X_test'']
        (Subscript (Name ''test'')
           (Tuple
              [Slice Absent Absent Absent,
               Slice Absent (BinOp (BinOp (Name ''n_pixels'') ''+'' NumLit) ''//'' NumLit)
                 Absent])),
      Assign 54 [Name ''y_test'']
        (Subscript (Name ''test'')
           (Tuple
              [Slice Absent Absent Absent,
               Slice (BinOp (Name ''n_pixels'') ''//'' NumLit) Absent Absent])),
      Assign 57 [Name ''ESTIMATORS'']
        (Dict [StrLit, StrLit, StrLit, StrLit]
           [Call (Name ''ExtraTreesRegressor'')
              [keyword ''n_estimators'' NumLit,
               keyword ''max_features'' NumLit,
               keyword ''random_state'' NumLit],
            Call (Name ''KNeighborsRegressor'') [],
            Call (Name ''LinearRegression'') [],
            Call (Name ''RidgeCV'') []]),
      Assign 66 [Name ''y_test_predict''] (Call (Name ''dict'') []),
      For 67 (Tuple [Name ''name'', Name ''estimator''])
        (Call (Attribute (Name ''ESTIMATORS'') ''items'') [])
        [Expr 68
           (Call (Attribute (Name ''estimator'') ''fit'') [Name ''X_train'', Name ''y_train'']),
         Assign 69 [Subscript (Name ''y_test_predict'') (Name ''name'')]
           (Call (Attribute (Name ''estimator'') ''predict'') [Name ''X_test''])],
      Assign 72 [Name ''image_shape''] (Tuple [NumLit, NumLit]),
      Assign 74 [Name ''n_cols'']
        (BinOp NumLit ''+'' (Call (Name ''len'') [Name ''ESTIMATORS''])),
      Expr 75
        (Call (Attribute (Name ''plt'') ''figure'')
           [keyword ''figsize''
              (Tuple
                 [BinOp NumLit ''*'' (Name ''n_cols''), BinOp NumLit ''*'' (Name ''n_faces'')])]),
      Expr 76 (Call (Attribute (Name ''plt'') ''suptitle'') [StrLit, keyword ''size'' NumLit]),
      For 78 (Name ''i'') (Call (Name ''range'') [Name ''n_faces''])
        [Assign 79 [Name ''true_face'']
           (Call (Attribute (Name ''np'') ''hstack'')
              [Tuple
                 [Subscript (Name ''X_test'') (Name ''i''),
                  Subscript (Name ''y_test'') (Name ''i'')]]),
         IfStmt 81 (Name ''i'')
           [Assign 82 [Name ''sub'']
              (Call (Attribute (Name ''plt'') ''subplot'')
                 [Name ''n_faces'',
                  Name ''n_cols'',
                  BinOp (BinOp (Name ''i'') ''*'' (Name ''n_cols'')) ''+'' NumLit])]
           [Assign 84 [Name ''sub'']
              (Call (Attribute (Name ''plt'') ''subplot'')
                 [Name ''n_faces'',
                  Name ''n_cols'',
                  BinOp (BinOp (Name ''i'') ''*'' (Name ''n_cols'')) ''+'' NumLit,
                  keyword ''title'' StrLit])],
         Expr 86 (Call (Attribute (Name ''sub'') ''axis'') [StrLit]),
         Expr 87
           (Call (Attribute (Name ''sub'') ''imshow'')
              [Call (Attribute (Name ''true_face'') ''reshape'') [Name ''image_shape''],
               keyword ''cmap'' (Attribute (Attribute (Name ''plt'') ''cm'') ''gray''),
               keyword ''interpolation'' StrLit]),
         For 91 (Tuple [Name ''j'', Name ''est''])
           (Call (Name ''enumerate'') [Call (Name ''sorted'') [Name ''ESTIMATORS'']])
           [Assign 92 [Name ''completed_face'']
              (Call (Attribute (Name ''np'') ''hstack'')
                 [Tuple
                    [Subscript (Name ''X_test'') (Name ''i''),
                     Subscript (Subscript (Name ''y_test_predict'') (Name ''est''))
                       (Name ''i'')]]),
            IfStmt 94 (Name ''i'')
              [Assign 95 [Name ''sub'']
                 (Call (Attribute (Name ''plt'') ''subplot'')
                    [Name ''n_faces'',
                     Name ''n_cols'',
                     BinOp (BinOp (BinOp (Name ''i'') ''*'' (Name ''n_cols'')) ''+'' NumLit) ''+''
                       (Name ''j'')])]
              [Assign 98 [Name ''sub'']
                 (Call (Attribute (Name ''plt'') ''subplot'')
                    [Name ''n_faces'',
                     Name ''n_cols'',
                     BinOp (BinOp (BinOp (Name ''i'') ''*'' (Name ''n_cols'')) ''+'' NumLit) ''+''
                       (Name ''j''),
                     keyword ''title'' (Name ''est'')])],
            Expr 100 (Call (Attribute (Name ''sub'') ''axis'') [StrLit]),
            Expr 101
              (Call (Attribute (Name ''sub'') ''imshow'')
                 [Call (Attribute (Name ''completed_face'') ''reshape'') [Name ''image_shape''],
                  keyword ''cmap'' (Attribute (Attribute (Name ''plt'') ''cm'') ''gray''),
                  keyword ''interpolation'' StrLit])]],
      Expr 107 (Call (Attribute (Name ''plt'') ''show'') [])]\<rparr>"

text \<open>
  Advanced Plotting With Partial Dependence
  (\<^verbatim>\<open>miscellaneous/plot_multioutput_face_completion.ipynb\<close>, lines 124 to 264).
\<close>

definition plot_partial_dependence :: script where
  "plot_partial_dependence =
   \<lparr>source_path = ''miscellaneous/plot_multioutput_face_completion.ipynb'', first_line = 124,
   body =
     [Expr 124 StrLit,
      Import 142 [([''matplotlib'', ''pyplot''], ''plt'')],
      Import 143 [([''pandas''], ''pd'')],
      ImportFrom 145 [''sklearn'', ''datasets''] [(''load_diabetes'', [])],
      ImportFrom 146 [''sklearn'', ''inspection''] [(''PartialDependenceDisplay'', [])],
      ImportFrom 147 [''sklearn'', ''neural_network''] [(''MLPRegressor'', [])],
      ImportFrom 148 [''sklearn'', ''pipeline''] [(''make_pipeline'', [])],
      ImportFrom 149 [''sklearn'', ''preprocessing''] [(''StandardScaler'', [])],
      ImportFrom 150 [''sklearn'', ''tree''] [(''DecisionTreeRegressor'', [])],
      Assign 159 [Name ''diabetes''] (Call (Name ''load_diabetes'') []),
      Assign 160 [Name ''X'']
        (Call (Attribute (Name ''pd'') ''DataFrame'')
           [Attribute (Name ''diabetes'') ''data'',
            keyword ''columns'' (Attribute (Name ''diabetes'') ''feature_names'')]),
      Assign 161 [Name ''y''] (Attribute (Name ''diabetes'') ''target''),
      Assign 163 [Name ''tree''] (Call (Name ''DecisionTreeRegressor'') []),
      Assign 164 [Name ''mlp'']
        (Call (Name ''make_pipeline'')
           [Call (Name ''StandardScaler'') [],
            Call (Name ''MLPRegressor'')
              [keyword ''hidden_layer_sizes'' (Tuple [NumLit, NumLit]),
               keyword ''tol'' NumLit,
               keyword ''max_iter'' NumLit,
               keyword ''random_state'' NumLit]]),
      Expr 168 (Call (Attribute (Name ''tree'') ''fit'') [Name ''X'', Name ''y'']),
      Expr 169 (Call (Attribute (Name ''mlp'') ''fit'') [Name ''X'', Name ''y'']),
      Assign 180 [Tuple [Name ''fig'', Name ''ax'']]
        (Call (Attribute (Name ''plt'') ''subplots'')
           [keyword ''figsize'' (Tuple [NumLit, NumLit])]),
      Expr 181 (Call (Attribute (Name ''ax'') ''set_title'') [StrLit]),
      Assign 182 [Name ''tree_disp'']
        (Call (Attribute (Name ''PartialDependenceDisplay'') ''from_estimator'')
           [Name ''tree'', Name ''X'', ListE [StrLit, StrLit], keyword ''ax'' (Name ''ax'')]),
      Assign 189 [Tuple [Name ''fig'', Name ''ax'']]
        (Call (Attribute (Name ''plt'') ''subplots'')
           [keyword ''figsize'' (Tuple [NumLit, NumLit])]),
      Expr 190 (Call (Attribute (Name ''ax'') ''set_title'') [StrLit]),
      Assign 191 [Name ''mlp_disp'']
        (Call (Attribute (Name ''PartialDependenceDisplay'') ''from_estimator'')
           [Name ''mlp'',
            Name ''X'',
            ListE [StrLit, StrLit],
            keyword ''ax'' (Name ''ax''),
            keyword ''line_kw'' (Dict [StrLit] [StrLit])]),
      Assign 214 [Tuple [Name ''fig'', Tuple [Name ''ax1'', Name ''ax2'']]]
        (Call (Attribute (Name ''plt'') ''subplots'')
           [NumLit, NumLit, keyword ''figsize'' (Tuple [NumLit, NumLit])]),
      Expr 215 (Call (Attribute (Name ''tree_disp'') ''plot'') [keyword ''ax'' (Name ''ax1'')]),
      Expr 216 (Call (Attribute (Name ''ax1'') ''set_title'') [StrLit]),
      Expr 217
        (Call (Attribute (Name ''mlp_disp'') ''plot'')
           [keyword ''ax'' (Name ''ax2''), keyword ''line_kw'' (Dict [StrLit] [StrLit])]),
      Expr 218 (Call (Attribute (Name ''ax2'') ''set_title'') [StrLit]),
      Assign 228 [Tuple [Name ''fig'', Tuple [Name ''ax1'', Name ''ax2'']]]
        (Call (Attribute (Name ''plt'') ''subplots'')
           [NumLit, NumLit, keyword ''figsize'' (Tuple [NumLit, NumLit])]),
      Expr 229
        (Call (Attribute (Name ''tree_disp'') ''plot'')
           [keyword ''ax'' (ListE [Name ''ax1'', Name ''ax2'']),
            keyword ''line_kw'' (Dict [StrLit] [StrLit])]),
      Expr 230
        (Call (Attribute (Name ''mlp_disp'') ''plot'')
           [keyword ''ax'' (ListE [Name ''ax1'', Name ''ax2'']),
            keyword ''line_kw'' (Dict [StrLit, StrLit] [StrLit, StrLit])]),
      Expr 233 (Call (Attribute (Name ''ax1'') ''legend'') []),
      Expr 234 (Call (Attribute (Name ''ax2'') ''legend'') []),
      Expr 244
        (Call (Attribute (Name ''tree_disp'') ''plot'')
           [keyword ''line_kw'' (Dict [StrLit] [StrLit])]),
      Expr 245
        (Call (Attribute (Name ''mlp_disp'') ''plot'')
           [keyword ''line_kw'' (Dict [StrLit, StrLit] [StrLit, StrLit]),
            keyword ''ax'' (Attribute (Name ''tree_disp'') ''axes_'')]),
      Expr 248
        (Call (Attribute (Attribute (Name ''tree_disp'') ''figure_'') ''set_size_inches'')
           [NumLit, NumLit]),
      Expr 249
        (Call
           (Attribute
              (Subscript (Attribute (Name ''tree_disp'') ''axes_'') (Tuple [NumLit, NumLit]))
              ''legend'')
           []),
      Expr 250
        (Call
           (Attribute
              (Subscript (Attribute (Name ''tree_disp'') ''axes_'') (Tuple [NumLit, NumLit]))
              ''legend'')
           []),
      Expr 251 (Call (Attribute (Name ''plt'') ''show'') []),
      Assign 260 [Name ''tree_disp'']
        (Call (Attribute (Name ''PartialDependenceDisplay'') ''from_estimator'')
           [Name ''tree'', Name ''X'', ListE [StrLit]]),
      Assign 261 [Name ''mlp_disp'']
        (Call (Attribute (Name ''PartialDependenceDisplay'') ''from_estimator'')
           [Name ''mlp'',
            Name ''X'',
            ListE [StrLit],
            keyword ''ax'' (Attribute (Name ''tree_disp'') ''axes_''),
            keyword ''line_kw'' (Dict [StrLit] [StrLit])])]\<rparr>"

text \<open>
  Comparing Random Forests and Histogram Gradient Boosting models
  (\<^verbatim>\<open>ensemble/plot_forest_hist_grad_boosting_comparison.ipynb\<close>, lines 10 to 236).
\<close>

definition plot_forest_hist_grad_boosting :: script where
  "plot_forest_hist_grad_boosting =
   \<lparr>source_path = ''ensemble/plot_forest_hist_grad_boosting_comparison.ipynb'', first_line = 10,
   body =
     [Expr 10 StrLit,
      ImportFrom 46 [''sklearn'', ''datasets''] [(''fetch_california_housing'', [])],
      Assign 48 [Tuple [Name ''X'', Name ''y'']]
        (Call (Name ''fetch_california_housing'')
           [keyword ''return_X_y'' ConstLit, keyword ''as_frame'' ConstLit]),
      Assign 49 [Tuple [Name ''n_samples'', Name ''n_features'']]
        (Attribute (Name ''X'') ''shape''),
      Expr 58 (Call (Name ''print'') [JoinedStr [Name ''n_samples'', Name ''n_features'']]),
      Import 75 [([''joblib''], [])],
      Assign 77 [Name ''N_CORES'']
        (Call (Attribute (Name ''joblib'') ''cpu_count'')
           [keyword ''only_physical_cores'' ConstLit]),
      Expr 78 (Call (Name ''print'') [JoinedStr [Name ''N_CORES'']]),
      Import 91 [([''pandas''], ''pd'')],
      ImportFrom 93 [''sklearn'', ''ensemble'']
        [(''HistGradientBoostingRegressor'', []), (''RandomForestRegressor'', [])],
      ImportFrom 94 [''sklearn'', ''model_selection''] [(''GridSearchCV'', []), (''KFold'', [])],
      Assign 96 [Name ''models'']
        (Dict [StrLit, StrLit]
           [Call (Name ''RandomForestRegressor'')
              [keyword ''min_samples_leaf'' NumLit,
               keyword ''random_state'' NumLit,
               keyword ''n_jobs'' (Name ''N_CORES'')],
            Call (Name ''HistGradientBoostingRegressor'')
              [keyword ''max_leaf_nodes'' NumLit,
               keyword ''random_state'' NumLit,
               keyword ''early_stopping'' ConstLit]]),
      Assign 104 [Name ''param_grids'']
        (Dict [StrLit, StrLit]
           [Dict [StrLit] [ListE [NumLit, NumLit, NumLit, NumLit]],
            Dict [StrLit] [ListE [NumLit, NumLit, NumLit, NumLit, NumLit, NumLit]]]),
      Assign 108 [Name ''cv'']
        (Call (Name ''KFold'')
           [keyword ''n_splits'' NumLit,
            keyword ''shuffle'' ConstLit,
            keyword ''random_state'' NumLit]),
      Assign 110 [Name ''results''] (ListE []),
      For 111 (Tuple [Name ''name'', Name ''model''])
        (Call (Attribute (Name ''models'') ''items'') [])
        [Assign 112 [Name ''grid_search'']
           (Call
              (Attribute
                 (Call (Name ''GridSearchCV'')
                    [keyword ''estimator'' (Name ''model''),
                     keyword ''param_grid'' (Subscript (Name ''param_grids'') (Name ''name'')),
                     keyword ''return_train_score'' ConstLit,
                     keyword ''cv'' (Name ''cv'')])
                 ''fit'')
              [Name ''X'', Name ''y'']),
         Assign 118 [Name ''result'']
           (Dict [StrLit, StrLit]
              [Name ''name'',
               Call (Attribute (Name ''pd'') ''DataFrame'')
                 [Attribute (Name ''grid_search'') ''cv_results_'']]),
         Expr 119 (Call (Attribute (Name ''results'') ''append'') [Name ''result''])],
      Import 137 [([''plotly'', ''colors''], ''colors'')],
      Import 138 [([''plotly'', ''express''], ''px'')],
      ImportFrom 139 [''plotly'', ''subplots''] [(''make_subplots'', [])],
      Assign 141 [Name ''fig'']
        (Call (Name ''make_subplots'')
           [keyword ''rows'' NumLit,
            keyword ''cols'' NumLit,
            keyword ''shared_yaxes'' ConstLit,
            keyword ''subplot_titles'' (ListE [StrLit, StrLit])]),
      Assign 147 [Name ''model_names'']
        (ListComp (Subscript (Name ''result'') StrLit)
           [comprehension (Name ''result'') (Name ''results'') []]),
      Assign 148 [Name ''colors_list'']
        (BinOp (Attribute (Attribute (Name ''colors'') ''qualitative'') ''Plotly'') ''*''
           (BinOp
              (BinOp (Call (Name ''len'') [Name ''model_names'']) ''//''
                 (Call (Name ''len'')
                    [Attribute (Attribute (Name ''colors'') ''qualitative'') ''Plotly'']))
              ''+''
              NumLit)),
      For 152 (Tuple [Name ''idx'', Name ''result''])
        (Call (Name ''enumerate'') [Name ''results''])
        [Assign 153 [Name ''cv_results'']
           (Call (Attribute (Subscript (Name ''result'') StrLit) ''round'') [NumLit]),
         Assign 154 [Name ''model_name''] (Subscript (Name ''result'') StrLit),
         Assign 155 [Name ''param_name'']
           (Subscript
              (Call (Name ''list'')
                 [Call
                    (Attribute (Subscript (Name ''param_grids'') (Name ''model_name'')) ''keys'')
                    []])
              NumLit),
         Assign 156 [Subscript (Name ''cv_results'') (Name ''param_name'')]
           (Subscript (Name ''cv_results'') (BinOp StrLit ''+'' (Name ''param_name''))),
         Assign 157 [Subscript (Name ''cv_results'') StrLit] (Name ''model_name''),
         Assign 159 [Name ''scatter_fig'']
           (Call (Attribute (Name ''px'') ''scatter'')
              [Name ''cv_results'',
               keyword ''x'' StrLit,
               keyword ''y'' StrLit,
               keyword ''error_x'' StrLit,
               keyword ''error_y'' StrLit,
               keyword ''hover_data'' (Name ''param_name''),
               keyword ''color'' StrLit]),
         Assign 168 [Name ''line_fig'']
           (Call (Attribute (Name ''px'') ''line'')
              [Name ''cv_results'', keyword ''x'' StrLit, keyword ''y'' StrLit]),
         Assign 174 [Name ''scatter_trace'']
           (Subscript (Subscript (Name ''scatter_fig'') StrLit) NumLit),
         Assign 175 [Name ''line_trace'']
           (Subscript (Subscript (Name ''line_fig'') StrLit) NumLit),
         Expr 176
           (Call (Attribute (Name ''scatter_trace'') ''update'')
              [keyword ''marker''
                 (Call (Name ''dict'')
                    [keyword ''color'' (Subscript (Name ''colors_list'') (Name ''idx''))])]),
         Expr 177
           (Call (Attribute (Name ''line_trace'') ''update'')
              [keyword ''line''
                 (Call (Name ''dict'')
                    [keyword ''color'' (Subscript (Name ''colors_list'') (Name ''idx''))])]),
         Expr 178
           (Call (Attribute (Name ''fig'') ''add_trace'')
              [Name ''scatter_trace'', keyword ''row'' NumLit, keyword ''col'' NumLit]),
         Expr 179
           (Call (Attribute (Name ''fig'') ''add_trace'')
              [Name ''line_trace'', keyword ''row'' NumLit, keyword ''col'' NumLit]),
         Assign 181 [Name ''scatter_fig'']
           (Call (Attribute (Name ''px'') ''scatter'')
              [Name ''cv_results'',
               keyword ''x'' StrLit,
               keyword ''y'' StrLit,
               keyword ''error_x'' StrLit,
               keyword ''error_y'' StrLit,
               keyword ''hover_data'' (Name ''param_name'')]),
         Assign 189 [Name ''line_fig'']
           (Call (Attribute (Name ''px'') ''line'')
              [Name ''cv_results'', keyword ''x'' StrLit, keyword ''y'' StrLit]),
         Assign 195 [Name ''scatter_trace'']
           (Subscript (Subscript (Name ''scatter_fig'') StrLit) NumLit),
         Assign 196 [Name ''line_trace'']
           (Subscript (Subscript (Name ''line_fig'') StrLit) NumLit),
         Expr 197
           (Call (Attribute (Name ''scatter_trace'') ''update'')
              [keyword ''marker''
                 (Call (Name ''dict'')
                    [keyword ''color'' (Subscript (Name ''colors_list'') (Name ''idx''))])]),
         Expr 198
           (Call (Attribute (Name ''line_trace'') ''update'')
              [keyword ''line''
                 (Call (Name ''dict'')
                    [keyword ''color'' (Subscript (Name ''colors_list'') (Name ''idx''))])]),
         Expr 199
           (Call (Attribute (Name ''fig'') ''add_trace'')
              [Name ''scatter_trace'', keyword ''row'' NumLit, keyword ''col'' NumLit]),
         Expr 200
           (Call (Attribute (Name ''fig'') ''add_trace'')
              [Name ''line_trace'', keyword ''row'' NumLit, keyword ''col'' NumLit])],
      Expr 202
        (Call (Attribute (Name ''fig'') ''update_layout'')
           [keyword ''xaxis'' (Call (Name ''dict'') [keyword ''title'' StrLit]),
            keyword ''yaxis'' (Call (Name ''dict'') [keyword ''title'' StrLit]),
            keyword ''xaxis2'' (Call (Name ''dict'') [keyword ''title'' StrLit]),
            keyword ''legend''
              (Call (Name ''dict'')
                 [keyword ''x'' NumLit,
                  keyword ''y'' NumLit,
                  keyword ''traceorder'' StrLit,
                  keyword ''borderwidth'' NumLit]),
            keyword ''title''
              (Call (Name ''dict'') [keyword ''x'' NumLit, keyword ''text'' StrLit])])]\<rparr>"

text \<open>
  Robust covariance estimation and Mahalanobis distances relevance
  (\<^verbatim>\<open>covariance/plot_mahalanobis_distances.ipynb\<close>, lines 10 to 226).
\<close>

definition plot_mahalanobis_distances :: script where
  "plot_mahalanobis_distances =
   \<lparr>source_path = ''covariance/plot_mahalanobis_distances.ipynb'', first_line = 10,
   body =
     [Expr 10 StrLit,
      Import 88 [([''numpy''], ''np'')],
      Expr 91 (Call (Attribute (Attribute (Name ''np'') ''random'') ''seed'') [NumLit]),
      Assign 93 [Name ''n_samples''] NumLit,
      Assign 94 [Name ''n_outliers''] NumLit,
      Assign 95 [Name ''n_features''] NumLit,
      Assign 98 [Name ''gen_cov''] (Call (Attribute (Name ''np'') ''eye'') [Name ''n_features'']),
      Assign 99 [Subscript (Name ''gen_cov'') (Tuple [NumLit, NumLit])] NumLit,
      Assign 100 [Name ''X'']
        (Call (Attribute (Name ''np'') ''dot'')
           [Call (Attribute (Attribute (Name ''np'') ''random'') ''randn'')
              [Name ''n_samples'', Name ''n_features''],
            Name ''gen_cov'']),
      Assign 102 [Name ''outliers_cov'']
        (Call (Attribute (Name ''np'') ''eye'') [Name ''n_features'']),
      Assign 103
        [Subscript (Name ''outliers_cov'')
           (Tuple
              [Call (Attribute (Name ''np'') ''arange'') [NumLit, Name ''n_features''],
               Call (Attribute (Name ''np'') ''arange'') [NumLit, Name ''n_features'']])]
        NumLit,
      Assign 104
        [Subscript (Name ''X'') (Slice (UnaryOp ''-'' (Name ''n_outliers'')) Absent Absent)]
        (Call (Attribute (Name ''np'') ''dot'')
           [Call (Attribute (Attribute (Name ''np'') ''random'') ''randn'')
              [Name ''n_outliers'', Name ''n_features''],
            Name ''outliers_cov'']),
      Import 117 [([''matplotlib'', ''pyplot''], ''plt'')],
      ImportFrom 119 [''sklearn'', ''covariance'']
        [(''EmpiricalCovariance'', []), (''MinCovDet'', [])],
      Assign 122 [Name ''robust_cov'']
        (Call (Attribute (Call (Name ''MinCovDet'') []) ''fit'') [Name ''X'']),
      Assign 124 [Name ''emp_cov'']
        (Call (Attribute (Call (Name ''EmpiricalCovariance'') []) ''fit'') [Name ''X'']),
      Expr 125
        (Call (Name ''print'')
           [Call (Attribute StrLit ''format'')
              [Attribute (Name ''robust_cov'') ''covariance_'',
               Attribute (Name ''emp_cov'') ''covariance_'']]),
      Import 137 [([''matplotlib'', ''lines''], ''mlines'')],
      Assign 139 [Tuple [Name ''fig'', Name ''ax'']]
        (Call (Attribute (Name ''plt'') ''subplots'')
           [keyword ''figsize'' (Tuple [NumLit, NumLit])]),
      Assign 141 [Name ''inlier_plot'']
        (Call (Attribute (Name ''ax'') ''scatter'')
           [Subscript (Name ''X'') (Tuple [Slice Absent Absent Absent, NumLit]),
            Subscript (Name ''X'') (Tuple [Slice Absent Absent Absent, NumLit]),
            keyword ''color'' StrLit,
            keyword ''label'' StrLit]),
      Assign 142 [Name ''outlier_plot'']
        (Call (Attribute (Name ''ax'') ''scatter'')
           [Subscript (Subscript (Name ''X'') (Tuple [Slice Absent Absent Absent, NumLit]))
              (Slice (UnaryOp ''-'' (Name ''n_outliers'')) Absent Absent),
            Subscript (Subscript (Name ''X'') (Tuple [Slice Absent Absent Absent, NumLit]))
              (Slice (UnaryOp ''-'' (Name ''n_outliers'')) Absent Absent),
            keyword ''color'' StrLit,
            keyword ''label'' StrLit]),
      Expr 145
        (Call (Attribute (Name ''ax'') ''set_xlim'')
           [Subscript (Call (Attribute (Name ''ax'') ''get_xlim'') []) NumLit, NumLit]),
      Expr 146 (Call (Attribute (Name ''ax'') ''set_title'') [StrLit]),
      Assign 149 [Tuple [Name ''xx'', Name ''yy'']]
        (Call (Attribute (Name ''np'') ''meshgrid'')
           [Call (Attribute (Name ''np'') ''linspace'')
              [Subscript (Call (Attribute (Name ''plt'') ''xlim'') []) NumLit,
               Subscript (Call (Attribute (Name ''plt'') ''xlim'') []) NumLit,
               NumLit],
            Call (Attribute (Name ''np'') ''linspace'')
              [Subscript (Call (Attribute (Name ''plt'') ''ylim'') []) NumLit,
               Subscript (Call (Attribute (Name ''plt'') ''ylim'') []) NumLit,
               NumLit]]),
      Assign 153 [Name ''zz'']
        (Subscript (Attribute (Name ''np'') ''c_'')
           (Tuple
              [Call (Attribute (Name ''xx'') ''ravel'') [],
               Call (Attribute (Name ''yy'') ''ravel'') []])),
      Assign 155 [Name ''mahal_emp_cov'']
        (Call (Attribute (Name ''emp_cov'') ''mahalanobis'') [Name ''zz'']),
      Assign 156 [Name ''mahal_emp_cov'']
        (Call (Attribute (Name ''mahal_emp_cov'') ''reshape'')
           [Attribute (Name ''xx'') ''shape'']),
      Assign 157 [Name ''emp_cov_contour'']
        (Call (Attribute (Name ''plt'') ''contour'')
           [Name ''xx'',
            Name ''yy'',
            Call (Attribute (Name ''np'') ''sqrt'') [Name ''mahal_emp_cov''],
            keyword ''cmap'' (Attribute (Attribute (Name ''plt'') ''cm'') ''PuBu_r''),
            keyword ''linestyles'' StrLit]),
      Assign 161 [Name ''mahal_robust_cov'']
        (Call (Attribute (Name ''robust_cov'') ''mahalanobis'') [Name ''zz'']),
      Assign 162 [Name ''mahal_robust_cov'']
        (Call (Attribute (Name ''mahal_robust_cov'') ''reshape'')
           [Attribute (Name ''xx'') ''shape'']),
      Assign 163 [Name ''robust_contour'']
        (Call (Attribute (Name ''ax'') ''contour'')
           [Name ''xx'',
            Name ''yy'',
            Call (Attribute (Name ''np'') ''sqrt'') [Name ''mahal_robust_cov''],
            keyword ''cmap'' (Attribute (Attribute (Name ''plt'') ''cm'') ''YlOrBr_r''),
            keyword ''linestyles'' StrLit]),
      Expr 168
        (Call (Attribute (Name ''ax'') ''legend'')
           [ListE
              [Call (Attribute (Name ''mlines'') ''Line2D'')
                 [ListE [], ListE [], keyword ''color'' StrLit, keyword ''linestyle'' StrLit],
               Call (Attribute (Name ''mlines'') ''Line2D'')
                 [ListE [], ListE [], keyword ''color'' StrLit, keyword ''linestyle'' StrLit],
               Name ''inlier_plot'',
               Name ''outlier_plot''],
            ListE [StrLit, StrLit, StrLit, StrLit],
            keyword ''loc'' StrLit,
            keyword ''borderaxespad'' NumLit]),
      Expr 180 (Call (Attribute (Name ''plt'') ''show'') []),
      Assign 190 [Tuple [Name ''fig'', Tuple [Name ''ax1'', Name ''ax2'']]]
        (Call (Attribute (Name ''plt'') ''subplots'') [NumLit, NumLit]),
      Expr 191 (Call (Attribute (Name ''plt'') ''subplots_adjust'') [keyword ''wspace'' NumLit]),
      Assign 194 [Name ''emp_mahal'']
        (BinOp
           (Call (Attribute (Name ''emp_cov'') ''mahalanobis'')
              [BinOp (Name ''X'') ''-''
                 (Call (Attribute (Name ''np'') ''mean'') [Name ''X'', NumLit])])
           ''**''
           NumLit),
      Expr 196
        (Call (Attribute (Name ''ax1'') ''boxplot'')
           [ListE
              [Subscript (Name ''emp_mahal'')
                 (Slice Absent (UnaryOp ''-'' (Name ''n_outliers'')) Absent),
               Subscript (Name ''emp_mahal'')
                 (Slice (UnaryOp ''-'' (Name ''n_outliers'')) Absent Absent)],
            keyword ''widths'' NumLit]),
      Expr 198
        (Call (Attribute (Name ''ax1'') ''plot'')
           [Call (Attribute (Name ''np'') ''full'')
              [BinOp (Name ''n_samples'') ''-'' (Name ''n_outliers''), NumLit],
            Subscript (Name ''emp_mahal'')
              (Slice Absent (UnaryOp ''-'' (Name ''n_outliers'')) Absent),
            StrLit,
            keyword ''markeredgewidth'' NumLit]),
      Expr 204
        (Call (Attribute (Name ''ax1'') ''plot'')
           [Call (Attribute (Name ''np'') ''full'') [Name ''n_outliers'', NumLit],
            Subscript (Name ''emp_mahal'')
              (Slice (UnaryOp ''-'' (Name ''n_outliers'')) Absent Absent),
            StrLit,
            keyword ''markeredgewidth'' NumLit]),
      Expr 205
        (Call (Attribute (Attribute (Name ''ax1'') ''axes'') ''set_xticklabels'')
           [Tuple [StrLit, StrLit], keyword ''size'' NumLit]),
      Expr 206 (Call (Attribute (Name ''ax1'') ''set_ylabel'') [StrLit, keyword ''size'' NumLit]),
      Expr 207 (Call (Attribute (Name ''ax1'') ''set_title'') [StrLit]),
      Assign 210 [Name ''robust_mahal'']
        (BinOp
           (Call (Attribute (Name ''robust_cov'') ''mahalanobis'')
              [BinOp (Name ''X'') ''-'' (Attribute (Name ''robust_cov'') ''location_'')])
           ''**''
           NumLit),
      Expr 212
        (Call (Attribute (Name ''ax2'') ''boxplot'')
           [ListE
              [Subscript (Name ''robust_mahal'')
                 (Slice Absent (UnaryOp ''-'' (Name ''n_outliers'')) Absent),
               Subscript (Name ''robust_mahal'')
                 (Slice (UnaryOp ''-'' (Name ''n_outliers'')) Absent Absent)],
            keyword ''widths'' NumLit]),
      Expr 214
        (Call (Attribute (Name ''ax2'') ''plot'')
           [Call (Attribute (Name ''np'') ''full'')
              [BinOp (Name ''n_samples'') ''-'' (Name ''n_outliers''), NumLit],
            Subscript (Name ''robust_mahal'')
              (Slice Absent (UnaryOp ''-'' (Name ''n_outliers'')) Absent),
            StrLit,
            keyword ''markeredgewidth'' NumLit]),
      Expr 220
        (Call (Attribute (Name ''ax2'') ''plot'')
           [Call (Attribute (Name ''np'') ''full'') [Name ''n_outliers'', NumLit],
            Subscript (Name ''robust_mahal'')
              (Slice (UnaryOp ''-'' (Name ''n_outliers'')) Absent Absent),
            StrLit,
            keyword ''markeredgewidth'' NumLit]),
      Expr 221
        (Call (Attribute (Attribute (Name ''ax2'') ''axes'') ''set_xticklabels'')
           [Tuple [StrLit, StrLit], keyword ''size'' NumLit]),
      Expr 222 (Call (Attribute (Name ''ax2'') ''set_ylabel'') [StrLit, keyword ''size'' NumLit]),
      Expr 223 (Call (Attribute (Name ''ax2'') ''set_title'') [StrLit]),
      Expr 225 (Call (Attribute (Name ''plt'') ''show'') [])]\<rparr>"

text \<open>
  Early stopping of Stochastic Gradient Descent
  (\<^verbatim>\<open>covariance/plot_mahalanobis_distances.ipynb\<close>, lines 242 to 396).
\<close>

definition plot_sgd_early_stopping :: script where
  "plot_sgd_early_stopping =
   \<lparr>source_path = ''covariance/plot_mahalanobis_distances.ipynb'', first_line = 242,
   body =
     [Expr 242 StrLit,
      Import 284 [([''sys''], [])],
      Import 285 [([''time''], [])],
      Import 287 [([''matplotlib'', ''pyplot''], ''plt'')],
      Import 288 [([''numpy''], ''np'')],
      Import 289 [([''pandas''], ''pd'')],
      ImportFrom 291 [''sklearn''] [(''linear_model'', [])],
      ImportFrom 292 [''sklearn'', ''datasets''] [(''fetch_openml'', [])],
      ImportFrom 293 [''sklearn'', ''exceptions''] [(''ConvergenceWarning'', [])],
      ImportFrom 294 [''sklearn'', ''model_selection''] [(''train_test_split'', [])],
      ImportFrom 295 [''sklearn'', ''utils''] [(''shuffle'', [])],
      ImportFrom 296 [''sklearn'', ''utils'', ''_testing''] [(''ignore_warnings'', [])],
      FunctionDef 299 ''load_mnist'' [] [''n_samples'', ''class_0'', ''class_1'']
        [ConstLit, StrLit, StrLit]
        [Expr 300 StrLit,
         Assign 302 [Name ''mnist'']
           (Call (Name ''fetch_openml'')
              [StrLit, keyword ''version'' NumLit, keyword ''as_frame'' ConstLit]),
         Assign 305 [Name ''mask'']
           (Call (Attribute (Name ''np'') ''logical_or'')
              [Compare (Attribute (Name ''mnist'') ''target'') [''==''] [Name ''class_0''],
               Compare (Attribute (Name ''mnist'') ''target'') [''==''] [Name ''class_1'']]),
         Assign 307 [Tuple [Name ''X'', Name ''y'']]
           (Call (Name ''shuffle'')
              [Subscript (Attribute (Name ''mnist'') ''data'') (Name ''mask''),
               Subscript (Attribute (Name ''mnist'') ''target'') (Name ''mask''),
               keyword ''random_state'' NumLit]),
         IfStmt 308 (Compare (Name ''n_samples'') [''is not''] [ConstLit])
           [Assign 309 [Tuple [Name ''X'', Name ''y'']]
              (Tuple
                 [Subscript (Name ''X'') (Slice Absent (Name ''n_samples'') Absent),
                  Subscript (Name ''y'') (Slice Absent (Name ''n_samples'') Absent)])]
           [],
         Return 310 (Tuple [Name ''X'', Name ''y''])],
      FunctionDef 314 ''fit_and_score''
        [Call (Name ''ignore_warnings'') [keyword ''category'' (Name ''ConvergenceWarning'')]]
        [''estimator'', ''max_iter'', ''X_train'', ''X_test'', ''y_train'', ''y_test'']
        []
        [Expr 315 StrLit,
         Expr 316
           (Call (Attribute (Name ''estimator'') ''set_params'')
              [keyword ''max_iter'' (Name ''max_iter'')]),
         Expr 317
           (Call (Attribute (Name ''estimator'') ''set_params'')
              [keyword ''random_state'' NumLit]),
         Assign 319 [Name ''start''] (Call (Attribute (Name ''time'') ''time'') []),
         Expr 320
           (Call (Attribute (Name ''estimator'') ''fit'') [Name ''X_train'', Name ''y_train'']),
         Assign 322 [Name ''fit_time'']
           (BinOp (Call (Attribute (Name ''time'') ''time'') []) ''-'' (Name ''start'')),
         Assign 323 [Name ''n_iter''] (Attribute (Name ''estimator'') ''n_iter_''),
         Assign 324 [Name ''train_score'']
           (Call (Attribute (Name ''estimator'') ''score'') [Name ''X_train'', Name ''y_train'']),
         Assign 325 [Name ''test_score'']
           (Call (Attribute (Name ''estimator'') ''score'') [Name ''X_test'', Name ''y_test'']),
         Return 327
           (Tuple
              [Name ''fit_time'', Name ''n_iter'', Name ''train_score'', Name ''test_score''])],
      Assign 331 [Name ''estimator_dict'']
        (Dict [StrLit, StrLit, StrLit]
           [Call (Attribute (Name ''linear_model'') ''SGDClassifier'')
              [keyword ''n_iter_no_change'' NumLit],
            Call (Attribute (Name ''linear_model'') ''SGDClassifier'')
              [keyword ''early_stopping'' ConstLit,
               keyword ''n_iter_no_change'' NumLit,
               keyword ''tol'' NumLit],
            Call (Attribute (Name ''linear_model'') ''SGDClassifier'')
              [keyword ''early_stopping'' ConstLit,
               keyword ''n_iter_no_change'' NumLit,
               keyword ''tol'' NumLit,
               keyword ''validation_fraction'' NumLit]]),
      Assign 342 [Tuple [Name ''X'', Name ''y'']]
        (Call (Name ''load_mnist'') [keyword ''n_samples'' NumLit]),
      Assign 343 [Tuple [Name ''X_train'', Name ''X_test'', Name ''y_train'', Name ''y_test'']]
        (Call (Name ''train_test_split'')
           [Name ''X'',
            Name ''y'',
            keyword ''test_size'' NumLit,
            keyword ''random_state'' NumLit]),
      Assign 345 [Name ''results''] (ListE []),
      For 346 (Tuple [Name ''estimator_name'', Name ''estimator''])
        (Call (Attribute (Name ''estimator_dict'') ''items'') [])
        [Expr 347
           (Call (Name ''print'')
              [BinOp (Name ''estimator_name'') ''+'' StrLit, keyword ''end'' StrLit]),
         For 348 (Name ''max_iter'') (Call (Name ''range'') [NumLit, NumLit])
           [Expr 349 (Call (Name ''print'') [StrLit, keyword ''end'' StrLit]),
            Expr 350 (Call (Attribute (Attribute (Name ''sys'') ''stdout'') ''flush'') []),
            Assign 352
              [Tuple
                 [Name ''fit_time'', Name ''n_iter'', Name ''train_score'', Name ''test_score'']]
              (Call (Name ''fit_and_score'')
                 [Name ''estimator'',
                  Name ''max_iter'',
                  Name ''X_train'',
                  Name ''X_test'',
                  Name ''y_train'',
                  Name ''y_test'']),
            Expr 356
              (Call (Attribute (Name ''results'') ''append'')
                 [Tuple
                    [Name ''estimator_name'',
                     Name ''max_iter'',
                     Name ''fit_time'',
                     Name ''n_iter'',
                     Name ''train_score'',
                     Name ''test_score'']])],
         Expr 359 (Call (Name ''print'') [StrLit])],
      Assign 362 [Name ''columns''] (ListE [StrLit, StrLit, StrLit, StrLit, StrLit, StrLit]),
      Assign 370 [Name ''results_df'']
        (Call (Attribute (Name ''pd'') ''DataFrame'')
           [Name ''results'', keyword ''columns'' (Name ''columns'')]),
      Assign 373 [Name ''lines''] StrLit,
      Assign 374 [Name ''x_axis''] StrLit,
      Assign 375 [Name ''styles''] (ListE [StrLit, StrLit, StrLit]),
      Assign 378 [Tuple [Name ''fig'', Name ''axes'']]
        (Call (Attribute (Name ''plt'') ''subplots'')
           [keyword ''nrows'' NumLit,
            keyword ''ncols'' NumLit,
            keyword ''sharey'' ConstLit,
            keyword ''figsize'' (Tuple [NumLit, NumLit])]),
      For 379 (Tuple [Name ''ax'', Name ''y_axis''])
        (Call (Name ''zip'') [Name ''axes'', ListE [StrLit, StrLit]])
        [For 380 (Tuple [Name ''style'', Tuple [Name ''criterion'', Name ''group_df'']])
           (Call (Name ''zip'')
              [Name ''styles'',
               Call (Attribute (Name ''results_df'') ''groupby'') [Name ''lines'']])
           [Expr 381
              (Call (Attribute (Name ''group_df'') ''plot'')
                 [keyword ''x'' (Name ''x_axis''),
                  keyword ''y'' (Name ''y_axis''),
                  keyword ''label'' (Name ''criterion''),
                  keyword ''ax'' (Name ''ax''),
                  keyword ''style'' (Name ''style'')])],
         Expr 382 (Call (Attribute (Name ''ax'') ''set_title'') [Name ''y_axis'']),
         Expr 383
           (Call (Attribute (Name ''ax'') ''legend'') [keyword ''title'' (Name ''lines'')])],
      Expr 384 (Call (Attribute (Name ''fig'') ''tight_layout'') []),
      Assign 387 [Tuple [Name ''fig'', Name ''axes'']]
        (Call (Attribute (Name ''plt'') ''subplots'')
           [keyword ''nrows'' NumLit,
            keyword ''ncols'' NumLit,
            keyword ''figsize'' (Tuple [NumLit, NumLit])]),
      For 388 (Tuple [Name ''ax'', Name ''y_axis''])
        (Call (Name ''zip'') [Name ''axes'', ListE [StrLit, StrLit]])
        [For 389 (Tuple [Name ''style'', Tuple [Name ''criterion'', Name ''group_df'']])
           (Call (Name ''zip'')
              [Name ''styles'',
               Call (Attribute (Name ''results_df'') ''groupby'') [Name ''lines'']])
           [Expr 390
              (Call (Attribute (Name ''group_df'') ''plot'')
                 [keyword ''x'' (Name ''x_axis''),
                  keyword ''y'' (Name ''y_axis''),
                  keyword ''label'' (Name ''criterion''),
                  keyword ''ax'' (Name ''ax''),
                  keyword ''style'' (Name ''style'')])],
         Expr 391 (Call (Attribute (Name ''ax'') ''set_title'') [Name ''y_axis'']),
         Expr 392
           (Call (Attribute (Name ''ax'') ''legend'') [keyword ''title'' (Name ''lines'')])],
      Expr 393 (Call (Attribute (Name ''fig'') ''tight_layout'') []),
      Expr 395 (Call (Attribute (Name ''plt'') ''show'') [])]\<rparr>"

text \<open>
  GMM covariances
  (\<^verbatim>\<open>mixture/plot_gmm_covariances.ipynb\<close>, lines 10 to 148).
\<close>

definition plot_gmm_covariances :: script where
  "plot_gmm_covariances =
   \<lparr>source_path = ''mixture/plot_gmm_covariances.ipynb'', first_line = 10,
   body =
     [Expr 10 StrLit,
      Import 42 [([''matplotlib''], ''mpl'')],
      Import 43 [([''matplotlib'', ''pyplot''], ''plt'')],
      Import 44 [([''numpy''], ''np'')],
      ImportFrom 46 [''sklearn''] [(''datasets'', [])],
      ImportFrom 47 [''sklearn'', ''mixture''] [(''GaussianMixture'', [])],
      ImportFrom 48 [''sklearn'', ''model_selection''] [(''StratifiedKFold'', [])],
      Assign 50 [Name ''colors''] (ListE [StrLit, StrLit, StrLit]),
      FunctionDef 53 ''make_ellipses'' [] [''gmm'', ''ax''] []
        [For 54 (Tuple [Name ''n'', Name ''color'']) (Call (Name ''enumerate'') [Name ''colors''])
           [IfStmt 55 (Compare (Attribute (Name ''gmm'') ''covariance_type'') [''==''] [StrLit])
              [Assign 56 [Name ''covariances'']
                 (Subscript (Subscript (Attribute (Name ''gmm'') ''covariances_'') (Name ''n''))
                    (Tuple [Slice Absent NumLit Absent, Slice Absent NumLit Absent]))]
              [IfStmt 57
                 (Compare (Attribute (Name ''gmm'') ''covariance_type'') [''==''] [StrLit])
                 [Assign 58 [Name ''covariances'']
                    (Subscript (Attribute (Name ''gmm'') ''covariances_'')
                       (Tuple [Slice Absent NumLit Absent, Slice Absent NumLit Absent]))]
                 [IfStmt 59
                    (Compare (Attribute (Name ''gmm'') ''covariance_type'') [''==''] [StrLit])
                    [Assign 60 [Name ''covariances'']
                       (Call (Attribute (Name ''np'') ''diag'')
                          [Subscript
                             (Subscript (Attribute (Name ''gmm'') ''covariances_'') (Name ''n''))
                             (Slice Absent NumLit Absent)])]
                    [IfStmt 61
                       (Compare (Attribute (Name ''gmm'') ''covariance_type'') [''==''] [StrLit])
                       [Assign 62 [Name ''covariances'']
                          (BinOp
                             (Call (Attribute (Name ''np'') ''eye'')
                                [Subscript
                                   (Attribute (Attribute (Name ''gmm'') ''means_'') ''shape'')
                                   NumLit])
                             ''*''
                             (Subscript (Attribute (Name ''gmm'') ''covariances_'')
                                (Name ''n'')))]
                       []]]],
            Assign 63 [Tuple [Name ''v'', Name ''w'']]
              (Call (Attribute (Attribute (Name ''np'') ''linalg'') ''eigh'')
                 [Name ''covariances'']),
            Assign 64 [Name ''u'']
              (BinOp (Subscript (Name ''w'') NumLit) ''/''
                 (Call (Attribute (Attribute (Name ''np'') ''linalg'') ''norm'')
                    [Subscript (Name ''w'') NumLit])),
            Assign 65 [Name ''angle'']
              (Call (Attribute (Name ''np'') ''arctan2'')
                 [Subscript (Name ''u'') NumLit, Subscript (Name ''u'') NumLit]),
            Assign 66 [Name ''angle'']
              (BinOp (BinOp NumLit ''*'' (Name ''angle'')) ''/''
                 (Attribute (Name ''np'') ''pi'')),
            Assign 67 [Name ''v'']
              (BinOp (BinOp NumLit ''*'' (Call (Attribute (Name ''np'') ''sqrt'') [NumLit])) ''*''
                 (Call (Attribute (Name ''np'') ''sqrt'') [Name ''v''])),
            Assign 68 [Name ''ell'']
              (Call (Attribute (Attribute (Name ''mpl'') ''patches'') ''Ellipse'')
                 [Subscript (Attribute (Name ''gmm'') ''means_'')
                    (Tuple [Name ''n'', Slice Absent NumLit Absent]),
                  Subscript (Name ''v'') NumLit,
                  Subscript (Name ''v'') NumLit,
                  keyword ''angle'' (BinOp NumLit ''+'' (Name ''angle'')),
                  keyword ''color'' (Name ''color'')]),
            Expr 71
              (Call (Attribute (Name ''ell'') ''set_clip_box'')
                 [Attribute (Name ''ax'') ''bbox'']),
            Expr 72 (Call (Attribute (Name ''ell'') ''set_alpha'') [NumLit]),
            Expr 73 (Call (Attribute (Name ''ax'') ''add_artist'') [Name ''ell'']),
            Expr 74 (Call (Attribute (Name ''ax'') ''set_aspect'') [StrLit, StrLit])]],
      Assign 77 [Name ''iris''] (Call (Attribute (Name ''datasets'') ''load_iris'') []),
      Assign 81 [Name ''skf''] (Call (Name ''StratifiedKFold'') [keyword ''n_splits'' NumLit]),
      Assign 83 [Tuple [Name ''train_index'', Name ''test_index'']]
        (Call (Name ''next'')
           [Call (Name ''iter'')
              [Call (Attribute (Name ''skf'') ''split'')
                 [Attribute (Name ''iris'') ''data'', Attribute (Name ''iris'') ''target'']]]),
      Assign 86 [Name ''X_train'']
        (Subscript (Attribute (Name ''iris'') ''data'') (Name ''train_index'')),
      Assign 87 [Name ''y_train'']
        (Subscript (Attribute (Name ''iris'') ''target'') (Name ''train_index'')),
      Assign 88 [Name ''X_test'']
        (Subscript (Attribute (Name ''iris'') ''data'') (Name ''test_index'')),
      Assign 89 [Name ''y_test'']
        (Subscript (Attribute (Name ''iris'') ''target'') (Name ''test_index'')),
      Assign 91 [Name ''n_classes'']
        (Call (Name ''len'') [Call (Attribute (Name ''np'') ''unique'') [Name ''y_train'']]),
      Assign 94 [Name ''estimators'']
        (DictComp (Name ''cov_type'')
           (Call (Name ''GaussianMixture'')
              [keyword ''n_components'' (Name ''n_classes''),
               keyword ''covariance_type'' (Name ''cov_type''),
               keyword ''max_iter'' NumLit,
               keyword ''random_state'' NumLit])
           [comprehension (Name ''cov_type'') (ListE [StrLit, StrLit, StrLit, StrLit]) []]),
      Assign 101 [Name ''n_estimators''] (Call (Name ''len'') [Name ''estimators'']),
      Expr 103
        (Call (Attribute (Name ''plt'') ''figure'')
           [keyword ''figsize''
              (Tuple
                 [BinOp (BinOp NumLit ''*'' (Name ''n_estimators'')) ''//'' NumLit, NumLit])]),
      Expr 104
        (Call (Attribute (Name ''plt'') ''subplots_adjust'')
           [keyword ''bottom'' NumLit,
            keyword ''top'' NumLit,
            keyword ''hspace'' NumLit,
            keyword ''wspace'' NumLit,
            keyword ''left'' NumLit,
            keyword ''right'' NumLit]),
      For 109 (Tuple [Name ''index'', Tuple [Name ''name'', Name ''estimator'']])
        (Call (Name ''enumerate'') [Call (Attribute (Name ''estimators'') ''items'') []])
        [Assign 112 [Attribute (Name ''estimator'') ''means_init'']
           (Call (Attribute (Name ''np'') ''array'')
              [ListComp
                 (Call
                    (Attribute
                       (Subscript (Name ''X_train'')
                          (Compare (Name ''y_train'') [''==''] [Name ''i'']))
                       ''mean'')
                    [keyword ''axis'' NumLit])
                 [comprehension (Name ''i'') (Call (Name ''range'') [Name ''n_classes'']) []]]),
         Expr 117 (Call (Attribute (Name ''estimator'') ''fit'') [Name ''X_train'']),
         Assign 119 [Name ''h'']
           (Call (Attribute (Name ''plt'') ''subplot'')
              [NumLit,
               BinOp (Name ''n_estimators'') ''//'' NumLit,
               BinOp (Name ''index'') ''+'' NumLit]),
         Expr 120 (Call (Name ''make_ellipses'') [Name ''estimator'', Name ''h'']),
         For 122 (Tuple [Name ''n'', Name ''color''])
           (Call (Name ''enumerate'') [Name ''colors''])
           [Assign 123 [Name ''data'']
              (Subscript (Attribute (Name ''iris'') ''data'')
                 (Compare (Attribute (Name ''iris'') ''target'') [''==''] [Name ''n''])),
            Expr 124
              (Call (Attribute (Name ''plt'') ''scatter'')
                 [Subscript (Name ''data'') (Tuple [Slice Absent Absent Absent, NumLit]),
                  Subscript (Name ''data'') (Tuple [Slice Absent Absent Absent, NumLit]),
                  keyword ''s'' NumLit,
                  keyword ''color'' (Name ''color''),
                  keyword ''label''
                    (Subscript (Attribute (Name ''iris'') ''target_names'') (Name ''n''))])],
         For 128 (Tuple [Name ''n'', Name ''color''])
           (Call (Name ''enumerate'') [Name ''colors''])
           [Assign 129 [Name ''data'']
              (Subscript (Name ''X_test'') (Compare (Name ''y_test'') [''==''] [Name ''n''])),
            Expr 130
              (Call (Attribute (Name ''plt'') ''scatter'')
                 [Subscript (Name ''data'') (Tuple [Slice Absent Absent Absent, NumLit]),
                  Subscript (Name ''data'') (Tuple [Slice Absent Absent Absent, NumLit]),
                  keyword ''marker'' StrLit,
                  keyword ''color'' (Name ''color'')])],
         Assign 132 [Name ''y_train_pred'']
           (Call (Attribute (Name ''estimator'') ''predict'') [Name ''X_train'']),
         Assign 133 [Name ''train_accuracy'']
           (BinOp
              (Call (Attribute (Name ''np'') ''mean'')
                 [Compare (Call (Attribute (Name ''y_train_pred'') ''ravel'') []) [''=='']
                    [Call (Attribute (Name ''y_train'') ''ravel'') []]])
              ''*''
              NumLit),
         Expr 134
           (Call (Attribute (Name ''plt'') ''text'')
              [NumLit,
               NumLit,
               BinOp StrLit ''%'' (Name ''train_accuracy''),
               keyword ''transform'' (Attribute (Name ''h'') ''transAxes'')]),
         Assign 136 [Name ''y_test_pred'']
           (Call (Attribute (Name ''estimator'') ''predict'') [Name ''X_test'']),
         Assign 137 [Name ''test_accuracy'']
           (BinOp
              (Call (Attribute (Name ''np'') ''mean'')
                 [Compare (Call (Attribute (Name ''y_test_pred'') ''ravel'') []) [''=='']
                    [Call (Attribute (Name ''y_test'') ''ravel'') []]])
              ''*''
              NumLit),
         Expr 138
           (Call (Attribute (Name ''plt'') ''text'')
              [NumLit,
               NumLit,
               BinOp StrLit ''%'' (Name ''test_accuracy''),
               keyword ''transform'' (Attribute (Name ''h'') ''transAxes'')]),
         Expr 140 (Call (Attribute (Name ''plt'') ''xticks'') [Tuple []]),
         Expr 141 (Call (Attribute (Name ''plt'') ''yticks'') [Tuple []]),
         Expr 142 (Call (Attribute (Name ''plt'') ''title'') [Name ''name''])],
      Expr 144
        (Call (Attribute (Name ''plt'') ''legend'')
           [keyword ''scatterpoints'' NumLit,
            keyword ''loc'' StrLit,
            keyword ''prop'' (Call (Name ''dict'') [keyword ''size'' NumLit])]),
      Expr 147 (Call (Attribute (Name ''plt'') ''show'') [])]\<rparr>"

text \<open>
  Receiver Operating Characteristic (ROC) with cross validation
  (\<^verbatim>\<open>model_selection/plot_roc_crossval.ipynb\<close>, lines 10 to 143).
\<close>

definition plot_roc_crossval :: script where
  "plot_roc_crossval =
   \<lparr>source_path = ''model_selection/plot_roc_crossval.ipynb'', first_line = 10,
   body =
     [Expr 10 StrLit,
      Import 55 [([''numpy''], ''np'')],
      ImportFrom 57 [''sklearn'', ''datasets''] [(''load_iris'', [])],
      Assign 59 [Name ''iris''] (Call (Name ''load_iris'') []),
      Assign 60 [Name ''target_names''] (Attribute (Name ''iris'') ''target_names''),
      Assign 61 [Tuple [Name ''X'', Name ''y'']]
        (Tuple [Attribute (Name ''iris'') ''data'', Attribute (Name ''iris'') ''target'']),
      Assign 62 [Tuple [Name ''X'', Name ''y'']]
        (Tuple
           [Subscript (Name ''X'') (Compare (Name ''y'') [''!=''] [NumLit]),
            Subscript (Name ''y'') (Compare (Name ''y'') [''!=''] [NumLit])]),
      Assign 63 [Tuple [Name ''n_samples'', Name ''n_features'']]
        (Attribute (Name ''X'') ''shape''),
      Assign 67 [Name ''random_state'']
        (Call (Attribute (Attribute (Name ''np'') ''random'') ''RandomState'') [NumLit]),
      Assign 68 [Name ''X'']
        (Call (Attribute (Name ''np'') ''concatenate'')
           [ListE
              [Name ''X'',
               Call (Attribute (Name ''random_state'') ''randn'')
                 [Name ''n_samples'', BinOp NumLit ''*'' (Name ''n_features'')]],
            keyword ''axis'' NumLit]),
      Import 79 [([''matplotlib'', ''pyplot''], ''plt'')],
      ImportFrom 81 [''sklearn''] [(''svm'', [])],
      ImportFrom 82 [''sklearn'', ''metrics''] [(''RocCurveDisplay'', []), (''auc'', [])],
      ImportFrom 83 [''sklearn'', ''model_selection''] [(''StratifiedKFold'', [])],
      Assign 85 [Name ''n_splits''] NumLit,
      Assign 86 [Name ''cv'']
        (Call (Name ''StratifiedKFold'') [keyword ''n_splits'' (Name ''n_splits'')]),
      Assign 87 [Name ''classifier'']
        (Call (Attribute (Name ''svm'') ''SVC'')
           [keyword ''kernel'' StrLit,
            keyword ''probability'' ConstLit,
            keyword ''random_state'' (Name ''random_state'')]),
      Assign 89 [Name ''tprs''] (ListE []),
      Assign 90 [Name ''aucs''] (ListE []),
      Assign 91 [Name ''mean_fpr'']
        (Call (Attribute (Name ''np'') ''linspace'') [NumLit, NumLit, NumLit]),
      Assign 93 [Tuple [Name ''fig'', Name ''ax'']]
        (Call (Attribute (Name ''plt'') ''subplots'')
           [keyword ''figsize'' (Tuple [NumLit, NumLit])]),
      For 94 (Tuple [Name ''fold'', Tuple [Name ''train'', Name ''test'']])
        (Call (Name ''enumerate'')
           [Call (Attribute (Name ''cv'') ''split'') [Name ''X'', Name ''y'']])
        [Expr 95
           (Call (Attribute (Name ''classifier'') ''fit'')
              [Subscript (Name ''X'') (Name ''train''), Subscript (Name ''y'') (Name ''train'')]),
         Assign 96 [Name ''viz'']
           (Call (Attribute (Name ''RocCurveDisplay'') ''from_estimator'')
              [Name ''classifier'',
               Subscript (Name ''X'') (Name ''test''),
               Subscript (Name ''y'') (Name ''test''),
               keyword ''name'' (JoinedStr [Name ''fold'']),
               keyword ''alpha'' NumLit,
               keyword ''lw'' NumLit,
               keyword ''ax'' (Name ''ax''),
               keyword ''plot_chance_level''
                 (Compare (Name ''fold'') [''==''] [BinOp (Name ''n_splits'') ''-'' NumLit])]),
         Assign 106 [Name ''interp_tpr'']
           (Call (Attribute (Name ''np'') ''interp'')
              [Name ''mean_fpr'',
               Attribute (Name ''viz'') ''fpr'',
               Attribute (Name ''viz'') ''tpr'']),
         Assign 107 [Subscript (Name ''interp_tpr'') NumLit] NumLit,
         Expr 108 (Call (Attribute (Name ''tprs'') ''append'') [Name ''interp_tpr'']),
         Expr 109
           (Call (Attribute (Name ''aucs'') ''append'') [Attribute (Name ''viz'') ''roc_auc''])],
      Assign 111 [Name ''mean_tpr'']
        (Call (Attribute (Name ''np'') ''mean'') [Name ''tprs'', keyword ''axis'' NumLit]),
      Assign 112 [Subscript (Name ''mean_tpr'') (UnaryOp ''-'' NumLit)] NumLit,
      Assign 113 [Name ''mean_auc''] (Call (Name ''auc'') [Name ''mean_fpr'', Name ''mean_tpr'']),
      Assign 114 [Name ''std_auc''] (Call (Attribute (Name ''np'') ''std'') [Name ''aucs'']),
      Expr 115
        (Call (Attribute (Name ''ax'') ''plot'')
           [Name ''mean_fpr'',
            Name ''mean_tpr'',
            keyword ''color'' StrLit,
            keyword ''label'' (BinOp StrLit ''%'' (Tuple [Name ''mean_auc'', Name ''std_auc''])),
            keyword ''lw'' NumLit,
            keyword ''alpha'' NumLit]),
      Assign 124 [Name ''std_tpr'']
        (Call (Attribute (Name ''np'') ''std'') [Name ''tprs'', keyword ''axis'' NumLit]),
      Assign 125 [Name ''tprs_upper'']
        (Call (Attribute (Name ''np'') ''minimum'')
           [BinOp (Name ''mean_tpr'') ''+'' (Name ''std_tpr''), NumLit]),
      Assign 126 [Name ''tprs_lower'']
        (Call (Attribute (Name ''np'') ''maximum'')
           [BinOp (Name ''mean_tpr'') ''-'' (Name ''std_tpr''), NumLit]),
      Expr 127
        (Call (Attribute (Name ''ax'') ''fill_between'')
           [Name ''mean_fpr'',
            Name ''tprs_lower'',
            Name ''tprs_upper'',
            keyword ''color'' StrLit,
            keyword ''alpha'' NumLit,
            keyword ''label'' StrLit]),
      Expr 136
        (Call (Attribute (Name ''ax'') ''set'')
           [keyword ''xlabel'' StrLit,
            keyword ''ylabel'' StrLit,
            keyword ''title'' (JoinedStr [Subscript (Name ''target_names'') NumLit])]),
      Expr 141 (Call (Attribute (Name ''ax'') ''legend'') [keyword ''loc'' StrLit]),
      Expr 142 (Call (Attribute (Name ''plt'') ''show'') [])]\<rparr>"

text \<open>
  Plot different SVM classifiers in the iris dataset
  (\<^verbatim>\<open>unnamed/part_000\<close>, lines 10 to 102).
\<close>

definition plot_svm_iris :: script where
  "plot_svm_iris =
   \<lparr>source_path = ''unnamed/part_000'', first_line = 10,
   body =
     [Expr 10 StrLit,
      Import 49 [([''matplotlib'', ''pyplot''], ''plt'')],
      ImportFrom 51 [''sklearn''] [(''datasets'', []), (''svm'', [])],
      ImportFrom 52 [''sklearn'', ''inspection''] [(''DecisionBoundaryDisplay'', [])],
      Assign 55 [Name ''iris''] (Call (Attribute (Name ''datasets'') ''load_iris'') []),
      Assign 57 [Name ''X'']
        (Subscript (Attribute (Name ''iris'') ''data'')
           (Tuple [Slice Absent Absent Absent, Slice Absent NumLit Absent])),
      Assign 58 [Name ''y''] (Attribute (Name ''iris'') ''target''),
      Assign 62 [Name ''C''] NumLit,
      Assign 63 [Name ''models'']
        (Tuple
           [Call (Attribute (Name ''svm'') ''SVC'')
              [keyword ''kernel'' StrLit, keyword ''C'' (Name ''C'')],
            Call (Attribute (Name ''svm'') ''LinearSVC'')
              [keyword ''C'' (Name ''C''), keyword ''max_iter'' NumLit],
            Call (Attribute (Name ''svm'') ''SVC'')
              [keyword ''kernel'' StrLit, keyword ''gamma'' NumLit, keyword ''C'' (Name ''C'')],
            Call (Attribute (Name ''svm'') ''SVC'')
              [keyword ''kernel'' StrLit,
               keyword ''degree'' NumLit,
               keyword ''gamma'' StrLit,
               keyword ''C'' (Name ''C'')]]),
      Assign 69 [Name ''models'']
        (GeneratorExp (Call (Attribute (Name ''clf'') ''fit'') [Name ''X'', Name ''y''])
           [comprehension (Name ''clf'') (Name ''models'') []]),
      Assign 72 [Name ''titles''] (Tuple [StrLit, StrLit, StrLit, StrLit]),
      Assign 80 [Tuple [Name ''fig'', Name ''sub'']]
        (Call (Attribute (Name ''plt'') ''subplots'') [NumLit, NumLit]),
      Expr 81
        (Call (Attribute (Name ''plt'') ''subplots_adjust'')
           [keyword ''wspace'' NumLit, keyword ''hspace'' NumLit]),
      Assign 83 [Tuple [Name ''X0'', Name ''X1'']]
        (Tuple
           [Subscript (Name ''X'') (Tuple [Slice Absent Absent Absent, NumLit]),
            Subscript (Name ''X'') (Tuple [Slice Absent Absent Absent, NumLit])]),
      For 85 (Tuple [Name ''clf'', Name ''title'', Name ''ax''])
        (Call (Name ''zip'')
           [Name ''models'', Name ''titles'', Call (Attribute (Name ''sub'') ''flatten'') []])
        [Assign 86 [Name ''disp'']
           (Call (Attribute (Name ''DecisionBoundaryDisplay'') ''from_estimator'')
              [Name ''clf'',
               Name ''X'',
               keyword ''response_method'' StrLit,
               keyword ''cmap'' (Attribute (Attribute (Name ''plt'') ''cm'') ''coolwarm''),
               keyword ''alpha'' NumLit,
               keyword ''ax'' (Name ''ax''),
               keyword ''xlabel''
                 (Subscript (Attribute (Name ''iris'') ''feature_names'') NumLit),
               keyword ''ylabel''
                 (Subscript (Attribute (Name ''iris'') ''feature_names'') NumLit)]),
         Expr 96
           (Call (Attribute (Name ''ax'') ''scatter'')
              [Name ''X0'',
               Name ''X1'',
               keyword ''c'' (Name ''y''),
               keyword ''cmap'' (Attribute (Attribute (Name ''plt'') ''cm'') ''coolwarm''),
               keyword ''s'' NumLit,
               keyword ''edgecolors'' StrLit]),
         Expr 97 (Call (Attribute (Name ''ax'') ''set_xticks'') [Tuple []]),
         Expr 98 (Call (Attribute (Name ''ax'') ''set_yticks'') [Tuple []]),
         Expr 99 (Call (Attribute (Name ''ax'') ''set_title'') [Name ''title''])],
      Expr 101 (Call (Attribute (Name ''plt'') ''show'') [])]\<rparr>"

text \<open>
  Plotting Learning Curves and Checking Models' Scalability
  (\<^verbatim>\<open>unnamed/part_001\<close>, lines 10 to 197).
\<close>

definition plot_learning_curve :: script where
  "plot_learning_curve =
   \<lparr>source_path = ''unnamed/part_001'', first_line = 10,
   body =
     [Expr 10 StrLit,
      ImportFrom 38 [''sklearn'', ''datasets''] [(''load_digits'', [])],
      ImportFrom 39 [''sklearn'', ''naive_bayes''] [(''GaussianNB'', [])],
      ImportFrom 40 [''sklearn'', ''svm''] [(''SVC'', [])],
      Assign 42 [Tuple [Name ''X'', Name ''y'']]
        (Call (Name ''load_digits'') [keyword ''return_X_y'' ConstLit]),
      Assign 43 [Name ''naive_bayes''] (Call (Name ''GaussianNB'') []),
      Assign 44 [Name ''svc'']
        (Call (Name ''SVC'') [keyword ''kernel'' StrLit, keyword ''gamma'' NumLit]),
      Import 51 [([''matplotlib'', ''pyplot''], ''plt'')],
      Import 52 [([''numpy''], ''np'')],
      ImportFrom 54 [''sklearn'', ''model_selection'']
        [(''LearningCurveDisplay'', []), (''ShuffleSplit'', [])],
      Assign 56 [Tuple [Name ''fig'', Name ''ax'']]
        (Call (Attribute (Name ''plt'') ''subplots'')
           [keyword ''nrows'' NumLit,
            keyword ''ncols'' NumLit,
            keyword ''figsize'' (Tuple [NumLit, NumLit]),
            keyword ''sharey'' ConstLit]),
      Assign 58 [Name ''common_params'']
        (Dict [StrLit, StrLit, StrLit, StrLit, StrLit, StrLit, StrLit, StrLit, StrLit]
           [Name ''X'',
            Name ''y'',
            Call (Attribute (Name ''np'') ''linspace'') [NumLit, NumLit, NumLit],
            Call (Name ''ShuffleSplit'')
              [keyword ''n_splits'' NumLit,
               keyword ''test_size'' NumLit,
               keyword ''random_state'' NumLit],
            StrLit,
            NumLit,
            Dict [StrLit] [StrLit],
            StrLit,
            StrLit]),
      For 70 (Tuple [Name ''ax_idx'', Name ''estimator''])
        (Call (Name ''enumerate'') [ListE [Name ''naive_bayes'', Name ''svc'']])
        [Expr 71
           (Call (Attribute (Name ''LearningCurveDisplay'') ''from_estimator'')
              [Name ''estimator'',
               keyword [] (Name ''common_params''),
               keyword ''ax'' (Subscript (Name ''ax'') (Name ''ax_idx''))]),
         Assign 72 [Tuple [Name ''handles'', Name ''label'']]
           (Call
              (Attribute (Subscript (Name ''ax'') (Name ''ax_idx''))
                 ''get_legend_handles_labels'')
              []),
         Expr 73
           (Call (Attribute (Subscript (Name ''ax'') (Name ''ax_idx'')) ''legend'')
              [Subscript (Name ''handles'') (Slice Absent NumLit Absent),
               ListE [StrLit, StrLit]]),
         Expr 74
           (Call (Attribute (Subscript (Name ''ax'') (Name ''ax_idx'')) ''set_title'')
              [JoinedStr
                 [Attribute (Attribute (Name ''estimator'') ''__class__'') ''__name__'']])],
      ImportFrom 104 [''sklearn'', ''model_selection''] [(''learning_curve'', [])],
      Assign 106 [Name ''common_params'']
        (Dict [StrLit, StrLit, StrLit, StrLit, StrLit, StrLit]
           [Name ''X'',
            Name ''y'',
            Call (Attribute (Name ''np'') ''linspace'') [NumLit, NumLit, NumLit],
            Call (Name ''ShuffleSplit'')
              [keyword ''n_splits'' NumLit,
               keyword ''test_size'' NumLit,
               keyword ''random_state'' NumLit],
            NumLit,
            ConstLit]),
      Assign 115
        [Tuple
           [Name ''train_sizes'',
            Name ''_'',
            Name ''test_scores_nb'',
            Name ''fit_times_nb'',
            Name ''score_times_nb'']]
        (Call (Name ''learning_curve'')
           [Name ''naive_bayes'', keyword [] (Name ''common_params'')]),
      Assign 118
        [Tuple
           [Name ''train_sizes'',
            Name ''_'',
            Name ''test_scores_svm'',
            Name ''fit_times_svm'',
            Name ''score_times_svm'']]
        (Call (Name ''learning_curve'') [Name ''svc'', keyword [] (Name ''common_params'')]),
      Assign 123 [Tuple [Name ''fig'', Name ''ax'']]
        (Call (Attribute (Name ''plt'') ''subplots'')
           [keyword ''nrows'' NumLit,
            keyword ''ncols'' NumLit,
            keyword ''figsize'' (Tuple [NumLit, NumLit]),
            keyword ''sharex'' ConstLit]),
      For 125
        (Tuple
           [Name ''ax_idx'',
            Tuple [Name ''fit_times'', Name ''score_times'', Name ''estimator'']])
        (Call (Name ''enumerate'')
           [Call (Name ''zip'')
              [ListE [Name ''fit_times_nb'', Name ''fit_times_svm''],
               ListE [Name ''score_times_nb'', Name ''score_times_svm''],
               ListE [Name ''naive_bayes'', Name ''svc'']]])
        [Expr 133
           (Call (Attribute (Subscript (Name ''ax'') (Tuple [NumLit, Name ''ax_idx''])) ''plot'')
              [Name ''train_sizes'',
               Call (Attribute (Name ''fit_times'') ''mean'') [keyword ''axis'' NumLit],
               StrLit]),
         Expr 134
           (Call
              (Attribute (Subscript (Name ''ax'') (Tuple [NumLit, Name ''ax_idx'']))
                 ''fill_between'')
              [Name ''train_sizes'',
               BinOp (Call (Attribute (Name ''fit_times'') ''mean'') [keyword ''axis'' NumLit])
                 ''-''
                 (Call (Attribute (Name ''fit_times'') ''std'') [keyword ''axis'' NumLit]),
               BinOp (Call (Attribute (Name ''fit_times'') ''mean'') [keyword ''axis'' NumLit])
                 ''+''
                 (Call (Attribute (Name ''fit_times'') ''std'') [keyword ''axis'' NumLit]),
               keyword ''alpha'' NumLit]),
         Expr 140
           (Call
              (Attribute (Subscript (Name ''ax'') (Tuple [NumLit, Name ''ax_idx'']))
                 ''set_ylabel'')
              [StrLit]),
         Expr 141
           (Call
              (Attribute (Subscript (Name ''ax'') (Tuple [NumLit, Name ''ax_idx'']))
                 ''set_title'')
              [JoinedStr
                 [Attribute (Attribute (Name ''estimator'') ''__class__'') ''__name__'']]),
         Expr 146
           (Call (Attribute (Subscript (Name ''ax'') (Tuple [NumLit, Name ''ax_idx''])) ''plot'')
              [Name ''train_sizes'',
               Call (Attribute (Name ''score_times'') ''mean'') [keyword ''axis'' NumLit],
               StrLit]),
         Expr 147
           (Call
              (Attribute (Subscript (Name ''ax'') (Tuple [NumLit, Name ''ax_idx'']))
                 ''fill_between'')
              [Name ''train_sizes'',
               BinOp (Call (Attribute (Name ''score_times'') ''mean'') [keyword ''axis'' NumLit])
                 ''-''
                 (Call (Attribute (Name ''score_times'') ''std'') [keyword ''axis'' NumLit]),
               BinOp (Call (Attribute (Name ''score_times'') ''mean'') [keyword ''axis'' NumLit])
                 ''+''
                 (Call (Attribute (Name ''score_times'') ''std'') [keyword ''axis'' NumLit]),
               keyword ''alpha'' NumLit]),
         Expr 153
           (Call
              (Attribute (Subscript (Name ''ax'') (Tuple [NumLit, Name ''ax_idx'']))
                 ''set_ylabel'')
              [StrLit]),
         Expr 154
           (Call
              (Attribute (Subscript (Name ''ax'') (Tuple [NumLit, Name ''ax_idx'']))
                 ''set_xlabel'')
              [StrLit])],
      Assign 169 [Tuple [Name ''fig'', Name ''ax'']]
        (Call (Attribute (Name ''plt'') ''subplots'')
           [keyword ''nrows'' NumLit,
            keyword ''ncols'' NumLit,
            keyword ''figsize'' (Tuple [NumLit, NumLit])]),
      For 171
        (Tuple
           [Name ''ax_idx'',
            Tuple [Name ''fit_times'', Name ''test_scores'', Name ''estimator'']])
        (Call (Name ''enumerate'')
           [Call (Name ''zip'')
              [ListE [Name ''fit_times_nb'', Name ''fit_times_svm''],
               ListE [Name ''test_scores_nb'', Name ''test_scores_svm''],
               ListE [Name ''naive_bayes'', Name ''svc'']]])
        [Expr 178
           (Call (Attribute (Subscript (Name ''ax'') (Name ''ax_idx'')) ''plot'')
              [Call (Attribute (Name ''fit_times'') ''mean'') [keyword ''axis'' NumLit],
               Call (Attribute (Name ''test_scores'') ''mean'') [keyword ''axis'' NumLit],
               StrLit]),
         Expr 179
           (Call (Attribute (Subscript (Name ''ax'') (Name ''ax_idx'')) ''fill_between'')
              [Call (Attribute (Name ''fit_times'') ''mean'') [keyword ''axis'' NumLit],
               BinOp (Call (Attribute (Name ''test_scores'') ''mean'') [keyword ''axis'' NumLit])
                 ''-''
                 (Call (Attribute (Name ''test_scores'') ''std'') [keyword ''axis'' NumLit]),
               BinOp (Call (Attribute (Name ''test_scores'') ''mean'') [keyword ''axis'' NumLit])
                 ''+''
                 (Call (Attribute (Name ''test_scores'') ''std'') [keyword ''axis'' NumLit]),
               keyword ''alpha'' NumLit]),
         Expr 185
           (Call (Attribute (Subscript (Name ''ax'') (Name ''ax_idx'')) ''set_ylabel'') [StrLit]),
         Expr 186
           (Call (Attribute (Subscript (Name ''ax'') (Name ''ax_idx'')) ''set_xlabel'') [StrLit]),
         Expr 187
           (Call (Attribute (Subscript (Name ''ax'') (Name ''ax_idx'')) ''set_title'')
              [JoinedStr
                 [Attribute (Attribute (Name ''estimator'') ''__class__'') ''__name__'']])],
      Expr 191 (Call (Attribute (Name ''plt'') ''show'') [])]\<rparr>"

text \<open>
  Precision-Recall
  (\<^verbatim>\<open>unnamed/part_002\<close>, lines 10 to 287).
\<close>

definition plot_precision_recall :: script where
  "plot_precision_recall =
   \<lparr>source_path = ''unnamed/part_002'', first_line = 10,
   body =
     [Expr 10 StrLit,
      Import 115 [([''numpy''], ''np'')],
      ImportFrom 117 [''sklearn'', ''datasets''] [(''load_iris'', [])],
      ImportFrom 118 [''sklearn'', ''model_selection''] [(''train_test_split'', [])],
      Assign 120 [Tuple [Name ''X'', Name ''y'']]
        (Call (Name ''load_iris'') [keyword ''return_X_y'' ConstLit]),
      Assign 123 [Name ''random_state'']
        (Call (Attribute (Attribute (Name ''np'') ''random'') ''RandomState'') [NumLit]),
      Assign 124 [Tuple [Name ''n_samples'', Name ''n_features'']]
        (Attribute (Name ''X'') ''shape''),
      Assign 125 [Name ''X'']
        (Call (Attribute (Name ''np'') ''concatenate'')
           [ListE
              [Name ''X'',
               Call (Attribute (Name ''random_state'') ''randn'')
                 [Name ''n_samples'', BinOp NumLit ''*'' (Name ''n_features'')]],
            keyword ''axis'' NumLit]),
      Assign 128 [Tuple [Name ''X_train'', Name ''X_test'', Name ''y_train'', Name ''y_test'']]
        (Call (Name ''train_test_split'')
           [Subscript (Name ''X'') (Compare (Name ''y'') [''<''] [NumLit]),
            Subscript (Name ''y'') (Compare (Name ''y'') [''<''] [NumLit]),
            keyword ''test_size'' NumLit,
            keyword ''random_state'' (Name ''random_state'')]),
      ImportFrom 136 [''sklearn'', ''pipeline''] [(''make_pipeline'', [])],
      ImportFrom 137 [''sklearn'', ''preprocessing''] [(''StandardScaler'', [])],
      ImportFrom 138 [''sklearn'', ''svm''] [(''LinearSVC'', [])],
      Assign 140 [Name ''classifier'']
        (Call (Name ''make_pipeline'')
           [Call (Name ''StandardScaler'') [],
            Call (Name ''LinearSVC'') [keyword ''random_state'' (Name ''random_state'')]]),
      Expr 141
        (Call (Attribute (Name ''classifier'') ''fit'') [Name ''X_train'', Name ''y_train'']),
      ImportFrom 156 [''sklearn'', ''metrics''] [(''PrecisionRecallDisplay'', [])],
      Assign 158 [Name ''display'']
        (Call (Attribute (Name ''PrecisionRecallDisplay'') ''from_estimator'')
           [Name ''classifier'',
            Name ''X_test'',
            Name ''y_test'',
            keyword ''name'' StrLit,
            keyword ''plot_chance_level'' ConstLit]),
      Assign 161 [Name ''_'']
        (Call (Attribute (Attribute (Name ''display'') ''ax_'') ''set_title'') [StrLit]),
      Assign 167 [Name ''y_score'']
        (Call (Attribute (Name ''classifier'') ''decision_function'') [Name ''X_test'']),
      Assign 169 [Name ''display'']
        (Call (Attribute (Name ''PrecisionRecallDisplay'') ''from_predictions'')
           [Name ''y_test'',
            Name ''y_score'',
            keyword ''name'' StrLit,
            keyword ''plot_chance_level'' ConstLit]),
      Assign 172 [Name ''_'']
        (Call (Attribute (Attribute (Name ''display'') ''ax_'') ''set_title'') [StrLit]),
      ImportFrom 187 [''sklearn'', ''preprocessing''] [(''label_binarize'', [])],
      Assign 190 [Name ''Y'']
        (Call (Name ''label_binarize'')
           [Name ''y'', keyword ''classes'' (ListE [NumLit, NumLit, NumLit])]),
      Assign 191 [Name ''n_classes''] (Subscript (Attribute (Name ''Y'') ''shape'') NumLit),
      Assign 194 [Tuple [Name ''X_train'', Name ''X_test'', Name ''Y_train'', Name ''Y_test'']]
        (Call (Name ''train_test_split'')
           [Name ''X'',
            Name ''Y'',
            keyword ''test_size'' NumLit,
            keyword ''random_state'' (Name ''random_state'')]),
      ImportFrom 201 [''sklearn'', ''multiclass''] [(''OneVsRestClassifier'', [])],
      Assign 203 [Name ''classifier'']
        (Call (Name ''OneVsRestClassifier'')
           [Call (Name ''make_pipeline'')
              [Call (Name ''StandardScaler'') [],
               Call (Name ''LinearSVC'') [keyword ''random_state'' (Name ''random_state'')]]]),
      Expr 206
        (Call (Attribute (Name ''classifier'') ''fit'') [Name ''X_train'', Name ''Y_train'']),
      Assign 207 [Name ''y_score'']
        (Call (Attribute (Name ''classifier'') ''decision_function'') [Name ''X_test'']),
      ImportFrom 213 [''sklearn'', ''metrics'']
        [(''average_precision_score'', []), (''precision_recall_curve'', [])],
      Assign 216 [Name ''precision''] (Call (Name ''dict'') []),
      Assign 217 [Name ''recall''] (Call (Name ''dict'') []),
      Assign 218 [Name ''average_precision''] (Call (Name ''dict'') []),
      For 219 (Name ''i'') (Call (Name ''range'') [Name ''n_classes''])
        [Assign 220
           [Tuple
              [Subscript (Name ''precision'') (Name ''i''),
               Subscript (Name ''recall'') (Name ''i''),
               Name ''_'']]
           (Call (Name ''precision_recall_curve'')
              [Subscript (Name ''Y_test'') (Tuple [Slice Absent Absent Absent, Name ''i'']),
               Subscript (Name ''y_score'') (Tuple [Slice Absent Absent Absent, Name ''i''])]),
         Assign 221 [Subscript (Name ''average_precision'') (Name ''i'')]
           (Call (Name ''average_precision_score'')
              [Subscript (Name ''Y_test'') (Tuple [Slice Absent Absent Absent, Name ''i'']),
               Subscript (Name ''y_score'') (Tuple [Slice Absent Absent Absent, Name ''i''])])],
      Assign 224
        [Tuple
           [Subscript (Name ''precision'') StrLit,
            Subscript (Name ''recall'') StrLit,
            Name ''_'']]
        (Call (Name ''precision_recall_curve'')
           [Call (Attribute (Name ''Y_test'') ''ravel'') [],
            Call (Attribute (Name ''y_score'') ''ravel'') []]),
      Assign 227 [Subscript (Name ''average_precision'') StrLit]
        (Call (Name ''average_precision_score'')
           [Name ''Y_test'', Name ''y_score'', keyword ''average'' StrLit]),
      ImportFrom 232 [''collections''] [(''Counter'', [])],
      Assign 234 [Name ''display'']
        (Call (Name ''PrecisionRecallDisplay'')
           [keyword ''recall'' (Subscript (Name ''recall'') StrLit),
            keyword ''precision'' (Subscript (Name ''precision'') StrLit),
            keyword ''average_precision'' (Subscript (Name ''average_precision'') StrLit),
            keyword ''prevalence_pos_label''
              (BinOp
                 (Subscript
                    (Call (Name ''Counter'') [Call (Attribute (Name ''Y_test'') ''ravel'') []])
                    NumLit)
                 ''/''
                 (Attribute (Name ''Y_test'') ''size''))]),
      Expr 240
        (Call (Attribute (Name ''display'') ''plot'') [keyword ''plot_chance_level'' ConstLit]),
      Assign 241 [Name ''_'']
        (Call (Attribute (Attribute (Name ''display'') ''ax_'') ''set_title'') [StrLit]),
      ImportFrom 246 [''itertools''] [(''cycle'', [])],
      Import 248 [([''matplotlib'', ''pyplot''], ''plt'')],
      Assign 251 [Name ''colors'']
        (Call (Name ''cycle'') [ListE [StrLit, StrLit, StrLit, StrLit, StrLit]]),
      Assign 253 [Tuple [Name ''_'', Name ''ax'']]
        (Call (Attribute (Name ''plt'') ''subplots'')
           [keyword ''figsize'' (Tuple [NumLit, NumLit])]),
      Assign 255 [Name ''f_scores'']
        (Call (Attribute (Name ''np'') ''linspace'') [NumLit, NumLit, keyword ''num'' NumLit]),
      Assign 256 [Tuple [Name ''lines'', Name ''labels'']] (Tuple [ListE [], ListE []]),
      For 257 (Name ''f_score'') (Name ''f_scores'')
        [Assign 258 [Name ''x''] (Call (Attribute (Name ''np'') ''linspace'') [NumLit, NumLit]),
         Assign 259 [Name ''y'']
           (BinOp (BinOp (Name ''f_score'') ''*'' (Name ''x'')) ''/''
              (BinOp (BinOp NumLit ''*'' (Name ''x'')) ''-'' (Name ''f_score''))),
         Assign 260 [Tuple [Name ''l'']]
           (Call (Attribute (Name ''plt'') ''plot'')
              [Subscript (Name ''x'') (Compare (Name ''y'') [''>=''] [NumLit]),
               Subscript (Name ''y'') (Compare (Name ''y'') [''>=''] [NumLit]),
               keyword ''color'' StrLit,
               keyword ''alpha'' NumLit]),
         Expr 261
           (Call (Attribute (Name ''plt'') ''annotate'')
              [Call (Attribute StrLit ''format'') [Name ''f_score''],
               keyword ''xy''
                 (Tuple [NumLit, BinOp (Subscript (Name ''y'') NumLit) ''+'' NumLit])])],
      Assign 263 [Name ''display'']
        (Call (Name ''PrecisionRecallDisplay'')
           [keyword ''recall'' (Subscript (Name ''recall'') StrLit),
            keyword ''precision'' (Subscript (Name ''precision'') StrLit),
            keyword ''average_precision'' (Subscript (Name ''average_precision'') StrLit)]),
      Expr 268
        (Call (Attribute (Name ''display'') ''plot'')
           [keyword ''ax'' (Name ''ax''), keyword ''name'' StrLit, keyword ''color'' StrLit]),
      For 270 (Tuple [Name ''i'', Name ''color''])
        (Call (Name ''zip'') [Call (Name ''range'') [Name ''n_classes''], Name ''colors''])
        [Assign 271 [Name ''display'']
           (Call (Name ''PrecisionRecallDisplay'')
              [keyword ''recall'' (Subscript (Name ''recall'') (Name ''i'')),
               keyword ''precision'' (Subscript (Name ''precision'') (Name ''i'')),
               keyword ''average_precision''
                 (Subscript (Name ''average_precision'') (Name ''i''))]),
         Expr 276
           (Call (Attribute (Name ''display'') ''plot'')
              [keyword ''ax'' (Name ''ax''),
               keyword ''name'' (JoinedStr [Name ''i'']),
               keyword ''color'' (Name ''color'')])],
      Assign 279 [Tuple [Name ''handles'', Name ''labels'']]
        (Call (Attribute (Attribute (Name ''display'') ''ax_'') ''get_legend_handles_labels'')
           []),
      Expr 280 (Call (Attribute (Name ''handles'') ''extend'') [ListE [Name ''l'']]),
      Expr 281 (Call (Attribute (Name ''labels'') ''extend'') [ListE [StrLit]]),
      Expr 283
        (Call (Attribute (Name ''ax'') ''legend'')
           [keyword ''handles'' (Name ''handles''),
            keyword ''labels'' (Name ''labels''),
            keyword ''loc'' StrLit]),
      Expr 284 (Call (Attribute (Name ''ax'') ''set_title'') [StrLit]),
      Expr 286 (Call (Attribute (Name ''plt'') ''show'') [])]\<rparr>"

text \<open>
  t-SNE: The effect of various perplexity values on the shape
  (\<^verbatim>\<open>unnamed/part_003\<close>, lines 10 to 156).
\<close>

definition plot_tsne_perplexity :: script where
  "plot_tsne_perplexity =
   \<lparr>source_path = ''unnamed/part_003'', first_line = 10,
   body =
     [Expr 10 StrLit,
      ImportFrom 39 [''time''] [(''time'', [])],
      Import 41 [([''matplotlib'', ''pyplot''], ''plt'')],
      Import 42 [([''numpy''], ''np'')],
      ImportFrom 43 [''matplotlib'', ''ticker''] [(''NullFormatter'', [])],
      ImportFrom 45 [''sklearn''] [(''datasets'', []), (''manifold'', [])],
      Assign 47 [Name ''n_samples''] NumLit,
      Assign 48 [Name ''n_components''] NumLit,
      Assign 49 [Tuple [Name ''fig'', Name ''subplots'']]
        (Call (Attribute (Name ''plt'') ''subplots'')
           [NumLit, NumLit, keyword ''figsize'' (Tuple [NumLit, NumLit])]),
      Assign 50 [Name ''perplexities''] (ListE [NumLit, NumLit, NumLit, NumLit]),
      Assign 52 [Tuple [Name ''X'', Name ''y'']]
        (Call (Attribute (Name ''datasets'') ''make_circles'')
           [keyword ''n_samples'' (Name ''n_samples''),
            keyword ''factor'' NumLit,
            keyword ''noise'' NumLit,
            keyword ''random_state'' NumLit]),
      Assign 56 [Name ''red''] (Compare (Name ''y'') [''==''] [NumLit]),
      Assign 57 [Name ''green''] (Compare (Name ''y'') [''==''] [NumLit]),
      Assign 59 [Name ''ax''] (Subscript (Subscript (Name ''subplots'') NumLit) NumLit),
      Expr 60
        (Call (Attribute (Name ''ax'') ''scatter'')
           [Subscript (Name ''X'') (Tuple [Name ''red'', NumLit]),
            Subscript (Name ''X'') (Tuple [Name ''red'', NumLit]),
            keyword ''c'' StrLit]),
      Expr 61
        (Call (Attribute (Name ''ax'') ''scatter'')
           [Subscript (Name ''X'') (Tuple [Name ''green'', NumLit]),
            Subscript (Name ''X'') (Tuple [Name ''green'', NumLit]),
            keyword ''c'' StrLit]),
      Expr 62
        (Call (Attribute (Attribute (Name ''ax'') ''xaxis'') ''set_major_formatter'')
           [Call (Name ''NullFormatter'') []]),
      Expr 63
        (Call (Attribute (Attribute (Name ''ax'') ''yaxis'') ''set_major_formatter'')
           [Call (Name ''NullFormatter'') []]),
      Expr 64 (Call (Attribute (Name ''plt'') ''axis'') [StrLit]),
      For 66 (Tuple [Name ''i'', Name ''perplexity''])
        (Call (Name ''enumerate'') [Name ''perplexities''])
        [Assign 67 [Name ''ax'']
           (Subscript (Subscript (Name ''subplots'') NumLit) (BinOp (Name ''i'') ''+'' NumLit)),
         Assign 69 [Name ''t0''] (Call (Name ''time'') []),
         Assign 70 [Name ''tsne'']
           (Call (Attribute (Name ''manifold'') ''TSNE'')
              [keyword ''n_components'' (Name ''n_components''),
               keyword ''init'' StrLit,
               keyword ''random_state'' NumLit,
               keyword ''perplexity'' (Name ''perplexity''),
               keyword ''max_iter'' NumLit]),
         Assign 77 [Name ''Y''] (Call (Attribute (Name ''tsne'') ''fit_transform'') [Name ''X'']),
         Assign 78 [Name ''t1''] (Call (Name ''time'') []),
         Expr 79
           (Call (Name ''print'')
              [BinOp StrLit ''%''
                 (Tuple [Name ''perplexity'', BinOp (Name ''t1'') ''-'' (Name ''t0'')])]),
         Expr 80
           (Call (Attribute (Name ''ax'') ''set_title'')
              [BinOp StrLit ''%'' (Name ''perplexity'')]),
         Expr 81
           (Call (Attribute (Name ''ax'') ''scatter'')
              [Subscript (Name ''Y'') (Tuple [Name ''red'', NumLit]),
               Subscript (Name ''Y'') (Tuple [Name ''red'', NumLit]),
               keyword ''c'' StrLit]),
         Expr 82
           (Call (Attribute (Name ''ax'') ''scatter'')
              [Subscript (Name ''Y'') (Tuple [Name ''green'', NumLit]),
               Subscript (Name ''Y'') (Tuple [Name ''green'', NumLit]),
               keyword ''c'' StrLit]),
         Expr 83
           (Call (Attribute (Attribute (Name ''ax'') ''xaxis'') ''set_major_formatter'')
              [Call (Name ''NullFormatter'') []]),
         Expr 84
           (Call (Attribute (Attribute (Name ''ax'') ''yaxis'') ''set_major_formatter'')
              [Call (Name ''NullFormatter'') []]),
         Expr 85 (Call (Attribute (Name ''ax'') ''axis'') [StrLit])],
      Assign 88 [Tuple [Name ''X'', Name ''color'']]
        (Call (Attribute (Name ''datasets'') ''make_s_curve'')
           [Name ''n_samples'', keyword ''random_state'' NumLit]),
      Assign 90 [Name ''ax''] (Subscript (Subscript (Name ''subplots'') NumLit) NumLit),
      Expr 91
        (Call (Attribute (Name ''ax'') ''scatter'')
           [Subscript (Name ''X'') (Tuple [Slice Absent Absent Absent, NumLit]),
            Subscript (Name ''X'') (Tuple [Slice Absent Absent Absent, NumLit]),
            keyword ''c'' (Name ''color'')]),
      Expr 92
        (Call (Attribute (Attribute (Name ''ax'') ''xaxis'') ''set_major_formatter'')
           [Call (Name ''NullFormatter'') []]),
      Expr 93
        (Call (Attribute (Attribute (Name ''ax'') ''yaxis'') ''set_major_formatter'')
           [Call (Name ''NullFormatter'') []]),
      For 95 (Tuple [Name ''i'', Name ''perplexity''])
        (Call (Name ''enumerate'') [Name ''perplexities''])
        [Assign 96 [Name ''ax'']
           (Subscript (Subscript (Name ''subplots'') NumLit) (BinOp (Name ''i'') ''+'' NumLit)),
         Assign 98 [Name ''t0''] (Call (Name ''time'') []),
         Assign 99 [Name ''tsne'']
           (Call (Attribute (Name ''manifold'') ''TSNE'')
              [keyword ''n_components'' (Name ''n_components''),
               keyword ''init'' StrLit,
               keyword ''random_state'' NumLit,
               keyword ''perplexity'' (Name ''perplexity''),
               keyword ''learning_rate'' StrLit,
               keyword ''max_iter'' NumLit]),
         Assign 107 [Name ''Y'']
           (Call (Attribute (Name ''tsne'') ''fit_transform'') [Name ''X'']),
         Assign 108 [Name ''t1''] (Call (Name ''time'') []),
         Expr 109
           (Call (Name ''print'')
              [BinOp StrLit ''%''
                 (Tuple [Name ''perplexity'', BinOp (Name ''t1'') ''-'' (Name ''t0'')])]),
         Expr 111
           (Call (Attribute (Name ''ax'') ''set_title'')
              [BinOp StrLit ''%'' (Name ''perplexity'')]),
         Expr 112
           (Call (Attribute (Name ''ax'') ''scatter'')
              [Subscript (Name ''Y'') (Tuple [Slice Absent Absent Absent, NumLit]),
               Subscript (Name ''Y'') (Tuple [Slice Absent Absent Absent, NumLit]),
               keyword ''c'' (Name ''color'')]),
         Expr 113
           (Call (Attribute (Attribute (Name ''ax'') ''xaxis'') ''set_major_formatter'')
              [Call (Name ''NullFormatter'') []]),
         Expr 114
           (Call (Attribute (Attribute (Name ''ax'') ''yaxis'') ''set_major_formatter'')
              [Call (Name ''NullFormatter'') []]),
         Expr 115 (Call (Attribute (Name ''ax'') ''axis'') [StrLit])],
      Assign 119 [Name ''x'']
        (Call (Attribute (Name ''np'') ''linspace'')
           [NumLit,
            NumLit,
            Call (Name ''int'') [Call (Attribute (Name ''np'') ''sqrt'') [Name ''n_samples'']]]),
      Assign 120 [Tuple [Name ''xx'', Name ''yy'']]
        (Call (Attribute (Name ''np'') ''meshgrid'') [Name ''x'', Name ''x'']),
      Assign 121 [Name ''X'']
        (Call (Attribute (Name ''np'') ''hstack'')
           [ListE
              [Call (Attribute (Call (Attribute (Name ''xx'') ''ravel'') []) ''reshape'')
                 [UnaryOp ''-'' NumLit, NumLit],
               Call (Attribute (Call (Attribute (Name ''yy'') ''ravel'') []) ''reshape'')
                 [UnaryOp ''-'' NumLit, NumLit]]]),
      Assign 127 [Name ''color''] (Call (Attribute (Name ''xx'') ''ravel'') []),
      Assign 128 [Name ''ax''] (Subscript (Subscript (Name ''subplots'') NumLit) NumLit),
      Expr 129
        (Call (Attribute (Name ''ax'') ''scatter'')
           [Subscript (Name ''X'') (Tuple [Slice Absent Absent Absent, NumLit]),
            Subscript (Name ''X'') (Tuple [Slice Absent Absent Absent, NumLit]),
            keyword ''c'' (Name ''color'')]),
      Expr 130
        (Call (Attribute (Attribute (Name ''ax'') ''xaxis'') ''set_major_formatter'')
           [Call (Name ''NullFormatter'') []]),
      Expr 131
        (Call (Attribute (Attribute (Name ''ax'') ''yaxis'') ''set_major_formatter'')
           [Call (Name ''NullFormatter'') []]),
      For 133 (Tuple [Name ''i'', Name ''perplexity''])
        (Call (Name ''enumerate'') [Name ''perplexities''])
        [Assign 134 [Name ''ax'']
           (Subscript (Subscript (Name ''subplots'') NumLit) (BinOp (Name ''i'') ''+'' NumLit)),
         Assign 136 [Name ''t0''] (Call (Name ''time'') []),
         Assign 137 [Name ''tsne'']
           (Call (Attribute (Name ''manifold'') ''TSNE'')
              [keyword ''n_components'' (Name ''n_components''),
               keyword ''init'' StrLit,
               keyword ''random_state'' NumLit,
               keyword ''perplexity'' (Name ''perplexity''),
               keyword ''max_iter'' NumLit]),
         Assign 144 [Name ''Y'']
           (Call (Attribute (Name ''tsne'') ''fit_transform'') [Name ''X'']),
         Assign 145 [Name ''t1''] (Call (Name ''time'') []),
         Expr 146
           (Call (Name ''print'')
              [BinOp StrLit ''%''
                 (Tuple [Name ''perplexity'', BinOp (Name ''t1'') ''-'' (Name ''t0'')])]),
         Expr 148
           (Call (Attribute (Name ''ax'') ''set_title'')
              [BinOp StrLit ''%'' (Name ''perplexity'')]),
         Expr 149
           (Call (Attribute (Name ''ax'') ''scatter'')
              [Subscript (Name ''Y'') (Tuple [Slice Absent Absent Absent, NumLit]),
               Subscript (Name ''Y'') (Tuple [Slice Absent Absent Absent, NumLit]),
               keyword ''c'' (Name ''color'')]),
         Expr 150
           (Call (Attribute (Attribute (Name ''ax'') ''xaxis'') ''set_major_formatter'')
              [Call (Name ''NullFormatter'') []]),
         Expr 151
           (Call (Attribute (Attribute (Name ''ax'') ''yaxis'') ''set_major_formatter'')
              [Call (Name ''NullFormatter'') []]),
         Expr 152 (Call (Attribute (Name ''ax'') ''axis'') [StrLit])],
      Expr 155 (Call (Attribute (Name ''plt'') ''show'') [])]\<rparr>"

text \<open>
  Image denoising using dictionary learning
  (\<^verbatim>\<open>unnamed/part_004\<close>, lines 10 to 202).
\<close>

definition plot_image_denoising :: script where
  "plot_image_denoising =
   \<lparr>source_path = ''unnamed/part_004'', first_line = 10,
   body =
     [Expr 10 StrLit,
      Import 50 [([''numpy''], ''np'')],
      Try 52 [ImportFrom 53 [''scipy'', ''datasets''] [(''face'', [])]]
        [ExceptHandler 54 (Name ''ImportError'')
           [ImportFrom 55 [''scipy'', ''misc''] [(''face'', [])]]],
      Assign 57 [Name ''raccoon_face''] (Call (Name ''face'') [keyword ''gray'' ConstLit]),
      Assign 61 [Name ''raccoon_face''] (BinOp (Name ''raccoon_face'') ''/'' NumLit),
      Assign 64 [Name ''raccoon_face'']
        (BinOp
           (BinOp
              (BinOp
                 (Subscript (Name ''raccoon_face'')
                    (Tuple [Slice Absent Absent NumLit, Slice Absent Absent NumLit]))
                 ''+''
                 (Subscript (Name ''raccoon_face'')
                    (Tuple [Slice NumLit Absent NumLit, Slice Absent Absent NumLit])))
              ''+''
              (Subscript (Name ''raccoon_face'')
                 (Tuple [Slice Absent Absent NumLit, Slice NumLit Absent NumLit])))
           ''+''
           (Subscript (Name ''raccoon_face'')
              (Tuple [Slice NumLit Absent NumLit, Slice NumLit Absent NumLit]))),
      AugAssign 70 (Name ''raccoon_face'') ''/'' NumLit,
      Assign 71 [Tuple [Name ''height'', Name ''width'']]
        (Attribute (Name ''raccoon_face'') ''shape''),
      Expr 74 (Call (Name ''print'') [StrLit]),
      Assign 75 [Name ''distorted''] (Call (Attribute (Name ''raccoon_face'') ''copy'') []),
      AugAssign 76
        (Subscript (Name ''distorted'')
           (Tuple
              [Slice Absent Absent Absent,
               Slice (BinOp (Name ''width'') ''//'' NumLit) Absent Absent]))
        ''+''
        (BinOp NumLit ''*''
           (Call (Attribute (Attribute (Name ''np'') ''random'') ''randn'')
              [Name ''height'', BinOp (Name ''width'') ''//'' NumLit])),
      Import 82 [([''matplotlib'', ''pyplot''], ''plt'')],
      FunctionDef 85 ''show_with_diff'' [] [''image'', ''reference'', ''title''] []
        [Expr 86 StrLit,
         Expr 87
           (Call (Attribute (Name ''plt'') ''figure'')
              [keyword ''figsize'' (Tuple [NumLit, NumLit])]),
         Expr 88 (Call (Attribute (Name ''plt'') ''subplot'') [NumLit, NumLit, NumLit]),
         Expr 89 (Call (Attribute (Name ''plt'') ''title'') [StrLit]),
         Expr 90
           (Call (Attribute (Name ''plt'') ''imshow'')
              [Name ''image'',
               keyword ''vmin'' NumLit,
               keyword ''vmax'' NumLit,
               keyword ''cmap'' (Attribute (Attribute (Name ''plt'') ''cm'') ''gray''),
               keyword ''interpolation'' StrLit]),
         Expr 91 (Call (Attribute (Name ''plt'') ''xticks'') [Tuple []]),
         Expr 92 (Call (Attribute (Name ''plt'') ''yticks'') [Tuple []]),
         Expr 93 (Call (Attribute (Name ''plt'') ''subplot'') [NumLit, NumLit, NumLit]),
         Assign 94 [Name ''difference''] (BinOp (Name ''image'') ''-'' (Name ''reference'')),
         Expr 96
           (Call (Attribute (Name ''plt'') ''title'')
              [BinOp StrLit ''%''
                 (Call (Attribute (Name ''np'') ''sqrt'')
                    [Call (Attribute (Name ''np'') ''sum'')
                       [BinOp (Name ''difference'') ''**'' NumLit]])]),
         Expr 97
           (Call (Attribute (Name ''plt'') ''imshow'')
              [Name ''difference'',
               keyword ''vmin'' (UnaryOp ''-'' NumLit),
               keyword ''vmax'' NumLit,
               keyword ''cmap'' (Attribute (Attribute (Name ''plt'') ''cm'') ''PuOr''),
               keyword ''interpolation'' StrLit]),
         Expr 100 (Call (Attribute (Name ''plt'') ''xticks'') [Tuple []]),
         Expr 101 (Call (Attribute (Name ''plt'') ''yticks'') [Tuple []]),
         Expr 102
           (Call (Attribute (Name ''plt'') ''suptitle'')
              [Name ''title'', keyword ''size'' NumLit]),
         Expr 103
           (Call (Attribute (Name ''plt'') ''subplots_adjust'')
              [NumLit, NumLit, NumLit, NumLit, NumLit, NumLit])],
      Expr 106
        (Call (Name ''show_with_diff'') [Name ''distorted'', Name ''raccoon_face'', StrLit]),
      ImportFrom 112 [''time''] [(''time'', [])],
      ImportFrom 114 [''sklearn'', ''feature_extraction'', ''image'']
        [(''extract_patches_2d'', [])],
      Expr 117 (Call (Name ''print'') [StrLit]),
      Assign 118 [Name ''t0''] (Call (Name ''time'') []),
      Assign 119 [Name ''patch_size''] (Tuple [NumLit, NumLit]),
      Assign 120 [Name ''data'']
        (Call (Name ''extract_patches_2d'')
           [Subscript (Name ''distorted'')
              (Tuple
                 [Slice Absent Absent Absent,
                  Slice Absent (BinOp (Name ''width'') ''//'' NumLit) Absent]),
            Name ''patch_size'']),
      Assign 121 [Name ''data'']
        (Call (Attribute (Name ''data'') ''reshape'')
           [Subscript (Attribute (Name ''data'') ''shape'') NumLit, UnaryOp ''-'' NumLit]),
      AugAssign 122 (Name ''data'') ''-''
        (Call (Attribute (Name ''np'') ''mean'') [Name ''data'', keyword ''axis'' NumLit]),
      AugAssign 123 (Name ''data'') ''/''
        (Call (Attribute (Name ''np'') ''std'') [Name ''data'', keyword ''axis'' NumLit]),
      Expr 124
        (Call (Name ''print'')
           [BinOp (JoinedStr [Subscript (Attribute (Name ''data'') ''shape'') NumLit]) ''%''
              (BinOp (Call (Name ''time'') []) ''-'' (Name ''t0''))]),
      ImportFrom 130 [''sklearn'', ''decomposition''] [(''MiniBatchDictionaryLearning'', [])],
      Expr 132 (Call (Name ''print'') [StrLit]),
      Assign 133 [Name ''t0''] (Call (Name ''time'') []),
      Assign 134 [Name ''dico'']
        (Call (Name ''MiniBatchDictionaryLearning'')
           [keyword ''n_components'' NumLit,
            keyword ''batch_size'' NumLit,
            keyword ''alpha'' NumLit,
            keyword ''max_iter'' NumLit]),
      Assign 142 [Name ''V'']
        (Attribute (Call (Attribute (Name ''dico'') ''fit'') [Name ''data'']) ''components_''),
      Assign 143 [Name ''dt''] (BinOp (Call (Name ''time'') []) ''-'' (Name ''t0'')),
      Expr 144
        (Call (Name ''print'')
           [JoinedStr
              [Attribute (Name ''dico'') ''n_iter_'',
               Attribute (Name ''dico'') ''n_steps_'',
               Name ''dt'']]),
      Expr 146
        (Call (Attribute (Name ''plt'') ''figure'')
           [keyword ''figsize'' (Tuple [NumLit, NumLit])]),
      For 147 (Tuple [Name ''i'', Name ''comp''])
        (Call (Name ''enumerate'') [Subscript (Name ''V'') (Slice Absent NumLit Absent)])
        [Expr 148
           (Call (Attribute (Name ''plt'') ''subplot'')
              [NumLit, NumLit, BinOp (Name ''i'') ''+'' NumLit]),
         Expr 149
           (Call (Attribute (Name ''plt'') ''imshow'')
              [Call (Attribute (Name ''comp'') ''reshape'') [Name ''patch_size''],
               keyword ''cmap'' (Attribute (Attribute (Name ''plt'') ''cm'') ''gray_r''),
               keyword ''interpolation'' StrLit]),
         Expr 150 (Call (Attribute (Name ''plt'') ''xticks'') [Tuple []]),
         Expr 151 (Call (Attribute (Name ''plt'') ''yticks'') [Tuple []])],
      Expr 152
        (Call (Attribute (Name ''plt'') ''suptitle'')
           [BinOp StrLit ''+''
              (BinOp StrLit ''%'' (Tuple [Name ''dt'', Call (Name ''len'') [Name ''data'']])),
            keyword ''fontsize'' NumLit]),
      Expr 157
        (Call (Attribute (Name ''plt'') ''subplots_adjust'')
           [NumLit, NumLit, NumLit, NumLit, NumLit, NumLit]),
      ImportFrom 163 [''sklearn'', ''feature_extraction'', ''image'']
        [(''reconstruct_from_patches_2d'', [])],
      Expr 165 (Call (Name ''print'') [StrLit]),
      Assign 166 [Name ''t0''] (Call (Name ''time'') []),
      Assign 167 [Name ''data'']
        (Call (Name ''extract_patches_2d'')
           [Subscript (Name ''distorted'')
              (Tuple
                 [Slice Absent Absent Absent,
                  Slice (BinOp (Name ''width'') ''//'' NumLit) Absent Absent]),
            Name ''patch_size'']),
      Assign 168 [Name ''data'']
        (Call (Attribute (Name ''data'') ''reshape'')
           [Subscript (Attribute (Name ''data'') ''shape'') NumLit, UnaryOp ''-'' NumLit]),
      Assign 169 [Name ''intercept'']
        (Call (Attribute (Name ''np'') ''mean'') [Name ''data'', keyword ''axis'' NumLit]),
      AugAssign 170 (Name ''data'') ''-'' (Name ''intercept''),
      Expr 171
        (Call (Name ''print'')
           [BinOp StrLit ''%'' (BinOp (Call (Name ''time'') []) ''-'' (Name ''t0''))]),
      Assign 173 [Name ''transform_algorithms'']
        (ListE
           [Tuple [StrLit, StrLit, Dict [StrLit] [NumLit]],
            Tuple [StrLit, StrLit, Dict [StrLit] [NumLit]],
            Tuple [StrLit, StrLit, Dict [StrLit] [NumLit]],
            Tuple [StrLit, StrLit, Dict [StrLit] [NumLit]]]),
      Assign 180 [Name ''reconstructions''] (Dict [] []),
      For 181 (Tuple [Name ''title'', Name ''transform_algorithm'', Name ''kwargs''])
        (Name ''transform_algorithms'')
        [Expr 182 (Call (Name ''print'') [BinOp (Name ''title'') ''+'' StrLit]),
         Assign 183 [Subscript (Name ''reconstructions'') (Name ''title'')]
           (Call (Attribute (Name ''raccoon_face'') ''copy'') []),
         Assign 184 [Name ''t0''] (Call (Name ''time'') []),
         Expr 185
           (Call (Attribute (Name ''dico'') ''set_params'')
              [keyword ''transform_algorithm'' (Name ''transform_algorithm''),
               keyword [] (Name ''kwargs'')]),
         Assign 186 [Name ''code'']
           (Call (Attribute (Name ''dico'') ''transform'') [Name ''data'']),
         Assign 187 [Name ''patches'']
           (Call (Attribute (Name ''np'') ''dot'') [Name ''code'', Name ''V'']),
         AugAssign 189 (Name ''patches'') ''+'' (Name ''intercept''),
         Assign 190 [Name ''patches'']
           (Call (Attribute (Name ''patches'') ''reshape'')
              [Call (Name ''len'') [Name ''data''], Starred (Name ''patch_size'')]),
         IfStmt 191 (Compare (Name ''transform_algorithm'') [''==''] [StrLit])
           [AugAssign 192 (Name ''patches'') ''-''
              (Call (Attribute (Name ''patches'') ''min'') []),
            AugAssign 193 (Name ''patches'') ''/''
              (Call (Attribute (Name ''patches'') ''max'') [])]
           [],
         Assign 194
           [Subscript (Subscript (Name ''reconstructions'') (Name ''title''))
              (Tuple
                 [Slice Absent Absent Absent,
                  Slice (BinOp (Name ''width'') ''//'' NumLit) Absent Absent])]
           (Call (Name ''reconstruct_from_patches_2d'')
              [Name ''patches'', Tuple [Name ''height'', BinOp (Name ''width'') ''//'' NumLit]]),
         Assign 197 [Name ''dt''] (BinOp (Call (Name ''time'') []) ''-'' (Name ''t0'')),
         Expr 198 (Call (Name ''print'') [BinOp StrLit ''%'' (Name ''dt'')]),
         Expr 199
           (Call (Name ''show_with_diff'')
              [Subscript (Name ''reconstructions'') (Name ''title''),
               Name ''raccoon_face'',
               BinOp (Name ''title'') ''+'' (BinOp StrLit ''%'' (Name ''dt''))])],
      Expr 201 (Call (Attribute (Name ''plt'') ''show'') [])]\<rparr>"

text \<open>
  Forecasting of CO2 level on Mona Loa dataset using Gaussian process regression (GPR)
  (\<^verbatim>\<open>unnamed/part_005\<close>, lines 10 to 238).
\<close>

definition plot_gpr_co2 :: script where
  "plot_gpr_co2 =
   \<lparr>source_path = ''unnamed/part_005'', first_line = 10,
   body =
     [Expr 10 StrLit,
      Expr 31 (Call (Name ''print'') [Name ''__doc__'']),
      ImportFrom 45 [''sklearn'', ''datasets''] [(''fetch_openml'', [])],
      Assign 47 [Name ''co2'']
        (Call (Name ''fetch_openml'')
           [keyword ''data_id'' NumLit, keyword ''as_frame'' ConstLit]),
      Expr 48 (Call (Attribute (Attribute (Name ''co2'') ''frame'') ''head'') []),
      Import 53 [([''polars''], ''pl'')],
      Assign 55 [Name ''co2_data'']
        (Call
           (Attribute
              (Call (Attribute (Name ''pl'') ''DataFrame'')
                 [Subscript (Attribute (Name ''co2'') ''frame'')
                    (ListE [StrLit, StrLit, StrLit, StrLit])])
              ''select'')
           [Call (Attribute (Name ''pl'') ''date'') [StrLit, StrLit, StrLit], StrLit]),
      Expr 58 (Call (Attribute (Name ''co2_data'') ''head'') []),
      Expr 61
        (Tuple
           [Call (Attribute (Subscript (Name ''co2_data'') StrLit) ''min'') [],
            Call (Attribute (Subscript (Name ''co2_data'') StrLit) ''max'') []]),
      Import 67 [([''matplotlib'', ''pyplot''], ''plt'')],
      Expr 69
        (Call (Attribute (Name ''plt'') ''plot'')
           [Subscript (Name ''co2_data'') StrLit, Subscript (Name ''co2_data'') StrLit]),
      Expr 70 (Call (Attribute (Name ''plt'') ''xlabel'') [StrLit]),
      Expr 71 (Call (Attribute (Name ''plt'') ''ylabel'') [StrLit]),
      Assign 72 [Name ''_''] (Call (Attribute (Name ''plt'') ''title'') [StrLit]),
      Assign 79 [Name ''co2_data'']
        (Call
           (Attribute
              (Call
                 (Attribute
                    (Call
                       (Attribute
                          (Call (Attribute (Name ''co2_data'') ''sort'') [keyword ''by'' StrLit])
                          ''group_by_dynamic'')
                       [StrLit, keyword ''every'' StrLit])
                    ''agg'')
                 [Call (Attribute (Call (Attribute (Name ''pl'') ''col'') [StrLit]) ''mean'') []])
              ''drop_nulls'')
           []),
      Expr 85
        (Call (Attribute (Name ''plt'') ''plot'')
           [Subscript (Name ''co2_data'') StrLit, Subscript (Name ''co2_data'') StrLit]),
      Expr 86 (Call (Attribute (Name ''plt'') ''xlabel'') [StrLit]),
      Expr 87 (Call (Attribute (Name ''plt'') ''ylabel'') [StrLit]),
      Assign 88 [Name ''_''] (Call (Attribute (Name ''plt'') ''title'') [StrLit]),
      Assign 99 [Name ''X'']
        (Call
           (Attribute
              (Call (Attribute (Name ''co2_data'') ''select'')
                 [BinOp
                    (Call
                       (Attribute
                          (Attribute (Call (Attribute (Name ''pl'') ''col'') [StrLit]) ''dt'')
                          ''year'')
                       [])
                    ''+''
                    (BinOp
                       (Call
                          (Attribute
                             (Attribute (Call (Attribute (Name ''pl'') ''col'') [StrLit]) ''dt'')
                             ''month'')
                          [])
                       ''/''
                       NumLit)])
              ''to_numpy'')
           []),
      Assign 102 [Name ''y'']
        (Call (Attribute (Subscript (Name ''co2_data'') StrLit) ''to_numpy'') []),
      ImportFrom 119 [''sklearn'', ''gaussian_process'', ''kernels''] [(''RBF'', [])],
      Assign 121 [Name ''long_term_trend_kernel'']
        (BinOp (BinOp NumLit ''**'' NumLit) ''*''
           (Call (Name ''RBF'') [keyword ''length_scale'' NumLit])),
      ImportFrom 131 [''sklearn'', ''gaussian_process'', ''kernels''] [(''ExpSineSquared'', [])],
      Assign 133 [Name ''seasonal_kernel'']
        (BinOp
           (BinOp (BinOp NumLit ''**'' NumLit) ''*''
              (Call (Name ''RBF'') [keyword ''length_scale'' NumLit]))
           ''*''
           (Call (Name ''ExpSineSquared'')
              [keyword ''length_scale'' NumLit,
               keyword ''periodicity'' NumLit,
               keyword ''periodicity_bounds'' StrLit])),
      ImportFrom 145 [''sklearn'', ''gaussian_process'', ''kernels'']
        [(''RationalQuadratic'', [])],
      Assign 147 [Name ''irregularities_kernel'']
        (BinOp (BinOp NumLit ''**'' NumLit) ''*''
           (Call (Name ''RationalQuadratic'')
              [keyword ''length_scale'' NumLit, keyword ''alpha'' NumLit])),
      ImportFrom 155 [''sklearn'', ''gaussian_process'', ''kernels''] [(''WhiteKernel'', [])],
      Assign 157 [Name ''noise_kernel'']
        (BinOp
           (BinOp (BinOp NumLit ''**'' NumLit) ''*''
              (Call (Name ''RBF'') [keyword ''length_scale'' NumLit]))
           ''+''
           (Call (Name ''WhiteKernel'')
              [keyword ''noise_level'' (BinOp NumLit ''**'' NumLit),
               keyword ''noise_level_bounds'' (Tuple [NumLit, NumLit])])),
      Assign 163 [Name ''co2_kernel'']
        (BinOp
           (BinOp (BinOp (Name ''long_term_trend_kernel'') ''+'' (Name ''seasonal_kernel'')) ''+''
              (Name ''irregularities_kernel''))
           ''+''
           (Name ''noise_kernel'')),
      Expr 166 (Name ''co2_kernel''),
      ImportFrom 178 [''sklearn'', ''gaussian_process''] [(''GaussianProcessRegressor'', [])],
      Assign 180 [Name ''y_mean''] (Call (Attribute (Name ''y'') ''mean'') []),
      Assign 181 [Name ''gaussian_process'']
        (Call (Name ''GaussianProcessRegressor'')
           [keyword ''kernel'' (Name ''co2_kernel''), keyword ''normalize_y'' ConstLit]),
      Expr 182
        (Call (Attribute (Name ''gaussian_process'') ''fit'')
           [Name ''X'', BinOp (Name ''y'') ''-'' (Name ''y_mean'')]),
      Import 192 [([''datetime''], [])],
      Import 194 [([''numpy''], ''np'')],
      Assign 196 [Name ''today'']
        (Call (Attribute (Attribute (Name ''datetime'') ''datetime'') ''now'') []),
      Assign 197 [Name ''current_month'']
        (BinOp (Attribute (Name ''today'') ''year'') ''+''
           (BinOp (Attribute (Name ''today'') ''month'') ''/'' NumLit)),
      Assign 198 [Name ''X_test'']
        (Call
           (Attribute
              (Call (Attribute (Name ''np'') ''linspace'')
                 [keyword ''start'' NumLit,
                  keyword ''stop'' (Name ''current_month''),
                  keyword ''num'' NumLit])
              ''reshape'')
           [UnaryOp ''-'' NumLit, NumLit]),
      Assign 199 [Tuple [Name ''mean_y_pred'', Name ''std_y_pred'']]
        (Call (Attribute (Name ''gaussian_process'') ''predict'')
           [Name ''X_test'', keyword ''return_std'' ConstLit]),
      AugAssign 200 (Name ''mean_y_pred'') ''+'' (Name ''y_mean''),
      Expr 203
        (Call (Attribute (Name ''plt'') ''plot'')
           [Name ''X'',
            Name ''y'',
            keyword ''color'' StrLit,
            keyword ''linestyle'' StrLit,
            keyword ''label'' StrLit]),
      Expr 204
        (Call (Attribute (Name ''plt'') ''plot'')
           [Name ''X_test'',
            Name ''mean_y_pred'',
            keyword ''color'' StrLit,
            keyword ''alpha'' NumLit,
            keyword ''label'' StrLit]),
      Expr 205
        (Call (Attribute (Name ''plt'') ''fill_between'')
           [Call (Attribute (Name ''X_test'') ''ravel'') [],
            BinOp (Name ''mean_y_pred'') ''-'' (Name ''std_y_pred''),
            BinOp (Name ''mean_y_pred'') ''+'' (Name ''std_y_pred''),
            keyword ''color'' StrLit,
            keyword ''alpha'' NumLit]),
      Expr 212 (Call (Attribute (Name ''plt'') ''legend'') []),
      Expr 213 (Call (Attribute (Name ''plt'') ''xlabel'') [StrLit]),
      Expr 214 (Call (Attribute (Name ''plt'') ''ylabel'') [StrLit]),
      Assign 215 [Name ''_''] (Call (Attribute (Name ''plt'') ''title'') [StrLit]),
      Expr 227 (Attribute (Name ''gaussian_process'') ''kernel_'')]\<rparr>"

text \<open>
  Probabilistic predictions with Gaussian process classification (GPC)
  (\<^verbatim>\<open>unnamed/part_005\<close>, lines 254 to 381).
\<close>

definition plot_gpc :: script where
  "plot_gpc =
   \<lparr>source_path = ''unnamed/part_005'', first_line = 254,
   body =
     [Expr 254 StrLit,
      Import 281 [([''numpy''], ''np'')],
      ImportFrom 282 [''matplotlib''] [(''pyplot'', ''plt'')],
      ImportFrom 284 [''sklearn'', ''gaussian_process''] [(''GaussianProcessClassifier'', [])],
      ImportFrom 285 [''sklearn'', ''gaussian_process'', ''kernels''] [(''RBF'', [])],
      ImportFrom 286 [''sklearn'', ''metrics''] [(''accuracy_score'', []), (''log_loss'', [])],
      Assign 289 [Name ''train_size''] NumLit,
      Assign 290 [Name ''rng'']
        (Call (Attribute (Attribute (Name ''np'') ''random'') ''RandomState'') [NumLit]),
      Assign 291 [Name ''X'']
        (Subscript (Call (Attribute (Name ''rng'') ''uniform'') [NumLit, NumLit, NumLit])
           (Tuple [Slice Absent Absent Absent, Attribute (Name ''np'') ''newaxis''])),
      Assign 292 [Name ''y'']
        (Call (Attribute (Name ''np'') ''array'')
           [Compare (Subscript (Name ''X'') (Tuple [Slice Absent Absent Absent, NumLit])) [''>'']
              [NumLit],
            keyword ''dtype'' (Name ''int'')]),
      Assign 295 [Name ''gp_fix'']
        (Call (Name ''GaussianProcessClassifier'')
           [keyword ''kernel''
              (BinOp NumLit ''*'' (Call (Name ''RBF'') [keyword ''length_scale'' NumLit])),
            keyword ''optimizer'' ConstLit]),
      Expr 296
        (Call (Attribute (Name ''gp_fix'') ''fit'')
           [Subscript (Name ''X'') (Slice Absent (Name ''train_size'') Absent),
            Subscript (Name ''y'') (Slice Absent (Name ''train_size'') Absent)]),
      Assign 298 [Name ''gp_opt'']
        (Call (Name ''GaussianProcessClassifier'')
           [keyword ''kernel''
              (BinOp NumLit ''*'' (Call (Name ''RBF'') [keyword ''length_scale'' NumLit]))]),
      Expr 299
        (Call (Attribute (Name ''gp_opt'') ''fit'')
           [Subscript (Name ''X'') (Slice Absent (Name ''train_size'') Absent),
            Subscript (Name ''y'') (Slice Absent (Name ''train_size'') Absent)]),
      Expr 301
        (Call (Name ''print'')
           [BinOp StrLit ''%''
              (Call (Attribute (Name ''gp_fix'') ''log_marginal_likelihood'')
                 [Attribute (Attribute (Name ''gp_fix'') ''kernel_'') ''theta''])]),
      Expr 305
        (Call (Name ''print'')
           [BinOp StrLit ''%''
              (Call (Attribute (Name ''gp_opt'') ''log_marginal_likelihood'')
                 [Attribute (Attribute (Name ''gp_opt'') ''kernel_'') ''theta''])]),
      Expr 310
        (Call (Name ''print'')
           [BinOp StrLit ''%''
              (Tuple
                 [Call (Name ''accuracy_score'')
                    [Subscript (Name ''y'') (Slice Absent (Name ''train_size'') Absent),
                     Call (Attribute (Name ''gp_fix'') ''predict'')
                       [Subscript (Name ''X'') (Slice Absent (Name ''train_size'') Absent)]],
                  Call (Name ''accuracy_score'')
                    [Subscript (Name ''y'') (Slice Absent (Name ''train_size'') Absent),
                     Call (Attribute (Name ''gp_opt'') ''predict'')
                       [Subscript (Name ''X'') (Slice Absent (Name ''train_size'') Absent)]]])]),
      Expr 317
        (Call (Name ''print'')
           [BinOp StrLit ''%''
              (Tuple
                 [Call (Name ''log_loss'')
                    [Subscript (Name ''y'') (Slice Absent (Name ''train_size'') Absent),
                     Subscript
                       (Call (Attribute (Name ''gp_fix'') ''predict_proba'')
                          [Subscript (Name ''X'') (Slice Absent (Name ''train_size'') Absent)])
                       (Tuple [Slice Absent Absent Absent, NumLit])],
                  Call (Name ''log_loss'')
                    [Subscript (Name ''y'') (Slice Absent (Name ''train_size'') Absent),
                     Subscript
                       (Call (Attribute (Name ''gp_opt'') ''predict_proba'')
                          [Subscript (Name ''X'') (Slice Absent (Name ''train_size'') Absent)])
                       (Tuple [Slice Absent Absent Absent, NumLit])]])]),
      Expr 327 (Call (Attribute (Name ''plt'') ''figure'') []),
      Expr 328
        (Call (Attribute (Name ''plt'') ''scatter'')
           [Subscript (Name ''X'') (Tuple [Slice Absent (Name ''train_size'') Absent, NumLit]),
            Subscript (Name ''y'') (Slice Absent (Name ''train_size'') Absent),
            keyword ''c'' StrLit,
            keyword ''label'' StrLit,
            keyword ''edgecolors'' (Tuple [NumLit, NumLit, NumLit])]),
      Expr 331
        (Call (Attribute (Name ''plt'') ''scatter'')
           [Subscript (Name ''X'') (Tuple [Slice (Name ''train_size'') Absent Absent, NumLit]),
            Subscript (Name ''y'') (Slice (Name ''train_size'') Absent Absent),
            keyword ''c'' StrLit,
            keyword ''label'' StrLit,
            keyword ''edgecolors'' (Tuple [NumLit, NumLit, NumLit])]),
      Assign 334 [Name ''X_'']
        (Call (Attribute (Name ''np'') ''linspace'') [NumLit, NumLit, NumLit]),
      Expr 335
        (Call (Attribute (Name ''plt'') ''plot'')
           [Name ''X_'',
            Subscript
              (Call (Attribute (Name ''gp_fix'') ''predict_proba'')
                 [Subscript (Name ''X_'')
                    (Tuple [Slice Absent Absent Absent, Attribute (Name ''np'') ''newaxis''])])
              (Tuple [Slice Absent Absent Absent, NumLit]),
            StrLit,
            keyword ''label'' (BinOp StrLit ''%'' (Attribute (Name ''gp_fix'') ''kernel_''))]),
      Expr 341
        (Call (Attribute (Name ''plt'') ''plot'')
           [Name ''X_'',
            Subscript
              (Call (Attribute (Name ''gp_opt'') ''predict_proba'')
                 [Subscript (Name ''X_'')
                    (Tuple [Slice Absent Absent Absent, Attribute (Name ''np'') ''newaxis''])])
              (Tuple [Slice Absent Absent Absent, NumLit]),
            StrLit,
            keyword ''label'' (BinOp StrLit ''%'' (Attribute (Name ''gp_opt'') ''kernel_''))]),
      Expr 347 (Call (Attribute (Name ''plt'') ''xlabel'') [StrLit]),
      Expr 348 (Call (Attribute (Name ''plt'') ''ylabel'') [StrLit]),
      Expr 349 (Call (Attribute (Name ''plt'') ''xlim'') [NumLit, NumLit]),
      Expr 350 (Call (Attribute (Name ''plt'') ''ylim'') [UnaryOp ''-'' NumLit, NumLit]),
      Expr 351 (Call (Attribute (Name ''plt'') ''legend'') [keyword ''loc'' StrLit]),
      Expr 354 (Call (Attribute (Name ''plt'') ''figure'') []),
      Assign 355 [Name ''theta0'']
        (Call (Attribute (Name ''np'') ''logspace'') [NumLit, NumLit, NumLit]),
      Assign 356 [Name ''theta1'']
        (Call (Attribute (Name ''np'') ''logspace'') [UnaryOp ''-'' NumLit, NumLit, NumLit]),
      Assign 357 [Tuple [Name ''Theta0'', Name ''Theta1'']]
        (Call (Attribute (Name ''np'') ''meshgrid'') [Name ''theta0'', Name ''theta1'']),
      Assign 358 [Name ''LML'']
        (ListComp
           (ListComp
              (Call (Attribute (Name ''gp_opt'') ''log_marginal_likelihood'')
                 [Call (Attribute (Name ''np'') ''log'')
                    [ListE
                       [Subscript (Name ''Theta0'') (Tuple [Name ''i'', Name ''j'']),
                        Subscript (Name ''Theta1'') (Tuple [Name ''i'', Name ''j''])]]])
              [comprehension (Name ''i'')
                 (Call (Name ''range'')
                    [Subscript (Attribute (Name ''Theta0'') ''shape'') NumLit])
                 []])
           [comprehension (Name ''j'')
              (Call (Name ''range'') [Subscript (Attribute (Name ''Theta0'') ''shape'') NumLit])
              []]),
      Assign 365 [Name ''LML'']
        (Attribute (Call (Attribute (Name ''np'') ''array'') [Name ''LML'']) ''T''),
      Expr 366
        (Call (Attribute (Name ''plt'') ''plot'')
           [Subscript
              (Call (Attribute (Name ''np'') ''exp'')
                 [Attribute (Attribute (Name ''gp_fix'') ''kernel_'') ''theta''])
              NumLit,
            Subscript
              (Call (Attribute (Name ''np'') ''exp'')
                 [Attribute (Attribute (Name ''gp_fix'') ''kernel_'') ''theta''])
              NumLit,
            StrLit,
            keyword ''zorder'' NumLit]),
      Expr 369
        (Call (Attribute (Name ''plt'') ''plot'')
           [Subscript
              (Call (Attribute (Name ''np'') ''exp'')
                 [Attribute (Attribute (Name ''gp_opt'') ''kernel_'') ''theta''])
              NumLit,
            Subscript
              (Call (Attribute (Name ''np'') ''exp'')
                 [Attribute (Attribute (Name ''gp_opt'') ''kernel_'') ''theta''])
              NumLit,
            StrLit,
            keyword ''zorder'' NumLit]),
      Expr 372
        (Call (Attribute (Name ''plt'') ''pcolor'')
           [Name ''Theta0'', Name ''Theta1'', Name ''LML'']),
      Expr 373 (Call (Attribute (Name ''plt'') ''xscale'') [StrLit]),
      Expr 374 (Call (Attribute (Name ''plt'') ''yscale'') [StrLit]),
      Expr 375 (Call (Attribute (Name ''plt'') ''colorbar'') []),
      Expr 376 (Call (Attribute (Name ''plt'') ''xlabel'') [StrLit]),
      Expr 377 (Call (Attribute (Name ''plt'') ''ylabel'') [StrLit]),
      Expr 378 (Call (Attribute (Name ''plt'') ''title'') [StrLit]),
      Expr 380 (Call (Attribute (Name ''plt'') ''show'') [])]\<rparr>"

text \<open>
  Compare the effect of different scalers on data with outliers
  (\<^verbatim>\<open>unnamed/part_005\<close>, lines 397 to 813).
\<close>

definition plot_all_scaling :: script where
  "plot_all_scaling =
   \<lparr>source_path = ''unnamed/part_005'', first_line = 397,
   body =
     [Expr 397 StrLit,
      Import 442 [([''matplotlib''], ''mpl'')],
      Import 443 [([''numpy''], ''np'')],
      ImportFrom 444 [''matplotlib''] [(''cm'', [])],
      ImportFrom 445 [''matplotlib''] [(''pyplot'', ''plt'')],
      ImportFrom 447 [''sklearn'', ''datasets''] [(''fetch_california_housing'', [])],
      ImportFrom 448 [''sklearn'', ''preprocessing'']
        [(''MaxAbsScaler'', []),
         (''MinMaxScaler'', []),
         (''Normalizer'', []),
         (''PowerTransformer'', []),
         (''QuantileTransformer'', []),
         (''RobustScaler'', []),
         (''StandardScaler'', []),
         (''minmax_scale'', [])],
      Assign 459 [Name ''dataset''] (Call (Name ''fetch_california_housing'') []),
      Assign 460 [Tuple [Name ''X_full'', Name ''y_full'']]
        (Tuple [Attribute (Name ''dataset'') ''data'', Attribute (Name ''dataset'') ''target'']),
      Assign 461 [Name ''feature_names''] (Attribute (Name ''dataset'') ''feature_names''),
      Assign 463 [Name ''feature_mapping'']
        (Dict [StrLit, StrLit, StrLit, StrLit, StrLit, StrLit, StrLit, StrLit]
           [StrLit, StrLit, StrLit, StrLit, StrLit, StrLit, StrLit, StrLit]),
      Assign 477 [Name ''features''] (ListE [StrLit, StrLit]),
      Assign 478 [Name ''features_idx'']
        (ListComp (Call (Attribute (Name ''feature_names'') ''index'') [Name ''feature''])
           [comprehension (Name ''feature'') (Name ''features'') []]),
      Assign 479 [Name ''X'']
        (Subscript (Name ''X_full'') (Tuple [Slice Absent Absent Absent, Name ''features_idx''])),
      Assign 480 [Name ''distributions'']
        (ListE
           [Tuple [StrLit, Name ''X''],
            Tuple
              [StrLit,
               Call (Attribute (Call (Name ''StandardScaler'') []) ''fit_transform'')
                 [Name ''X'']],
            Tuple
              [StrLit,
               Call (Attribute (Call (Name ''MinMaxScaler'') []) ''fit_transform'') [Name ''X'']],
            Tuple
              [StrLit,
               Call (Attribute (Call (Name ''MaxAbsScaler'') []) ''fit_transform'') [Name ''X'']],
            Tuple
              [StrLit,
               Call
                 (Attribute
                    (Call (Name ''RobustScaler'')
                       [keyword ''quantile_range'' (Tuple [NumLit, NumLit])])
                    ''fit_transform'')
                 [Name ''X'']],
            Tuple
              [StrLit,
               Call
                 (Attribute (Call (Name ''PowerTransformer'') [keyword ''method'' StrLit])
                    ''fit_transform'')
                 [Name ''X'']],
            Tuple
              [StrLit,
               Call
                 (Attribute (Call (Name ''PowerTransformer'') [keyword ''method'' StrLit])
                    ''fit_transform'')
                 [Name ''X'']],
            Tuple
              [StrLit,
               Call
                 (Attribute
                    (Call (Name ''QuantileTransformer'')
                       [keyword ''output_distribution'' StrLit, keyword ''random_state'' NumLit])
                    ''fit_transform'')
                 [Name ''X'']],
            Tuple
              [StrLit,
               Call
                 (Attribute
                    (Call (Name ''QuantileTransformer'')
                       [keyword ''output_distribution'' StrLit, keyword ''random_state'' NumLit])
                    ''fit_transform'')
                 [Name ''X'']],
            Tuple
              [StrLit,
               Call (Attribute (Call (Name ''Normalizer'') []) ''fit_transform'') [Name ''X'']]]),
      Assign 513 [Name ''y''] (Call (Name ''minmax_scale'') [Name ''y_full'']),
      Assign 516 [Name ''cmap'']
        (Call (Name ''getattr'') [Name ''cm'', StrLit, Attribute (Name ''cm'') ''hot_r'']),
      FunctionDef 519 ''create_axes'' [] [''title'', ''figsize''] [Tuple [NumLit, NumLit]]
        [Assign 520 [Name ''fig'']
           (Call (Attribute (Name ''plt'') ''figure'') [keyword ''figsize'' (Name ''figsize'')]),
         Expr 521 (Call (Attribute (Name ''fig'') ''suptitle'') [Name ''title'']),
         Assign 524 [Tuple [Name ''left'', Name ''width'']] (Tuple [NumLit, NumLit]),
         Assign 525 [Tuple [Name ''bottom'', Name ''height'']] (Tuple [NumLit, NumLit]),
         Assign 526 [Name ''bottom_h''] (BinOp (Name ''height'') ''+'' NumLit),
         Assign 527 [Name ''left_h'']
           (BinOp (BinOp (Name ''left'') ''+'' (Name ''width'')) ''+'' NumLit),
         Assign 529 [Name ''rect_scatter'']
           (ListE [Name ''left'', Name ''bottom'', Name ''width'', Name ''height'']),
         Assign 530 [Name ''rect_histx'']
           (ListE [Name ''left'', Name ''bottom_h'', Name ''width'', NumLit]),
         Assign 531 [Name ''rect_histy'']
           (ListE [Name ''left_h'', Name ''bottom'', NumLit, Name ''height'']),
         Assign 533 [Name ''ax_scatter'']
           (Call (Attribute (Name ''plt'') ''axes'') [Name ''rect_scatter'']),
         Assign 534 [Name ''ax_histx'']
           (Call (Attribute (Name ''plt'') ''axes'') [Name ''rect_histx'']),
         Assign 535 [Name ''ax_histy'']
           (Call (Attribute (Name ''plt'') ''axes'') [Name ''rect_histy'']),
         Assign 538 [Name ''left'']
           (BinOp (BinOp (Name ''width'') ''+'' (Name ''left'')) ''+'' NumLit),
         Assign 539 [Name ''left_h'']
           (BinOp (BinOp (Name ''left'') ''+'' (Name ''width'')) ''+'' NumLit),
         Assign 541 [Name ''rect_scatter'']
           (ListE [Name ''left'', Name ''bottom'', Name ''width'', Name ''height'']),
         Assign 542 [Name ''rect_histx'']
           (ListE [Name ''left'', Name ''bottom_h'', Name ''width'', NumLit]),
         Assign 543 [Name ''rect_histy'']
           (ListE [Name ''left_h'', Name ''bottom'', NumLit, Name ''height'']),
         Assign 545 [Name ''ax_scatter_zoom'']
           (Call (Attribute (Name ''plt'') ''axes'') [Name ''rect_scatter'']),
         Assign 546 [Name ''ax_histx_zoom'']
           (Call (Attribute (Name ''plt'') ''axes'') [Name ''rect_histx'']),
         Assign 547 [Name ''ax_histy_zoom'']
           (Call (Attribute (Name ''plt'') ''axes'') [Name ''rect_histy'']),
         Assign 550 [Tuple [Name ''left'', Name ''width'']]
           (Tuple [BinOp (BinOp (Name ''width'') ''+'' (Name ''left'')) ''+'' NumLit, NumLit]),
         Assign 552 [Name ''rect_colorbar'']
           (ListE [Name ''left'', Name ''bottom'', Name ''width'', Name ''height'']),
         Assign 553 [Name ''ax_colorbar'']
           (Call (Attribute (Name ''plt'') ''axes'') [Name ''rect_colorbar'']),
         Return 555
           (Tuple
              [Tuple [Name ''ax_scatter'', Name ''ax_histy'', Name ''ax_histx''],
               Tuple [Name ''ax_scatter_zoom'', Name ''ax_histy_zoom'', Name ''ax_histx_zoom''],
               Name ''ax_colorbar''])],
      FunctionDef 562 ''plot_distribution'' []
        [''axes'', ''X'', ''y'', ''hist_nbins'', ''title'', ''x0_label'', ''x1_label'']
        [NumLit, StrLit, StrLit, StrLit]
        [Assign 563 [Tuple [Name ''ax'', Name ''hist_X1'', Name ''hist_X0'']] (Name ''axes''),
         Expr 565 (Call (Attribute (Name ''ax'') ''set_title'') [Name ''title'']),
         Expr 566 (Call (Attribute (Name ''ax'') ''set_xlabel'') [Name ''x0_label'']),
         Expr 567 (Call (Attribute (Name ''ax'') ''set_ylabel'') [Name ''x1_label'']),
         Assign 570 [Name ''colors''] (Call (Name ''cmap'') [Name ''y'']),
         Expr 571
           (Call (Attribute (Name ''ax'') ''scatter'')
              [Subscript (Name ''X'') (Tuple [Slice Absent Absent Absent, NumLit]),
               Subscript (Name ''X'') (Tuple [Slice Absent Absent Absent, NumLit]),
               keyword ''alpha'' NumLit,
               keyword ''marker'' StrLit,
               keyword ''s'' NumLit,
               keyword ''lw'' NumLit,
               keyword ''c'' (Name ''colors'')]),
         Expr 575
           (Call
              (Attribute (Subscript (Attribute (Name ''ax'') ''spines'') StrLit) ''set_visible'')
              [ConstLit]),
         Expr 576
           (Call
              (Attribute (Subscript (Attribute (Name ''ax'') ''spines'') StrLit) ''set_visible'')
              [ConstLit]),
         Expr 577
           (Call (Attribute (Call (Attribute (Name ''ax'') ''get_xaxis'') []) ''tick_bottom'')
              []),
         Expr 578
           (Call (Attribute (Call (Attribute (Name ''ax'') ''get_yaxis'') []) ''tick_left'') []),
         Expr 579
           (Call
              (Attribute (Subscript (Attribute (Name ''ax'') ''spines'') StrLit) ''set_position'')
              [Tuple [StrLit, NumLit]]),
         Expr 580
           (Call
              (Attribute (Subscript (Attribute (Name ''ax'') ''spines'') StrLit) ''set_position'')
              [Tuple [StrLit, NumLit]]),
         Expr 583
           (Call (Attribute (Name ''hist_X1'') ''set_ylim'')
              [Call (Attribute (Name ''ax'') ''get_ylim'') []]),
         Expr 584
           (Call (Attribute (Name ''hist_X1'') ''hist'')
              [Subscript (Name ''X'') (Tuple [Slice Absent Absent Absent, NumLit]),
               keyword ''bins'' (Name ''hist_nbins''),
               keyword ''orientation'' StrLit,
               keyword ''color'' StrLit,
               keyword ''ec'' StrLit]),
         Expr 587 (Call (Attribute (Name ''hist_X1'') ''axis'') [StrLit]),
         Expr 590
           (Call (Attribute (Name ''hist_X0'') ''set_xlim'')
              [Call (Attribute (Name ''ax'') ''get_xlim'') []]),
         Expr 591
           (Call (Attribute (Name ''hist_X0'') ''hist'')
              [Subscript (Name ''X'') (Tuple [Slice Absent Absent Absent, NumLit]),
               keyword ''bins'' (Name ''hist_nbins''),
               keyword ''orientation'' StrLit,
               keyword ''color'' StrLit,
               keyword ''ec'' StrLit]),
         Expr 594 (Call (Attribute (Name ''hist_X0'') ''axis'') [StrLit])],
      FunctionDef 605 ''make_plot'' [] [''item_idx''] []
        [Assign 606 [Tuple [Name ''title'', Name ''X'']]
           (Subscript (Name ''distributions'') (Name ''item_idx'')),
         Assign 607 [Tuple [Name ''ax_zoom_out'', Name ''ax_zoom_in'', Name ''ax_colorbar'']]
           (Call (Name ''create_axes'') [Name ''title'']),
         Assign 608 [Name ''axarr''] (Tuple [Name ''ax_zoom_out'', Name ''ax_zoom_in'']),
         Expr 609
           (Call (Name ''plot_distribution'')
              [Subscript (Name ''axarr'') NumLit,
               Name ''X'',
               Name ''y'',
               keyword ''hist_nbins'' NumLit,
               keyword ''x0_label''
                 (Subscript (Name ''feature_mapping'') (Subscript (Name ''features'') NumLit)),
               keyword ''x1_label''
                 (Subscript (Name ''feature_mapping'') (Subscript (Name ''features'') NumLit)),
               keyword ''title'' StrLit]),
         Assign 620 [Name ''zoom_in_percentile_range''] (Tuple [NumLit, NumLit]),
         Assign 621 [Name ''cutoffs_X0'']
           (Call (Attribute (Name ''np'') ''percentile'')
              [Subscript (Name ''X'') (Tuple [Slice Absent Absent Absent, NumLit]),
               Name ''zoom_in_percentile_range'']),
         Assign 622 [Name ''cutoffs_X1'']
           (Call (Attribute (Name ''np'') ''percentile'')
              [Subscript (Name ''X'') (Tuple [Slice Absent Absent Absent, NumLit]),
               Name ''zoom_in_percentile_range'']),
         Assign 624 [Name ''non_outliers_mask'']
           (BinOp
              (Call (Attribute (Name ''np'') ''all'')
                 [Compare (Name ''X'') [''>'']
                    [ListE
                       [Subscript (Name ''cutoffs_X0'') NumLit,
                        Subscript (Name ''cutoffs_X1'') NumLit]],
                  keyword ''axis'' NumLit])
              ''&''
              (Call (Attribute (Name ''np'') ''all'')
                 [Compare (Name ''X'') [''<'']
                    [ListE
                       [Subscript (Name ''cutoffs_X0'') NumLit,
                        Subscript (Name ''cutoffs_X1'') NumLit]],
                  keyword ''axis'' NumLit])),
         Expr 627
           (Call (Name ''plot_distribution'')
              [Subscript (Name ''axarr'') NumLit,
               Subscript (Name ''X'') (Name ''non_outliers_mask''),
               Subscript (Name ''y'') (Name ''non_outliers_mask''),
               keyword ''hist_nbins'' NumLit,
               keyword ''x0_label''
                 (Subscript (Name ''feature_mapping'') (Subscript (Name ''features'') NumLit)),
               keyword ''x1_label''
                 (Subscript (Name ''feature_mapping'') (Subscript (Name ''features'') NumLit)),
               keyword ''title'' StrLit]),
         Assign 637 [Name ''norm'']
           (Call (Attribute (Attribute (Name ''mpl'') ''colors'') ''Normalize'')
              [Call (Attribute (Name ''y_full'') ''min'') [],
               Call (Attribute (Name ''y_full'') ''max'') []]),
         Expr 638
           (Call (Attribute (Attribute (Name ''mpl'') ''colorbar'') ''ColorbarBase'')
              [Name ''ax_colorbar'',
               keyword ''cmap'' (Name ''cmap''),
               keyword ''norm'' (Name ''norm''),
               keyword ''orientation'' StrLit,
               keyword ''label'' StrLit])],
      Expr 663 (Call (Name ''make_plot'') [NumLit]),
      Expr 685 (Call (Name ''make_plot'') [NumLit]),
      Expr 703 (Call (Name ''make_plot'') [NumLit]),
      Expr 722 (Call (Name ''make_plot'') [NumLit]),
      Expr 741 (Call (Name ''make_plot'') [NumLit]),
      Expr 760 (Call (Name ''make_plot'') [NumLit]),
      Expr 761 (Call (Name ''make_plot'') [NumLit]),
      Expr 785 (Call (Name ''make_plot'') [NumLit]),
      Expr 794 (Call (Name ''make_plot'') [NumLit]),
      Expr 810 (Call (Name ''make_plot'') [NumLit]),
      Expr 812 (Call (Attribute (Name ''plt'') ''show'') [])]\<rparr>"

definition gallery :: "script list" where
  "gallery = [plot_face_completion, plot_partial_dependence, plot_forest_hist_grad_boosting,
     plot_mahalanobis_distances, plot_sgd_early_stopping, plot_gmm_covariances,
     plot_roc_crossval, plot_svm_iris, plot_learning_curve,
     plot_precision_recall, plot_tsne_perplexity, plot_image_denoising,
     plot_gpr_co2, plot_gpc, plot_all_scaling]"

section \<open>Lists, every element evaluated\<close>

text \<open>
  The scripts are inspected by evaluating functions on their syntax trees. These list functions
  look at every element and choose by pattern matching on the outcome; the lemmas after them
  say which functions of the list library they are.
\<close>

fun both :: "bool \<Rightarrow> bool \<Rightarrow> bool" where
  "both True b = b"
| "both False b = False"

fun either :: "bool \<Rightarrow> bool \<Rightarrow> bool" where
  "either True b = True"
| "either False b = b"

fun every :: "('a \<Rightarrow> bool) \<Rightarrow> 'a list \<Rightarrow> bool" where
  "every P [] = True"
| "every P (x # xs) = both (P x) (every P xs)"

fun any :: "('a \<Rightarrow> bool) \<Rightarrow> 'a list \<Rightarrow> bool" where
  "any P [] = False"
| "any P (x # xs) = either (P x) (any P xs)"

fun mem :: "'a \<Rightarrow> 'a list \<Rightarrow> bool" where
  "mem x [] = False"
| "mem x (y # ys) = either (x = y) (mem x ys)"

fun absent :: "'a list \<Rightarrow> 'a \<Rightarrow> bool" where
  "absent xs x = (\<not> mem x xs)"

fun keep :: "bool \<Rightarrow> 'a \<Rightarrow> 'a list" where
  "keep True x = [x]"
| "keep False x = []"

fun keep_if :: "('a \<Rightarrow> bool) \<Rightarrow> 'a \<Rightarrow> 'a list" where
  "keep_if P x = keep (P x) x"

definition select :: "('a \<Rightarrow> bool) \<Rightarrow> 'a list \<Rightarrow> 'a list" where
  "select P xs = concat (map (keep_if P) xs)"

fun lookup :: "'k \<Rightarrow> ('k \<times> 'v) list \<Rightarrow> 'v list" where
  "lookup k [] = []"
| "lookup k ((k', v) # kvs) = keep (k' = k) v @ lookup k kvs"

fun nonempty :: "'a list \<Rightarrow> bool" where
  "nonempty [] = False"
| "nonempty (x # xs) = True"

fun starts_with :: "'a list \<Rightarrow> 'a list \<Rightarrow> bool" where
  "starts_with [] ys = True"
| "starts_with (x # xs) [] = False"
| "starts_with (x # xs) (y # ys) = both (x = y) (starts_with xs ys)"

section \<open>Traversals\<close>

text \<open>
  \<open>collect f e\<close> gathers what \<open>f\<close> finds at the expression \<open>e\<close> and at every
  expression inside it, outermost first.
\<close>

fun collect :: "(expr \<Rightarrow> 'a list) \<Rightarrow> expr \<Rightarrow> 'a list" where
  "collect f (Attribute e a) = f (Attribute e a) @ collect f e"
| "collect f (Call g as) = f (Call g as) @ collect f g @ concat (map (collect f) as)"
| "collect f (keyword k e) = f (keyword k e) @ collect f e"
| "collect f (Starred e) = f (Starred e) @ collect f e"
| "collect f (Subscript e i) = f (Subscript e i) @ collect f e @ collect f i"
| "collect f (Slice a b c) = f (Slice a b c) @ collect f a @ collect f b @ collect f c"
| "collect f (BinOp a op b) = f (BinOp a op b) @ collect f a @ collect f b"
| "collect f (UnaryOp op a) = f (UnaryOp op a) @ collect f a"
| "collect f (Compare a ops bs) = f (Compare a ops bs) @ collect f a @ concat (map (collect f) bs)"
| "collect f (Tuple es) = f (Tuple es) @ concat (map (collect f) es)"
| "collect f (ListE es) = f (ListE es) @ concat (map (collect f) es)"
| "collect f (Dict ks vs) =
     f (Dict ks vs) @ concat (map (collect f) ks) @ concat (map (collect f) vs)"
| "collect f (ListComp e gs) = f (ListComp e gs) @ collect f e @ concat (map (collect f) gs)"
| "collect f (GeneratorExp e gs) =
     f (GeneratorExp e gs) @ collect f e @ concat (map (collect f) gs)"
| "collect f (DictComp k v gs) =
     f (DictComp k v gs) @ collect f k @ collect f v @ concat (map (collect f) gs)"
| "collect f (comprehension t i cs) =
     f (comprehension t i cs) @ collect f t @ collect f i @ concat (map (collect f) cs)"
| "collect f (JoinedStr es) = f (JoinedStr es) @ concat (map (collect f) es)"
| "collect f e = f e"

text \<open>The expressions a statement holds itself, not those of the statements nested in it.\<close>

fun stmt_exprs :: "stmt \<Rightarrow> expr list" where
  "stmt_exprs (FunctionDef l f ds ps dfs b) = ds @ dfs"
| "stmt_exprs (Return l e) = [e]"
| "stmt_exprs (Assign l ts e) = ts @ [e]"
| "stmt_exprs (AugAssign l t op e) = [t, e]"
| "stmt_exprs (For l t i b) = [t, i]"
| "stmt_exprs (While l c b) = [c]"
| "stmt_exprs (IfStmt l c b e) = [c]"
| "stmt_exprs (With l es b) = es"
| "stmt_exprs (Raise l e) = [e]"
| "stmt_exprs (ExceptHandler l e b) = [e]"
| "stmt_exprs (Expr l e) = [e]"
| "stmt_exprs s = []"

text \<open>\<open>gather f st\<close>: what \<open>f\<close> finds at the statement and at every statement nested in it.\<close>

fun gather :: "(stmt \<Rightarrow> 'a list) \<Rightarrow> stmt \<Rightarrow> 'a list" where
  "gather f (FunctionDef l g ds ps dfs b) =
     f (FunctionDef l g ds ps dfs b) @ concat (map (gather f) b)"
| "gather f (ClassDef l c b) = f (ClassDef l c b) @ concat (map (gather f) b)"
| "gather f (For l t i b) = f (For l t i b) @ concat (map (gather f) b)"
| "gather f (While l c b) = f (While l c b) @ concat (map (gather f) b)"
| "gather f (IfStmt l c b e) =
     f (IfStmt l c b e) @ concat (map (gather f) b) @ concat (map (gather f) e)"
| "gather f (With l es b) = f (With l es b) @ concat (map (gather f) b)"
| "gather f (Try l b hs) = f (Try l b hs) @ concat (map (gather f) b) @ concat (map (gather f) hs)"
| "gather f (ExceptHandler l e b) = f (ExceptHandler l e b) @ concat (map (gather f) b)"
| "gather f s = f s"

fun expressions_in :: "(expr \<Rightarrow> 'a list) \<Rightarrow> stmt \<Rightarrow> 'a list" where
  "expressions_in f st = concat (map (collect f) (stmt_exprs st))"

definition in_statements :: "(stmt \<Rightarrow> 'a list) \<Rightarrow> script \<Rightarrow> 'a list" where
  "in_statements f s = concat (map (gather f) (body s))"

definition in_expressions :: "(expr \<Rightarrow> 'a list) \<Rightarrow> script \<Rightarrow> 'a list" where
  "in_expressions f s = concat (map (gather (expressions_in f)) (body s))"

section \<open>Imports and qualified names\<close>

text \<open>
  \<^verbatim>\<open>import a.b\<close> binds \<^verbatim>\<open>a\<close>, \<^verbatim>\<open>import a.b as c\<close> binds \<^verbatim>\<open>c\<close> to \<^verbatim>\<open>a.b\<close>, and
  \<^verbatim>\<open>from a.b import n as c\<close> binds \<^verbatim>\<open>c\<close> (or \<^verbatim>\<open>n\<close>) to \<^verbatim>\<open>a.b.n\<close>.
\<close>

fun module_binding :: "qname \<times> ident \<Rightarrow> ident \<times> qname" where
  "module_binding (m, []) = (hd m, [hd m])"
| "module_binding (m, c # cs) = (c # cs, m)"

fun name_binding :: "qname \<Rightarrow> ident \<times> ident \<Rightarrow> ident \<times> qname" where
  "name_binding m (n, []) = (n, m @ [n])"
| "name_binding m (n, c # cs) = (c # cs, m @ [n])"

fun import_bindings :: "stmt \<Rightarrow> (ident \<times> qname) list" where
  "import_bindings (Import l ms) = map module_binding ms"
| "import_bindings (ImportFrom l m ns) = map (name_binding m) ns"
| "import_bindings s = []"

definition import_env :: "script \<Rightarrow> (ident \<times> qname) list" where
  "import_env s = in_statements import_bindings s"

fun imported_from :: "stmt \<Rightarrow> qname list" where
  "imported_from (Import l ms) = map fst ms"
| "imported_from (ImportFrom l m ns) = [m]"
| "imported_from s = []"

definition imported_modules :: "script \<Rightarrow> qname list" where
  "imported_modules s = in_statements imported_from s"

text \<open>The dotted name an expression is, or \<open>[]\<close> when it is none.\<close>

fun dotted :: "qname \<Rightarrow> ident \<Rightarrow> qname" where
  "dotted [] a = []"
| "dotted (x # p) a = (x # p) @ [a]"

fun path :: "expr \<Rightarrow> qname" where
  "path (Name x) = [x]"
| "path (Attribute e a) = dotted (path e) a"
| "path e = []"

fun suffixed :: "qname \<Rightarrow> qname \<Rightarrow> qname" where
  "suffixed rest q = q @ rest"

text \<open>The library names a dotted name stands for, when its root is imported.\<close>

fun qualify :: "(ident \<times> qname) list \<Rightarrow> qname \<Rightarrow> qname list" where
  "qualify env [] = []"
| "qualify env (x # rest) = map (suffixed rest) (lookup x env)"

section \<open>Names\<close>

fun target_names :: "expr \<Rightarrow> ident list" where
  "target_names (Name x) = [x]"
| "target_names (Tuple es) = concat (map target_names es)"
| "target_names (ListE es) = concat (map target_names es)"
| "target_names (Starred e) = target_names e"
| "target_names e = []"

fun generator_names :: "expr \<Rightarrow> ident list" where
  "generator_names (comprehension t i cs) = target_names t"
| "generator_names e = []"

text \<open>
  The names an expression reads. A comprehension binds its targets for its own parts only;
  an assignment target reads the names of the object or container it stores into.
\<close>

fun free_names :: "expr \<Rightarrow> ident list" and target_free :: "expr \<Rightarrow> ident list" where
  "free_names (Name x) = [x]"
| "free_names (Attribute e a) = free_names e"
| "free_names (Call f as) = free_names f @ concat (map free_names as)"
| "free_names (keyword k e) = free_names e"
| "free_names (Starred e) = free_names e"
| "free_names (Subscript e i) = free_names e @ free_names i"
| "free_names (Slice a b c) = free_names a @ free_names b @ free_names c"
| "free_names (BinOp a op b) = free_names a @ free_names b"
| "free_names (UnaryOp op a) = free_names a"
| "free_names (Compare a ops bs) = free_names a @ concat (map free_names bs)"
| "free_names (Tuple es) = concat (map free_names es)"
| "free_names (ListE es) = concat (map free_names es)"
| "free_names (Dict ks vs) = concat (map free_names ks) @ concat (map free_names vs)"
| "free_names (ListComp e gs) =
     select (absent (concat (map generator_names gs)))
       (free_names e @ concat (map free_names gs))"
| "free_names (GeneratorExp e gs) =
     select (absent (concat (map generator_names gs)))
       (free_names e @ concat (map free_names gs))"
| "free_names (DictComp k v gs) =
     select (absent (concat (map generator_names gs)))
       (free_names k @ free_names v @ concat (map free_names gs))"
| "free_names (comprehension t i cs) =
     target_free t @ free_names i @ concat (map free_names cs)"
| "free_names (JoinedStr es) = concat (map free_names es)"
| "free_names NumLit = []"
| "free_names StrLit = []"
| "free_names ConstLit = []"
| "free_names Absent = []"
| "target_free (Name x) = []"
| "target_free (Tuple es) = concat (map target_free es)"
| "target_free (ListE es) = concat (map target_free es)"
| "target_free (Starred e) = target_free e"
| "target_free (Attribute e a) = free_names e"
| "target_free (Subscript e i) = free_names e @ free_names i"
| "target_free e = []"

fun binds :: "stmt \<Rightarrow> ident list" where
  "binds (Import l ms) = map fst (import_bindings (Import l ms))"
| "binds (ImportFrom l m ns) = map fst (import_bindings (ImportFrom l m ns))"
| "binds (FunctionDef l f ds ps dfs b) = [f]"
| "binds (ClassDef l c b) = [c]"
| "binds (Assign l ts e) = concat (map target_names ts)"
| "binds (AugAssign l t op e) = target_names t"
| "binds (For l t i b) = target_names t"
| "binds s = []"

fun reads :: "stmt \<Rightarrow> ident list" where
  "reads (Assign l ts e) = concat (map target_free ts) @ free_names e"
| "reads (AugAssign l t op e) = free_names t @ free_names e"
| "reads (For l t i b) = target_free t @ free_names i"
| "reads s = concat (map free_names (stmt_exprs s))"

text \<open>The names of the language itself that the scripts use.\<close>

definition builtins :: "ident list" where
  "builtins = [''print'', ''range'', ''len'', ''enumerate'', ''zip'', ''dict'', ''list'',
     ''sorted'', ''int'', ''getattr'', ''iter'', ''next'', ''__doc__'', ''ImportError'']"

text \<open>
  The names a block binds in the scope it runs in: a function or class binds its own name
  only, loops and branches bind in the enclosing scope.
\<close>

fun block_binds :: "stmt \<Rightarrow> ident list" where
  "block_binds (FunctionDef l f ds ps dfs b) = [f]"
| "block_binds (ClassDef l c b) = [c]"
| "block_binds (For l t i b) = target_names t @ concat (map block_binds b)"
| "block_binds (While l c b) = concat (map block_binds b)"
| "block_binds (IfStmt l c b e) = concat (map block_binds b) @ concat (map block_binds e)"
| "block_binds (With l es b) = concat (map block_binds b)"
| "block_binds (Try l b hs) = concat (map block_binds b) @ concat (map block_binds hs)"
| "block_binds (ExceptHandler l e b) = concat (map block_binds b)"
| "block_binds s = binds s"

text \<open>The names a statement reads that no scope around it binds.\<close>

fun unbound_in :: "ident list \<Rightarrow> stmt \<Rightarrow> ident list" where
  "unbound_in scope (FunctionDef l f ds ps dfs b) =
     select (absent scope) (reads (FunctionDef l f ds ps dfs b))
     @ concat (map (unbound_in (ps @ concat (map block_binds b) @ scope)) b)"
| "unbound_in scope (ClassDef l c b) = concat (map (unbound_in scope) b)"
| "unbound_in scope (For l t i b) =
     select (absent scope) (reads (For l t i b)) @ concat (map (unbound_in scope) b)"
| "unbound_in scope (While l c b) =
     select (absent scope) (reads (While l c b)) @ concat (map (unbound_in scope) b)"
| "unbound_in scope (IfStmt l c b e) =
     select (absent scope) (reads (IfStmt l c b e))
     @ concat (map (unbound_in scope) b) @ concat (map (unbound_in scope) e)"
| "unbound_in scope (With l es b) =
     select (absent scope) (reads (With l es b)) @ concat (map (unbound_in scope) b)"
| "unbound_in scope (Try l b hs) = concat (map (unbound_in scope) b) @ concat (map (unbound_in scope) hs)"
| "unbound_in scope (ExceptHandler l e b) =
     select (absent scope) (reads (ExceptHandler l e b)) @ concat (map (unbound_in scope) b)"
| "unbound_in scope s = select (absent scope) (reads s)"

definition unbound_names :: "script \<Rightarrow> ident list" where
  "unbound_names s =
     concat (map (unbound_in (concat (map block_binds (body s)) @ builtins)) (body s))"

section \<open>Where values come from\<close>

fun function_def :: "stmt \<Rightarrow> (ident \<times> ident list) list" where
  "function_def (FunctionDef l f ds ps dfs b) = [(f, ps)]"
| "function_def s = []"

definition helpers :: "script \<Rightarrow> (ident \<times> ident list) list" where
  "helpers s = in_statements function_def s"

text \<open>
  Assignment binds each target name to the value, or, when a tuple is assigned to a tuple
  of the same length, to its component. A loop binds its targets to what it iterates over;
  \<^verbatim>\<open>zip\<close>, \<^verbatim>\<open>enumerate\<close> and \<^verbatim>\<open>.items()\<close> are followed to their arguments.
\<close>

fun unpack :: "expr \<Rightarrow> expr \<Rightarrow> (ident \<times> expr) list"
  and unpack_each :: "expr list \<Rightarrow> expr \<Rightarrow> (ident \<times> expr) list"
  and unpack_all :: "expr list \<Rightarrow> expr list \<Rightarrow> (ident \<times> expr) list" where
  "unpack (Name x) v = [(x, v)]"
| "unpack (Tuple ts) v =
     (case v of
        Tuple vs \<Rightarrow> (if length vs = length ts then unpack_all ts vs else unpack_each ts v)
      | _ \<Rightarrow> unpack_each ts v)"
| "unpack (ListE ts) v = unpack_each ts v"
| "unpack (Starred t) v = unpack t v"
| "unpack t v = []"
| "unpack_each [] v = []"
| "unpack_each (t # ts) v = unpack t v @ unpack_each ts v"
| "unpack_all [] vs = []"
| "unpack_all (t # ts) [] = []"
| "unpack_all (t # ts) (v # vs) = unpack t v @ unpack_all ts vs"

fun iterate :: "expr \<Rightarrow> expr \<Rightarrow> (ident \<times> expr) list"
  and iterate_all :: "expr list \<Rightarrow> expr list \<Rightarrow> (ident \<times> expr) list" where
  "iterate (Tuple ts) v =
     (case v of
        Call (Name f) as \<Rightarrow>
          (if f = ''zip'' \<and> length as = length ts then iterate_all ts as
           else if f = ''enumerate'' \<and> length ts = 2 \<and> length as = 1
             then iterate_all (tl ts) as
           else unpack (Tuple ts) v)
      | Call (Attribute d m) as \<Rightarrow>
          (if m = ''items'' \<and> length ts = 2 \<and> as = [] then iterate_all (tl ts) [d]
           else unpack (Tuple ts) v)
      | _ \<Rightarrow> unpack (Tuple ts) v)"
| "iterate t v = unpack t v"
| "iterate_all [] vs = []"
| "iterate_all (t # ts) [] = []"
| "iterate_all (t # ts) (v # vs) = iterate t v @ iterate_all ts vs"

fun returned :: "stmt \<Rightarrow> expr list" where
  "returned (Return l e) = [e]"
| "returned s = []"

fun bound_values :: "stmt \<Rightarrow> (ident \<times> expr) list" where
  "bound_values (Assign l ts e) = unpack_each ts e"
| "bound_values (For l t i b) = iterate t i"
| "bound_values (FunctionDef l f ds ps dfs b) = map (Pair f) (concat (map (gather returned) b))"
| "bound_values s = []"

fun positional :: "expr \<Rightarrow> bool" where
  "positional (keyword k e) = False"
| "positional (Starred e) = False"
| "positional e = True"

fun keyword_value :: "ident list \<Rightarrow> expr \<Rightarrow> (ident \<times> expr) list" where
  "keyword_value ps (keyword k e) = keep (mem k ps) (k, e)"
| "keyword_value ps e = []"

fun arguments :: "expr list \<Rightarrow> ident list \<Rightarrow> (ident \<times> expr) list" where
  "arguments as ps = zip ps (takeWhile positional as) @ concat (map (keyword_value ps) as)"

text \<open>A comprehension binds like a loop; a call of a helper binds its parameters.\<close>

fun passed_values :: "(ident \<times> ident list) list \<Rightarrow> expr \<Rightarrow> (ident \<times> expr) list" where
  "passed_values hs (comprehension t i cs) = iterate t i"
| "passed_values hs (Call (Name f) as) = concat (map (arguments as) (lookup f hs))"
| "passed_values hs e = []"

definition passing_builtins :: "ident list" where
  "passing_builtins = [''enumerate'', ''zip'', ''sorted'', ''list'', ''iter'', ''next'',
     ''getattr'']"

definition passing_methods :: "ident list" where
  "passing_methods = [''items'', ''values'', ''fit'', ''set_params'', ''flatten'']"

fun or_else :: "'a list \<Rightarrow> 'a list \<Rightarrow> 'a list" where
  "or_else [] ys = ys"
| "or_else (x # xs) ys = x # xs"

fun single :: "'a list \<Rightarrow> 'a list list" where
  "single [] = []"
| "single (x # xs) = [x # xs]"

text \<open>
  The dotted names an expression takes its value from: the name or attribute path it is, the
  function, class or method whose call it is, and the like for the parts of a container. A
  call of \<^verbatim>\<open>fit\<close> or \<^verbatim>\<open>set_params\<close> returns its receiver.
\<close>

fun atoms :: "expr \<Rightarrow> qname list" where
  "atoms (Name x) = [[x]]"
| "atoms (Attribute e a) = or_else (single (path (Attribute e a))) (atoms e)"
| "atoms (Call f as) =
     (case f of
        Name g \<Rightarrow> (if g \<in> set passing_builtins then concat (map atoms as) else [[g]])
      | Attribute r m \<Rightarrow>
          (if m \<in> set passing_methods then atoms r else or_else (single (path f)) (atoms r))
      | _ \<Rightarrow> [])"
| "atoms (Subscript e i) = atoms e"
| "atoms (Starred e) = atoms e"
| "atoms (BinOp a op b) = atoms a @ atoms b"
| "atoms (Tuple es) = concat (map atoms es)"
| "atoms (ListE es) = concat (map atoms es)"
| "atoms (Dict ks vs) = concat (map atoms vs)"
| "atoms (ListComp e gs) = atoms e"
| "atoms (GeneratorExp e gs) = atoms e"
| "atoms (DictComp k v gs) = atoms v"
| "atoms e = []"

fun value_atoms :: "ident \<times> expr \<Rightarrow> ident \<times> qname list" where
  "value_atoms (x, e) = (x, atoms e)"

definition graph :: "script \<Rightarrow> (ident \<times> qname list) list" where
  "graph s = map value_atoms
     (in_statements bound_values s @ in_expressions (passed_values (helpers s)) s)"

fun uniq :: "'a list \<Rightarrow> 'a list" where
  "uniq [] = []"
| "uniq (x # xs) = keep (absent xs x) x @ uniq xs"

text \<open>
  The library names behind a dotted name: an imported root is qualified by its import; any
  other root is followed through the values bound to it, each name once.
\<close>

fun origins :: "nat \<Rightarrow> ident list \<Rightarrow> (ident \<times> qname) list \<Rightarrow> (ident \<times> qname list) list \<Rightarrow> qname
    \<Rightarrow> qname list"
  and follow :: "nat \<Rightarrow> ident list \<Rightarrow> (ident \<times> qname) list \<Rightarrow> (ident \<times> qname list) list \<Rightarrow> ident
    \<Rightarrow> qname list \<Rightarrow> bool \<Rightarrow> qname list" where
  "origins 0 seen env g p = []"
| "origins (Suc k) seen env g [] = []"
| "origins (Suc k) seen env g (x # rest) =
     follow k seen env g x (map (suffixed rest) (lookup x env)) (mem x seen)"
| "follow k seen env g x (q # qs) b = q # qs"
| "follow k seen env g x [] True = []"
| "follow k seen env g x [] False =
     concat (map (origins k (x # seen) env g) (uniq (concat (lookup x g))))"

definition made_by :: "(ident \<times> qname) list \<Rightarrow> (ident \<times> qname list) list \<Rightarrow> expr \<Rightarrow> qname list" where
  "made_by env g e = uniq (concat (map (origins 16 [] env g) (atoms e)))"

section \<open>Estimators\<close>

definition estimator_methods :: "ident list" where
  "estimator_methods = [''fit'', ''fit_transform'', ''predict'', ''transform'',
     ''predict_proba'', ''decision_function'', ''score'', ''set_params'']"

fun method_call :: "ident list \<Rightarrow> expr \<Rightarrow> (ident \<times> expr) list" where
  "method_call ms (Call (Attribute r m) as) = keep (mem m ms) (m, r)"
| "method_call ms e = []"

fun receiver_origin :: "(ident \<times> qname) list \<Rightarrow> (ident \<times> qname list) list \<Rightarrow> ident \<times> expr
    \<Rightarrow> ident \<times> qname list" where
  "receiver_origin env g (m, r) = (m, made_by env g r)"

text \<open>
  For every call of an estimator method in the script: the method, and the library names the
  object it is called on comes from.
\<close>

definition estimators :: "script \<Rightarrow> (ident \<times> qname list) list" where
  "estimators s = uniq (map (receiver_origin (import_env s) (graph s))
     (in_expressions (method_call estimator_methods) s))"

lemma both_conj: "both a b = (a \<and> b)"
  by (cases a) simp_all

lemma either_disj: "either a b = (a \<or> b)"
  by (cases a) simp_all

lemma keep_if_then: "keep b x = (if b then [x] else [])"
  by (cases b) simp_all

lemma every_list_all: "every P xs = list_all P xs"
  by (induction xs) (simp_all add: both_conj)

lemma any_list_ex: "any P xs = list_ex P xs"
  by (induction xs) (simp_all add: either_disj)

lemma mem_set: "mem x xs = (x \<in> set xs)"
  by (induction xs) (auto simp: either_disj)

lemma select_filter: "select P xs = filter P xs"
  unfolding select_def by (induction xs) (simp_all add: keep_if_then)

lemma lookup_filter: "lookup k kvs = map snd (filter (\<lambda>kv. fst kv = k) kvs)"
  by (induction kvs) (auto simp: keep_if_then)

lemma uniq_remdups: "uniq xs = remdups xs"
  by (induction xs) (simp_all add: keep_if_then mem_set)

lemma starts_with_take: "starts_with xs ys = (take (length xs) ys = xs)"
  by (induction xs ys rule: starts_with.induct) (auto simp: both_conj)

section \<open>Libraries\<close>

definition ml_library :: "qname \<Rightarrow> bool" where
  "ml_library q = starts_with [''sklearn''] q"



definition plotting_library :: "qname \<Rightarrow> bool" where
  "plotting_library q = (starts_with [''matplotlib''] q \<or> starts_with [''plotly''] q)"

definition display_classes :: "ident list" where
  "display_classes = [''PartialDependenceDisplay'', ''DecisionBoundaryDisplay'',
     ''RocCurveDisplay'', ''LearningCurveDisplay'', ''PrecisionRecallDisplay'']"

fun display_class :: "ident \<Rightarrow> bool" where
  "display_class c = mem c display_classes"

text \<open>What draws: the plotting libraries, and the display classes of the estimator library.\<close>

definition plotting_api :: "qname \<Rightarrow> bool" where
  "plotting_api q = (plotting_library q \<or> (ml_library q \<and> any display_class q))"






section \<open>Data, model, figure\<close>



definition fit_methods :: "ident list" where
  "fit_methods = [''fit'', ''fit_transform'']"




section \<open>The last statement\<close>

text \<open>The statement a block ends with; a loop ends with the last statement of its body.\<close>

fun final :: "stmt list \<Rightarrow> stmt list" where
  "final [] = []"
| "final [For l t i b] = final b"
| "final [While l c b] = final b"
| "final [With l es b] = final b"
| "final [s] = [s]"
| "final (s # ss) = final ss"

text \<open>
  A call draws when its function is imported from what draws, or is a method of an object
  that comes from there.
\<close>

fun drawn_by :: "script \<Rightarrow> expr \<Rightarrow> qname list \<Rightarrow> bool" where
  "drawn_by s f (q # qs) = any plotting_api (q # qs)"
| "drawn_by s f [] = any plotting_api (made_by (import_env s) (graph s) f)"

fun plotting_call :: "script \<Rightarrow> expr \<Rightarrow> bool" where
  "plotting_call s (Call f as) = drawn_by s f (qualify (import_env s) (path f))"
| "plotting_call s e = False"

fun plotting_statement :: "script \<Rightarrow> stmt list \<Rightarrow> bool" where
  "plotting_statement s [Expr l e] = plotting_call s e"
| "plotting_statement s [Assign l ts e] = plotting_call s e"
| "plotting_statement s sts = False"

definition ends_in_plot :: "script \<Rightarrow> bool" where
  "ends_in_plot s = plotting_statement s (final (body s))"

definition plot_before_end :: "script \<Rightarrow> bool" where
  "plot_before_end s = plotting_statement s (final (butlast (body s)))"

section \<open>Failure handling\<close>

fun try_statement :: "stmt \<Rightarrow> stmt list" where
  "try_statement (Try l b hs) = [Try l b hs]"
| "try_statement s = []"

fun raising :: "stmt \<Rightarrow> nat list" where
  "raising (Raise l e) = [l]"
| "raising s = []"

fun context_manager :: "stmt \<Rightarrow> nat list" where
  "context_manager (With l es b) = [l]"
| "context_manager s = []"

fun importing :: "stmt \<Rightarrow> bool" where
  "importing (Import l ms) = True"
| "importing (ImportFrom l m ns) = True"
| "importing s = False"

fun import_handler :: "stmt \<Rightarrow> bool" where
  "import_handler (ExceptHandler l e b) = (e = Name ''ImportError'' \<and> every importing b)"
| "import_handler s = False"

text \<open>A \<^verbatim>\<open>try\<close> that only chooses between two places to import a name from.\<close>

fun import_fallback :: "stmt \<Rightarrow> bool" where
  "import_fallback (Try l b hs) = (every importing b \<and> every import_handler hs)"
| "import_fallback s = False"

fun decorator :: "stmt \<Rightarrow> expr list" where
  "decorator (FunctionDef l f ds ps dfs b) = ds"
| "decorator s = []"

fun decorator_path :: "expr \<Rightarrow> qname" where
  "decorator_path (Call f as) = path f"
| "decorator_path e = path e"

text \<open>The library names of the decorators a script puts on its functions.\<close>

definition decorators :: "script \<Rightarrow> qname list list" where
  "decorators s = map (qualify (import_env s)) (map decorator_path (in_statements decorator s))"

fun warnings_module :: "qname \<Rightarrow> bool" where
  "warnings_module q = starts_with [''warnings''] q"

fun supplied :: "qname list \<Rightarrow> bool" where
  "supplied qs = both (nonempty qs) (every ml_library qs)"

definition no_failure_handling :: "script \<Rightarrow> bool" where
  "no_failure_handling s = (in_statements try_statement s = [] \<and> in_statements raising s = []
     \<and> in_statements context_manager s = [] \<and> every supplied (decorators s)
     \<and> \<not> any warnings_module (imported_modules s))"

definition only_import_fallback :: "script \<Rightarrow> bool" where
  "only_import_fallback s = (every import_fallback (in_statements try_statement s)
     \<and> in_statements raising s = [] \<and> in_statements context_manager s = []
     \<and> every supplied (decorators s) \<and> \<not> any warnings_module (imported_modules s))"

section \<open>Independence\<close>

definition external_packages :: "ident list" where
  "external_packages = [''sklearn'', ''numpy'', ''scipy'', ''matplotlib'', ''plotly'',
     ''pandas'', ''polars'', ''joblib'', ''sys'', ''time'', ''datetime'', ''collections'',
     ''itertools'']"

text \<open>The directories and files of the repository, as module names.\<close>

definition repository_modules :: "ident list" where
  "repository_modules = [''miscellaneous'', ''ensemble'', ''covariance'', ''mixture'',
     ''model_selection'', ''unnamed'', ''plot_multioutput_face_completion'',
     ''plot_forest_hist_grad_boosting_comparison'', ''plot_mahalanobis_distances'',
     ''plot_gmm_covariances'', ''plot_roc_crossval'', ''part_000'', ''part_001'', ''part_002'',
     ''part_003'', ''part_004'', ''part_005'']"

fun external_module :: "qname \<Rightarrow> bool" where
  "external_module [] = False"
| "external_module (p # ps) = both (mem p external_packages) (absent repository_modules p)"

definition self_contained :: "script \<Rightarrow> bool" where
  "self_contained s = (every external_module (imported_modules s) \<and> unbound_names s = [])"

section \<open>Estimator classes\<close>

fun capitalised :: "ident \<Rightarrow> bool" where
  "capitalised [] = False"
| "capitalised (c # cs) = mem c ''ABCDEFGHIJKLMNOPQRSTUVWXYZ''"

fun class_def :: "stmt \<Rightarrow> ident list" where
  "class_def (ClassDef l c b) = [c]"
| "class_def s = []"

definition class_defs :: "script \<Rightarrow> ident list" where
  "class_defs s = in_statements class_def s"

fun class_path :: "qname \<Rightarrow> qname list" where
  "class_path [] = []"
| "class_path (x # p) = keep (capitalised (last (x # p))) (x # p)"

fun constructed :: "expr \<Rightarrow> qname list" where
  "constructed (Call f as) = class_path (path f)"
| "constructed e = []"

text \<open>For every class a script instantiates, the library names it is imported as.\<close>

definition instantiated :: "script \<Rightarrow> qname list list" where
  "instantiated s = map (qualify (import_env s)) (uniq (in_expressions constructed s))"

fun imported_class :: "qname list \<Rightarrow> bool" where
  "imported_class qs = both (nonempty qs) (every external_module qs)"

definition library_estimators :: "script \<Rightarrow> bool" where
  "library_estimators s = (class_defs s = [] \<and> every imported_class (instantiated s)
     \<and> every supplied (map snd (estimators s)))"

section \<open>Estimator families\<close>

definition estimator_families :: "qname list" where
  "estimator_families = [[''sklearn'', ''svm''], [''sklearn'', ''ensemble''],
     [''sklearn'', ''gaussian_process''], [''sklearn'', ''covariance''],
     [''sklearn'', ''manifold'', ''TSNE''],
     [''sklearn'', ''decomposition'', ''MiniBatchDictionaryLearning''],
     [''sklearn'', ''preprocessing''], [''sklearn'', ''mixture'', ''GaussianMixture'']]"

fun fits_in :: "qname \<Rightarrow> ident \<times> qname list \<Rightarrow> bool" where
  "fits_in fam (m, qs) = both (mem m fit_methods) (any (starts_with fam) qs)"

definition fits_family :: "qname \<Rightarrow> script \<Rightarrow> bool" where
  "fits_family fam s = any (fits_in fam) (estimators s)"

section \<open>The scripts' own logic\<close>

fun while_loop :: "stmt \<Rightarrow> nat list" where
  "while_loop (While l c b) = [l]"
| "while_loop s = []"

fun called_name :: "expr \<Rightarrow> ident list" where
  "called_name (Call (Name f) as) = [f]"
| "called_name e = []"

fun recursive :: "stmt \<Rightarrow> ident list" where
  "recursive (FunctionDef l f ds ps dfs b) =
     keep (mem f (concat (map (gather (expressions_in called_name)) b))) f"
| "recursive s = []"






definition no_own_mechanism :: "script \<Rightarrow> bool" where
  "no_own_mechanism s = (class_defs s = [] \<and> in_statements while_loop s = []
     \<and> in_statements context_manager s = [] \<and> in_statements raising s = []
     \<and> in_statements recursive s = [])"

section \<open>The checks at work\<close>

text \<open>
  Five scripts that are not in the gallery, each breaking one of the properties: a script that
  fits an estimator class of its own, one that handles a failure of the library, one that ends
  in a computation, one that iterates itself, and one with a recursive function.
\<close>

definition own_estimator :: script where
  "own_estimator =
   \<lparr>source_path = [], first_line = 1,
   body =
     [ClassDef 1 ''Centroid''
        [FunctionDef 2 ''fit'' [] [''self'', ''X''] [] [Return 3 (Name ''self'')]],
      Assign 4 [Name ''model''] (Call (Name ''Centroid'') []),
      Expr 5 (Call (Attribute (Name ''model'') ''fit'') [ListE [NumLit]])]\<rparr>"

definition own_handler :: script where
  "own_handler =
   \<lparr>source_path = [], first_line = 1,
   body =
     [ImportFrom 1 [''sklearn'', ''svm''] [(''SVC'', [])],
      Try 2 [Expr 3 (Call (Attribute (Call (Name ''SVC'') []) ''fit'') [ListE [], ListE []])]
        [ExceptHandler 4 (Name ''ValueError'') [Expr 5 (Call (Name ''print'') [StrLit])]]]\<rparr>"

definition ends_in_score :: script where
  "ends_in_score =
   \<lparr>source_path = [], first_line = 1,
   body =
     [Import 1 [([''matplotlib'', ''pyplot''], ''plt'')],
      Expr 2 (Call (Attribute (Name ''plt'') ''show'') []),
      Assign 3 [Name ''total''] (BinOp NumLit ''+'' NumLit)]\<rparr>"

definition own_iteration :: script where
  "own_iteration =
   \<lparr>source_path = [], first_line = 1,
   body =
     [Assign 1 [Name ''x''] NumLit,
      While 2 (Compare (Name ''x'') [''>''] [NumLit])
        [Assign 3 [Name ''x''] (BinOp (Name ''x'') ''/'' NumLit)]]\<rparr>"

definition own_recursion :: script where
  "own_recursion =
   \<lparr>source_path = [], first_line = 1,
   body =
     [FunctionDef 1 ''depth'' [] [''tree''] []
        [Return 2 (BinOp NumLit ''+'' (Call (Name ''depth'') [Subscript (Name ''tree'') NumLit]))],
      Expr 3 (Call (Name ''print'') [Call (Name ''depth'') [ListE []]])]\<rparr>"

lemma own_estimator_found:
  "class_defs own_estimator = [''Centroid''] \<and> instantiated own_estimator = [[]]
   \<and> estimators own_estimator = [(''fit'', [])] \<and> \<not> library_estimators own_estimator"
  by code_simp

lemma own_handler_found:
  "\<not> only_import_fallback own_handler \<and> \<not> no_failure_handling own_handler"
  by code_simp

lemma ends_in_score_found: "\<not> ends_in_plot ends_in_score \<and> plot_before_end ends_in_score"
  by code_simp

lemma own_iteration_found:
  "in_statements while_loop own_iteration = [2] \<and> \<not> no_own_mechanism own_iteration"
  by code_simp

lemma own_recursion_found:
  "in_statements recursive own_recursion = [''depth''] \<and> \<not> no_own_mechanism own_recursion"
  by code_simp

section \<open>Estimators: what each script fits\<close>

text \<open>
  For each script, the calls of estimator methods and the library classes and factories the
  objects they are called on come from.
\<close>

lemma estimators_face_completion:
  "estimators plot_face_completion =
     [(''fit'',
       [[''sklearn'', ''ensemble'', ''ExtraTreesRegressor''],
        [''sklearn'', ''neighbors'', ''KNeighborsRegressor''],
        [''sklearn'', ''linear_model'', ''LinearRegression''],
        [''sklearn'', ''linear_model'', ''RidgeCV'']]),
      (''predict'',
       [[''sklearn'', ''ensemble'', ''ExtraTreesRegressor''],
        [''sklearn'', ''neighbors'', ''KNeighborsRegressor''],
        [''sklearn'', ''linear_model'', ''LinearRegression''],
        [''sklearn'', ''linear_model'', ''RidgeCV'']])]"
  by code_simp

lemma estimators_partial_dependence:
  "estimators plot_partial_dependence =
     [(''fit'', [[''sklearn'', ''tree'', ''DecisionTreeRegressor'']]),
      (''fit'', [[''sklearn'', ''pipeline'', ''make_pipeline'']])]"
  by code_simp

lemma estimators_forest_hist_grad_boosting:
  "estimators plot_forest_hist_grad_boosting =
     [(''fit'', [[''sklearn'', ''model_selection'', ''GridSearchCV'']])]"
  by code_simp

lemma estimators_mahalanobis_distances:
  "estimators plot_mahalanobis_distances =
     [(''fit'', [[''sklearn'', ''covariance'', ''MinCovDet'']]),
      (''fit'', [[''sklearn'', ''covariance'', ''EmpiricalCovariance'']])]"
  by code_simp

lemma estimators_sgd_early_stopping:
  "estimators plot_sgd_early_stopping =
     [(''set_params'', [[''sklearn'', ''linear_model'', ''SGDClassifier'']]),
      (''fit'', [[''sklearn'', ''linear_model'', ''SGDClassifier'']]),
      (''score'', [[''sklearn'', ''linear_model'', ''SGDClassifier'']])]"
  by code_simp

lemma estimators_gmm_covariances:
  "estimators plot_gmm_covariances =
     [(''fit'', [[''sklearn'', ''mixture'', ''GaussianMixture'']]),
      (''predict'', [[''sklearn'', ''mixture'', ''GaussianMixture'']])]"
  by code_simp

lemma estimators_roc_crossval:
  "estimators plot_roc_crossval = [(''fit'', [[''sklearn'', ''svm'', ''SVC'']])]"
  by code_simp

lemma estimators_svm_iris:
  "estimators plot_svm_iris =
     [(''fit'', [[''sklearn'', ''svm'', ''LinearSVC''], [''sklearn'', ''svm'', ''SVC'']])]"
  by code_simp

lemma estimators_learning_curve:
  "estimators plot_learning_curve = []"
  by code_simp

lemma estimators_precision_recall:
  "estimators plot_precision_recall =
     [(''fit'',
       [[''sklearn'', ''pipeline'', ''make_pipeline''],
        [''sklearn'', ''multiclass'', ''OneVsRestClassifier'']]),
      (''decision_function'',
       [[''sklearn'', ''pipeline'', ''make_pipeline''],
        [''sklearn'', ''multiclass'', ''OneVsRestClassifier'']])]"
  by code_simp

lemma estimators_tsne_perplexity:
  "estimators plot_tsne_perplexity =
     [(''fit_transform'', [[''sklearn'', ''manifold'', ''TSNE'']])]"
  by code_simp

lemma estimators_image_denoising:
  "estimators plot_image_denoising =
     [(''fit'', [[''sklearn'', ''decomposition'', ''MiniBatchDictionaryLearning'']]),
      (''set_params'', [[''sklearn'', ''decomposition'', ''MiniBatchDictionaryLearning'']]),
      (''transform'', [[''sklearn'', ''decomposition'', ''MiniBatchDictionaryLearning'']])]"
  by code_simp

lemma estimators_gpr_co2:
  "estimators plot_gpr_co2 =
     [(''fit'', [[''sklearn'', ''gaussian_process'', ''GaussianProcessRegressor'']]),
      (''predict'', [[''sklearn'', ''gaussian_process'', ''GaussianProcessRegressor'']])]"
  by code_simp

lemma estimators_gpc:
  "estimators plot_gpc =
     [(''fit'', [[''sklearn'', ''gaussian_process'', ''GaussianProcessClassifier'']]),
      (''predict'', [[''sklearn'', ''gaussian_process'', ''GaussianProcessClassifier'']]),
      (''predict_proba'', [[''sklearn'', ''gaussian_process'', ''GaussianProcessClassifier'']])]"
  by code_simp

lemma estimators_all_scaling:
  "estimators plot_all_scaling =
     [(''fit_transform'', [[''sklearn'', ''preprocessing'', ''StandardScaler'']]),
      (''fit_transform'', [[''sklearn'', ''preprocessing'', ''MinMaxScaler'']]),
      (''fit_transform'', [[''sklearn'', ''preprocessing'', ''MaxAbsScaler'']]),
      (''fit_transform'', [[''sklearn'', ''preprocessing'', ''RobustScaler'']]),
      (''fit_transform'', [[''sklearn'', ''preprocessing'', ''PowerTransformer'']]),
      (''fit_transform'', [[''sklearn'', ''preprocessing'', ''QuantileTransformer'']]),
      (''fit_transform'', [[''sklearn'', ''preprocessing'', ''Normalizer'']])]"
  by code_simp

lemmas estimators_found =
  estimators_face_completion estimators_partial_dependence estimators_forest_hist_grad_boosting
  estimators_mahalanobis_distances estimators_sgd_early_stopping estimators_gmm_covariances
  estimators_roc_crossval estimators_svm_iris estimators_learning_curve
  estimators_precision_recall estimators_tsne_perplexity estimators_image_denoising
  estimators_gpr_co2 estimators_gpc estimators_all_scaling

section \<open>Estimators: all from the library\<close>

lemma library_estimators_face_completion: "library_estimators plot_face_completion"
  unfolding library_estimators_def estimators_face_completion by code_simp

lemma library_estimators_partial_dependence: "library_estimators plot_partial_dependence"
  unfolding library_estimators_def estimators_partial_dependence by code_simp

lemma library_estimators_forest_hist_grad_boosting: "library_estimators plot_forest_hist_grad_boosting"
  unfolding library_estimators_def estimators_forest_hist_grad_boosting by code_simp

lemma library_estimators_mahalanobis_distances: "library_estimators plot_mahalanobis_distances"
  unfolding library_estimators_def estimators_mahalanobis_distances by code_simp

lemma library_estimators_sgd_early_stopping: "library_estimators plot_sgd_early_stopping"
  unfolding library_estimators_def estimators_sgd_early_stopping by code_simp

lemma library_estimators_gmm_covariances: "library_estimators plot_gmm_covariances"
  unfolding library_estimators_def estimators_gmm_covariances by code_simp

lemma library_estimators_roc_crossval: "library_estimators plot_roc_crossval"
  unfolding library_estimators_def estimators_roc_crossval by code_simp

lemma library_estimators_svm_iris: "library_estimators plot_svm_iris"
  unfolding library_estimators_def estimators_svm_iris by code_simp

lemma library_estimators_learning_curve: "library_estimators plot_learning_curve"
  unfolding library_estimators_def estimators_learning_curve by code_simp

lemma library_estimators_precision_recall: "library_estimators plot_precision_recall"
  unfolding library_estimators_def estimators_precision_recall by code_simp

lemma library_estimators_tsne_perplexity: "library_estimators plot_tsne_perplexity"
  unfolding library_estimators_def estimators_tsne_perplexity by code_simp

lemma library_estimators_image_denoising: "library_estimators plot_image_denoising"
  unfolding library_estimators_def estimators_image_denoising by code_simp

lemma library_estimators_gpr_co2: "library_estimators plot_gpr_co2"
  unfolding library_estimators_def estimators_gpr_co2 by code_simp

lemma library_estimators_gpc: "library_estimators plot_gpc"
  unfolding library_estimators_def estimators_gpc by code_simp

lemma library_estimators_all_scaling: "library_estimators plot_all_scaling"
  unfolding library_estimators_def estimators_all_scaling by code_simp

text \<open>
  C4. No script defines a class; every class a script instantiates is imported from an
  external package; and every object on which a script calls \<^verbatim>\<open>fit\<close>, \<^verbatim>\<open>fit_transform\<close>,
  \<^verbatim>\<open>predict\<close>, \<^verbatim>\<open>transform\<close>, \<^verbatim>\<open>predict_proba\<close>, \<^verbatim>\<open>decision_function\<close>, \<^verbatim>\<open>score\<close> or
  \<^verbatim>\<open>set_params\<close> comes from a class or factory of the estimator library.
\<close>

theorem estimators_from_library: "\<forall>s \<in> set gallery. library_estimators s"
  unfolding gallery_def
  by (simp add: library_estimators_face_completion library_estimators_partial_dependence
      library_estimators_forest_hist_grad_boosting library_estimators_mahalanobis_distances
      library_estimators_sgd_early_stopping library_estimators_gmm_covariances
      library_estimators_roc_crossval library_estimators_svm_iris
      library_estimators_learning_curve library_estimators_precision_recall
      library_estimators_tsne_perplexity library_estimators_image_denoising
      library_estimators_gpr_co2 library_estimators_gpc library_estimators_all_scaling)

lemma instantiated_face_completion:
  "instantiated plot_face_completion =
     [[[''sklearn'', ''ensemble'', ''ExtraTreesRegressor'']],
      [[''sklearn'', ''neighbors'', ''KNeighborsRegressor'']],
      [[''sklearn'', ''linear_model'', ''LinearRegression'']],
      [[''sklearn'', ''linear_model'', ''RidgeCV'']]]"
  by code_simp

lemma instantiated_svm_iris:
  "instantiated plot_svm_iris =
     [[[''sklearn'', ''svm'', ''LinearSVC'']], [[''sklearn'', ''svm'', ''SVC'']]]"
  by code_simp

text \<open>
  The \<^verbatim>\<open>ESTIMATORS\<close> of the face completion script and the \<^verbatim>\<open>models\<close> of the SVM script.
\<close>

theorem estimators_from_library_witness:
  "library_estimators plot_face_completion \<and> library_estimators plot_svm_iris
   \<and> class_defs plot_face_completion = []
   \<and> instantiated plot_face_completion =
       [[[''sklearn'', ''ensemble'', ''ExtraTreesRegressor'']],
        [[''sklearn'', ''neighbors'', ''KNeighborsRegressor'']],
        [[''sklearn'', ''linear_model'', ''LinearRegression'']],
        [[''sklearn'', ''linear_model'', ''RidgeCV'']]]
   \<and> estimators plot_face_completion =
       [(''fit'',
         [[''sklearn'', ''ensemble'', ''ExtraTreesRegressor''],
          [''sklearn'', ''neighbors'', ''KNeighborsRegressor''],
          [''sklearn'', ''linear_model'', ''LinearRegression''],
          [''sklearn'', ''linear_model'', ''RidgeCV'']]),
        (''predict'',
         [[''sklearn'', ''ensemble'', ''ExtraTreesRegressor''],
          [''sklearn'', ''neighbors'', ''KNeighborsRegressor''],
          [''sklearn'', ''linear_model'', ''LinearRegression''],
          [''sklearn'', ''linear_model'', ''RidgeCV'']])]
   \<and> instantiated plot_svm_iris = [[[''sklearn'', ''svm'', ''LinearSVC'']], [[''sklearn'', ''svm'', ''SVC'']]]
   \<and> estimators plot_svm_iris =
       [(''fit'', [[''sklearn'', ''svm'', ''LinearSVC''], [''sklearn'', ''svm'', ''SVC'']])]"
proof -
  have "plot_face_completion \<in> set gallery" "plot_svm_iris \<in> set gallery"
    by (simp_all add: gallery_def)
  with estimators_from_library
  have "library_estimators plot_face_completion" "library_estimators plot_svm_iris"
    by blast+
  then show ?thesis
    by (simp add: library_estimators_def instantiated_face_completion instantiated_svm_iris
        estimators_face_completion estimators_svm_iris)
qed

section \<open>Estimators: every family is fitted somewhere\<close>

lemma fits_svm_iris: "fits_family [''sklearn'', ''svm''] plot_svm_iris"
  unfolding fits_family_def estimators_svm_iris by code_simp

lemma fits_face_completion: "fits_family [''sklearn'', ''ensemble''] plot_face_completion"
  unfolding fits_family_def estimators_face_completion by code_simp

lemma fits_gpr_co2: "fits_family [''sklearn'', ''gaussian_process''] plot_gpr_co2"
  unfolding fits_family_def estimators_gpr_co2 by code_simp

lemma fits_mahalanobis_distances:
  "fits_family [''sklearn'', ''covariance'']
     plot_mahalanobis_distances"
  unfolding fits_family_def estimators_mahalanobis_distances by code_simp

lemma fits_tsne_perplexity:
  "fits_family [''sklearn'', ''manifold'', ''TSNE'']
     plot_tsne_perplexity"
  unfolding fits_family_def estimators_tsne_perplexity by code_simp

lemma fits_image_denoising:
  "fits_family [''sklearn'', ''decomposition'', ''MiniBatchDictionaryLearning'']
     plot_image_denoising"
  unfolding fits_family_def estimators_image_denoising by code_simp

lemma fits_all_scaling: "fits_family [''sklearn'', ''preprocessing''] plot_all_scaling"
  unfolding fits_family_def estimators_all_scaling by code_simp

lemma fits_gmm_covariances:
  "fits_family [''sklearn'', ''mixture'', ''GaussianMixture'']
     plot_gmm_covariances"
  unfolding fits_family_def estimators_gmm_covariances by code_simp

text \<open>
  C7. For each of the eight families (support-vector classifiers, ensemble trees, Gaussian
  processes, covariance estimators, t-SNE, dictionary learning, scalers and transformers,
  Gaussian mixtures) some script of the gallery calls \<^verbatim>\<open>fit\<close> or \<^verbatim>\<open>fit_transform\<close> on an
  object constructed from a class of that family.
\<close>

theorem every_family_fitted:
  "\<forall>fam \<in> set estimator_families. \<exists>s \<in> set gallery. fits_family fam s"
  unfolding estimator_families_def gallery_def
  by (simp add: fits_svm_iris fits_face_completion fits_gpr_co2 fits_mahalanobis_distances
      fits_tsne_perplexity fits_image_denoising fits_all_scaling fits_gmm_covariances)

text \<open>
  The scalers of the scaling script, the mixtures of the GMM script and the dictionary
  learner of the denoising script.
\<close>

theorem every_family_fitted_witness:
  "(\<exists>s \<in> set gallery. fits_family [''sklearn'', ''preprocessing''] s)
   \<and> (\<exists>s \<in> set gallery. fits_family [''sklearn'', ''mixture'', ''GaussianMixture''] s)
   \<and> (\<exists>s \<in> set gallery.
        fits_family [''sklearn'', ''decomposition'', ''MiniBatchDictionaryLearning''] s)
   \<and> estimators plot_gmm_covariances =
       [(''fit'', [[''sklearn'', ''mixture'', ''GaussianMixture'']]),
        (''predict'', [[''sklearn'', ''mixture'', ''GaussianMixture'']])]
   \<and> estimators plot_image_denoising =
       [(''fit'', [[''sklearn'', ''decomposition'', ''MiniBatchDictionaryLearning'']]),
        (''set_params'', [[''sklearn'', ''decomposition'', ''MiniBatchDictionaryLearning'']]),
        (''transform'', [[''sklearn'', ''decomposition'', ''MiniBatchDictionaryLearning'']])]"
  using every_family_fitted
  by (simp add: estimator_families_def estimators_gmm_covariances estimators_image_denoising)

section \<open>Independence\<close>

lemma self_contained_face_completion: "self_contained plot_face_completion"
  by code_simp

lemma self_contained_partial_dependence: "self_contained plot_partial_dependence"
  by code_simp

lemma self_contained_forest_hist_grad_boosting: "self_contained plot_forest_hist_grad_boosting"
  by code_simp

lemma self_contained_mahalanobis_distances: "self_contained plot_mahalanobis_distances"
  by code_simp

lemma self_contained_sgd_early_stopping: "self_contained plot_sgd_early_stopping"
  by code_simp

lemma self_contained_gmm_covariances: "self_contained plot_gmm_covariances"
  by code_simp

lemma self_contained_roc_crossval: "self_contained plot_roc_crossval"
  by code_simp

lemma self_contained_svm_iris: "self_contained plot_svm_iris"
  by code_simp

lemma self_contained_learning_curve: "self_contained plot_learning_curve"
  by code_simp

lemma self_contained_precision_recall: "self_contained plot_precision_recall"
  by code_simp

lemma self_contained_tsne_perplexity: "self_contained plot_tsne_perplexity"
  by code_simp

lemma self_contained_image_denoising: "self_contained plot_image_denoising"
  by code_simp

lemma self_contained_gpr_co2: "self_contained plot_gpr_co2"
  by code_simp

lemma self_contained_gpc: "self_contained plot_gpc"
  by code_simp

lemma self_contained_all_scaling: "self_contained plot_all_scaling"
  by code_simp

text \<open>
  C5. Every module a script imports belongs to an external package and none is a file or
  directory of the repository, and every name a script reads is bound in the script (by an
  import, an assignment, a loop, a function definition or a parameter) or is a name of the
  language.
\<close>

theorem scripts_self_contained: "\<forall>s \<in> set gallery. self_contained s"
  unfolding gallery_def
  by (simp add: self_contained_face_completion self_contained_partial_dependence
      self_contained_forest_hist_grad_boosting self_contained_mahalanobis_distances
      self_contained_sgd_early_stopping self_contained_gmm_covariances self_contained_roc_crossval
      self_contained_svm_iris self_contained_learning_curve self_contained_precision_recall
      self_contained_tsne_perplexity self_contained_image_denoising self_contained_gpr_co2
      self_contained_gpc self_contained_all_scaling)

lemma helpers_sgd_early_stopping:
  "map fst (helpers plot_sgd_early_stopping) = [''load_mnist'', ''fit_and_score'']"
  by code_simp

lemma helpers_image_denoising:
  "map fst (helpers plot_image_denoising) = [''show_with_diff'']"
  by code_simp

lemma imported_image_denoising:
  "uniq (imported_modules plot_image_denoising) =
     [[''numpy''],
      [''scipy'', ''datasets''],
      [''scipy'', ''misc''],
      [''matplotlib'', ''pyplot''],
      [''time''],
      [''sklearn'', ''decomposition''],
      [''sklearn'', ''feature_extraction'', ''image'']]"
  by code_simp

text \<open>A script that calls the helper of another script reads a name it does not bind.\<close>

lemma unbound_names_example:
  "unbound_names \<lparr>source_path = [], first_line = 1,
     body = [Assign 1 [Name ''data''] (Call (Name ''load_mnist'') [])]\<rparr> = [''load_mnist'']"
  by code_simp

text \<open>The scripts with the helpers \<^verbatim>\<open>load_mnist\<close> and \<^verbatim>\<open>show_with_diff\<close>.\<close>

theorem scripts_self_contained_witness:
  "self_contained plot_sgd_early_stopping \<and> self_contained plot_image_denoising
   \<and> unbound_names plot_sgd_early_stopping = []
   \<and> map fst (helpers plot_sgd_early_stopping) = [''load_mnist'', ''fit_and_score'']
   \<and> unbound_names plot_image_denoising = []
   \<and> map fst (helpers plot_image_denoising) = [''show_with_diff'']
   \<and> uniq (imported_modules plot_image_denoising) =
       [[''numpy''],
        [''scipy'', ''datasets''],
        [''scipy'', ''misc''],
        [''matplotlib'', ''pyplot''],
        [''time''],
        [''sklearn'', ''decomposition''],
        [''sklearn'', ''feature_extraction'', ''image'']]"
proof -
  have "plot_sgd_early_stopping \<in> set gallery" "plot_image_denoising \<in> set gallery"
    by (simp_all add: gallery_def)
  with scripts_self_contained
  have "self_contained plot_sgd_early_stopping" "self_contained plot_image_denoising"
    by blast+
  then show ?thesis
    by (simp add: self_contained_def helpers_sgd_early_stopping helpers_image_denoising
        imported_image_denoising)
qed

section \<open>The last statement\<close>

lemma ends_in_plot_face_completion: "ends_in_plot plot_face_completion"
  by code_simp

lemma ends_in_plot_partial_dependence: "ends_in_plot plot_partial_dependence"
  by code_simp

lemma ends_in_plot_forest_hist_grad_boosting: "ends_in_plot plot_forest_hist_grad_boosting"
  by code_simp

lemma ends_in_plot_mahalanobis_distances: "ends_in_plot plot_mahalanobis_distances"
  by code_simp

lemma ends_in_plot_sgd_early_stopping: "ends_in_plot plot_sgd_early_stopping"
  by code_simp

lemma ends_in_plot_gmm_covariances: "ends_in_plot plot_gmm_covariances"
  by code_simp

lemma ends_in_plot_roc_crossval: "ends_in_plot plot_roc_crossval"
  by code_simp

lemma ends_in_plot_svm_iris: "ends_in_plot plot_svm_iris"
  by code_simp

lemma ends_in_plot_learning_curve: "ends_in_plot plot_learning_curve"
  by code_simp

lemma ends_in_plot_precision_recall: "ends_in_plot plot_precision_recall"
  by code_simp

lemma ends_in_plot_tsne_perplexity: "ends_in_plot plot_tsne_perplexity"
  by code_simp

lemma ends_in_plot_image_denoising: "ends_in_plot plot_image_denoising"
  by code_simp

lemma ends_in_plot_gpc: "ends_in_plot plot_gpc"
  by code_simp

lemma ends_in_plot_all_scaling: "ends_in_plot plot_all_scaling"
  by code_simp

lemma final_gpr_co2:
  "final (body plot_gpr_co2) = [Expr 227 (Attribute (Name ''gaussian_process'') ''kernel_'')]"
  by code_simp

lemma before_final_gpr_co2:
  "final (butlast (body plot_gpr_co2)) =
     [Assign 215 [Name ''_''] (Call (Attribute (Name ''plt'') ''title'') [StrLit])]"
  by code_simp

lemma not_ends_in_plot_gpr_co2: "\<not> ends_in_plot plot_gpr_co2"
  unfolding ends_in_plot_def final_gpr_co2 by simp

lemma plot_before_end_gpr_co2: "plot_before_end plot_gpr_co2"
  by code_simp

text \<open>
  The CO2 script does not end in a plot: its last statement is the expression
  \<^verbatim>\<open>gaussian_process.kernel_\<close> (line 227), which reads the fitted kernel and draws
  nothing; the last plotting call, \<^verbatim>\<open>plt.title\<close> (line 215), comes before it.
\<close>

theorem gpr_co2_ends_with_kernel:
  "plot_gpr_co2 \<in> set gallery \<and> \<not> ends_in_plot plot_gpr_co2
   \<and> final (body plot_gpr_co2) = [Expr 227 (Attribute (Name ''gaussian_process'') ''kernel_'')]
   \<and> final (butlast (body plot_gpr_co2)) =
       [Assign 215 [Name ''_''] (Call (Attribute (Name ''plt'') ''title'') [StrLit])]"
  by (simp add: gallery_def not_ends_in_plot_gpr_co2 final_gpr_co2 before_final_gpr_co2)

text \<open>
  C3, as the code has it. Every script but the CO2 script ends in a plotting call: the last statement it
  runs calls a function of matplotlib or of plotly, a display class of the estimator library, or a
  method of an object that comes from one of them. The CO2 script ends with an expression
  that draws nothing, and the statement before it is a plotting call.
\<close>

theorem last_statement_plots:
  "(\<forall>s \<in> set gallery. ends_in_plot s \<or> plot_before_end s)
   \<and> filter (\<lambda>s. \<not> ends_in_plot s) gallery = [plot_gpr_co2]"
  unfolding gallery_def
  by (simp add: ends_in_plot_face_completion ends_in_plot_partial_dependence
      ends_in_plot_forest_hist_grad_boosting ends_in_plot_mahalanobis_distances
      ends_in_plot_sgd_early_stopping ends_in_plot_gmm_covariances ends_in_plot_roc_crossval
      ends_in_plot_svm_iris ends_in_plot_learning_curve ends_in_plot_precision_recall
      ends_in_plot_tsne_perplexity ends_in_plot_image_denoising ends_in_plot_gpc
      ends_in_plot_all_scaling
      not_ends_in_plot_gpr_co2 plot_before_end_gpr_co2)

lemma final_forest_hist_grad_boosting:
  "final (body plot_forest_hist_grad_boosting) =
     [Expr 202
        (Call (Attribute (Name ''fig'') ''update_layout'')
           [keyword ''xaxis'' (Call (Name ''dict'') [keyword ''title'' StrLit]),
            keyword ''yaxis'' (Call (Name ''dict'') [keyword ''title'' StrLit]),
            keyword ''xaxis2'' (Call (Name ''dict'') [keyword ''title'' StrLit]),
            keyword ''legend''
              (Call (Name ''dict'')
                 [keyword ''x'' NumLit,
                  keyword ''y'' NumLit,
                  keyword ''traceorder'' StrLit,
                  keyword ''borderwidth'' NumLit]),
            keyword ''title''
              (Call (Name ''dict'') [keyword ''x'' NumLit, keyword ''text'' StrLit])])]"
  by code_simp

lemma figure_of_forest_hist_grad_boosting:
  "made_by (import_env plot_forest_hist_grad_boosting) (graph plot_forest_hist_grad_boosting)
     (Attribute (Name ''fig'') ''update_layout'') = [[''plotly'', ''subplots'', ''make_subplots'']]"
  by code_simp

text \<open>
  The comparison of forests and gradient boosting ends with \<^verbatim>\<open>fig.update_layout\<close>, a method
  of the figure that plotly's \<^verbatim>\<open>make_subplots\<close> returned.
\<close>

theorem last_statement_plots_witness:
  "(ends_in_plot plot_forest_hist_grad_boosting \<or> plot_before_end plot_forest_hist_grad_boosting)
   \<and> made_by (import_env plot_forest_hist_grad_boosting) (graph plot_forest_hist_grad_boosting)
        (Attribute (Name ''fig'') ''update_layout'') = [[''plotly'', ''subplots'', ''make_subplots'']]
   \<and> final (body plot_forest_hist_grad_boosting) =
       [Expr 202
          (Call (Attribute (Name ''fig'') ''update_layout'')
             [keyword ''xaxis'' (Call (Name ''dict'') [keyword ''title'' StrLit]),
              keyword ''yaxis'' (Call (Name ''dict'') [keyword ''title'' StrLit]),
              keyword ''xaxis2'' (Call (Name ''dict'') [keyword ''title'' StrLit]),
              keyword ''legend''
                (Call (Name ''dict'')
                   [keyword ''x'' NumLit,
                    keyword ''y'' NumLit,
                    keyword ''traceorder'' StrLit,
                    keyword ''borderwidth'' NumLit]),
              keyword ''title''
                (Call (Name ''dict'') [keyword ''x'' NumLit, keyword ''text'' StrLit])])]"
proof -
  have "plot_forest_hist_grad_boosting \<in> set gallery"
    by (simp add: gallery_def)
  with last_statement_plots
  have "ends_in_plot plot_forest_hist_grad_boosting \<or> plot_before_end plot_forest_hist_grad_boosting"
    by blast
  then show ?thesis
    by (simp add: figure_of_forest_hist_grad_boosting final_forest_hist_grad_boosting)
qed

section \<open>Failure handling\<close>

lemma no_failure_handling_face_completion: "no_failure_handling plot_face_completion"
  by code_simp

lemma no_failure_handling_partial_dependence: "no_failure_handling plot_partial_dependence"
  by code_simp

lemma no_failure_handling_forest_hist_grad_boosting: "no_failure_handling plot_forest_hist_grad_boosting"
  by code_simp

lemma no_failure_handling_mahalanobis_distances: "no_failure_handling plot_mahalanobis_distances"
  by code_simp

lemma no_failure_handling_sgd_early_stopping: "no_failure_handling plot_sgd_early_stopping"
  by code_simp

lemma no_failure_handling_gmm_covariances: "no_failure_handling plot_gmm_covariances"
  by code_simp

lemma no_failure_handling_roc_crossval: "no_failure_handling plot_roc_crossval"
  by code_simp

lemma no_failure_handling_svm_iris: "no_failure_handling plot_svm_iris"
  by code_simp

lemma no_failure_handling_learning_curve: "no_failure_handling plot_learning_curve"
  by code_simp

lemma no_failure_handling_precision_recall: "no_failure_handling plot_precision_recall"
  by code_simp

lemma no_failure_handling_tsne_perplexity: "no_failure_handling plot_tsne_perplexity"
  by code_simp

lemma no_failure_handling_gpr_co2: "no_failure_handling plot_gpr_co2"
  by code_simp

lemma no_failure_handling_gpc: "no_failure_handling plot_gpc"
  by code_simp

lemma no_failure_handling_all_scaling: "no_failure_handling plot_all_scaling"
  by code_simp

lemma try_image_denoising:
  "in_statements try_statement plot_image_denoising =
     [Try 52 [ImportFrom 53 [''scipy'', ''datasets''] [(''face'', [])]]
        [ExceptHandler 54 (Name ''ImportError'')
           [ImportFrom 55 [''scipy'', ''misc''] [(''face'', [])]]]]"
  by code_simp

lemma decorators_sgd_early_stopping:
  "decorators plot_sgd_early_stopping =
     [[[''sklearn'', ''utils'', ''_testing'', ''ignore_warnings'']]]"
  by code_simp

lemma handling_image_denoising: "\<not> no_failure_handling plot_image_denoising"
  unfolding no_failure_handling_def try_image_denoising by simp

lemma only_import_fallback_image_denoising: "only_import_fallback plot_image_denoising"
  by code_simp

lemma only_import_fallbackI: "no_failure_handling s \<Longrightarrow> only_import_fallback s"
  by (simp add: no_failure_handling_def only_import_fallback_def)

text \<open>
  The denoising script handles a failure itself: its \<^verbatim>\<open>try\<close> (lines 52 to 55) catches the \<^verbatim>\<open>ImportError\<close> of \<^verbatim>\<open>from scipy.datasets import face\<close>
  and imports \<^verbatim>\<open>face\<close> from \<^verbatim>\<open>scipy.misc\<close> instead.
\<close>

theorem image_denoising_catches_import_error:
  "plot_image_denoising \<in> set gallery \<and> \<not> no_failure_handling plot_image_denoising
   \<and> in_statements try_statement plot_image_denoising =
       [Try 52 [ImportFrom 53 [''scipy'', ''datasets''] [(''face'', [])]]
          [ExceptHandler 54 (Name ''ImportError'')
             [ImportFrom 55 [''scipy'', ''misc''] [(''face'', [])]]]]"
  by (simp add: gallery_def handling_image_denoising try_image_denoising)

text \<open>
  C6, as the code has it. No script raises, uses a context manager or imports \<^verbatim>\<open>warnings\<close>; every
  decorator is imported from the estimator library; and the only \<^verbatim>\<open>try\<close> of the gallery is the one
  of the denoising script, which does nothing but choose where to import a name from.
\<close>

theorem only_an_import_fallback:
  "(\<forall>s \<in> set gallery. only_import_fallback s)
   \<and> filter (\<lambda>s. \<not> no_failure_handling s) gallery = [plot_image_denoising]"
  unfolding gallery_def
  by (simp add: only_import_fallbackI
      no_failure_handling_face_completion no_failure_handling_partial_dependence
      no_failure_handling_forest_hist_grad_boosting no_failure_handling_mahalanobis_distances
      no_failure_handling_sgd_early_stopping no_failure_handling_gmm_covariances
      no_failure_handling_roc_crossval no_failure_handling_svm_iris
      no_failure_handling_learning_curve no_failure_handling_precision_recall
      no_failure_handling_tsne_perplexity no_failure_handling_gpr_co2 no_failure_handling_gpc
      no_failure_handling_all_scaling
      handling_image_denoising only_import_fallback_image_denoising)

text \<open>
  The script with \<^verbatim>\<open>fit_and_score\<close>, decorated with the library's \<^verbatim>\<open>ignore_warnings\<close>, and the
  denoising script.
\<close>

theorem only_an_import_fallback_witness:
  "only_import_fallback plot_sgd_early_stopping \<and> only_import_fallback plot_image_denoising
   \<and> decorators plot_sgd_early_stopping = [[[''sklearn'', ''utils'', ''_testing'', ''ignore_warnings'']]]
   \<and> in_statements try_statement plot_sgd_early_stopping = []
   \<and> every import_fallback (in_statements try_statement plot_image_denoising)"
proof -
  have "plot_sgd_early_stopping \<in> set gallery" "plot_image_denoising \<in> set gallery"
    by (simp_all add: gallery_def)
  with only_an_import_fallback
  have "only_import_fallback plot_sgd_early_stopping" "only_import_fallback plot_image_denoising"
    by blast+
  moreover have "in_statements try_statement plot_sgd_early_stopping = []"
    using no_failure_handling_sgd_early_stopping by (simp add: no_failure_handling_def)
  ultimately show ?thesis
    by (simp add: only_import_fallback_def decorators_sgd_early_stopping)
qed

section \<open>Data, model, figure\<close>





















































section \<open>The scripts' own logic\<close>






































end
